theory Spec2Isabelle
  imports Main
begin

section \<open>JavaScript values\<close>

text \<open>
  Event payloads and cached entities are JSON objects decoded by the transport. A value is
  one of the JSON shapes, plus \<open>JUndef\<close> for JavaScript's \<open>undefined\<close> (what a read of
  a missing property yields, and what a property written from one holds). An object is a
  finite map from property names to values.
\<close>

datatype jval =
    JUndef
  | JNull
  | JBool bool
  | JNum int
  | JStr string
  | JArr "jval list"
  | JObj "string \<Rightarrow> jval option"

type_synonym obj = "string \<rightharpoonup> jval"

text \<open>Property read \<open>o.k\<close>: a missing property reads as \<open>undefined\<close>.\<close>

definition field :: "obj \<Rightarrow> string \<Rightarrow> jval" where
  "field d k = (case d k of None \<Rightarrow> JUndef | Some v \<Rightarrow> v)"

text \<open>JavaScript truthiness, as tested by \<open>if (x)\<close> and \<open>!x\<close>.\<close>

fun truthy :: "jval \<Rightarrow> bool" where
  "truthy JUndef = False"
| "truthy JNull = False"
| "truthy (JBool b) = b"
| "truthy (JNum n) = (n \<noteq> 0)"
| "truthy (JStr s) = (s \<noteq> [])"
| "truthy (JArr xs) = True"
| "truthy (JObj m) = True"

text \<open>
  The own properties that \<open>Object.assign\<close> and a property read find on a value: those of
  an object, none on a primitive.
\<close>

fun as_obj :: "jval \<Rightarrow> obj" where
  "as_obj (JObj m) = m"
| "as_obj v = Map.empty"

text \<open>Decimal text of an integer, for \<open>String(n)\<close>.\<close>

definition digit_char :: "nat \<Rightarrow> char" where
  "digit_char k = ''0123456789'' ! (k mod 10)"

fun nat_digits :: "nat \<Rightarrow> string" where
  "nat_digits n = (if n < 10 then [digit_char n] else nat_digits (n div 10) @ [digit_char n])"

definition int_string :: "int \<Rightarrow> string" where
  "int_string i = (if i < 0 then CHR ''-'' # nat_digits (nat (- i)) else nat_digits (nat i))"

fun join_comma :: "string list \<Rightarrow> string" where
  "join_comma [] = []"
| "join_comma [x] = x"
| "join_comma (x # y # ys) = x @ '','' @ join_comma (y # ys)"

fun blank_nullish :: "jval \<Rightarrow> string \<Rightarrow> string" where
  "blank_nullish JUndef s = []"
| "blank_nullish JNull s = []"
| "blank_nullish v s = s"

text \<open>
  \<open>String(v)\<close>, the conversion a template literal \<open>`${v}`\<close> applies: \<open>undefined\<close> becomes
  the text \<open>undefined\<close>, an array the comma-joined texts of its elements.
\<close>

primrec js_string :: "jval \<Rightarrow> string" where
  "js_string JUndef = ''undefined''"
| "js_string JNull = ''null''"
| "js_string (JBool b) = (if b then ''true'' else ''false'')"
| "js_string (JNum n) = int_string n"
| "js_string (JStr s) = s"
| "js_string (JArr xs) = join_comma (map2 blank_nullish xs (map js_string xs))"
| "js_string (JObj m) = ''[object Object]''"

text \<open>
  Strict equality \<open>a === b\<close>. Primitives compare by value. Two objects or arrays are equal
  only when they are the same reference; the places that compare (\<open>e.id === emoji.id\<close>)
  read their operands out of different objects, so two non-primitives are never equal.
\<close>

fun strict_eq :: "jval \<Rightarrow> jval \<Rightarrow> bool" where
  "strict_eq JUndef JUndef = True"
| "strict_eq JNull JNull = True"
| "strict_eq (JBool a) (JBool b) = (a = b)"
| "strict_eq (JNum a) (JNum b) = (a = b)"
| "strict_eq (JStr a) (JStr b) = (a = b)"
| "strict_eq a b = False"

text \<open>
  \<open>JSON.parse(JSON.stringify(v))\<close>: a property holding \<open>undefined\<close> is dropped, an array
  element holding \<open>undefined\<close> becomes \<open>null\<close>.
\<close>

fun undef_to_null :: "jval \<Rightarrow> jval" where
  "undef_to_null JUndef = JNull"
| "undef_to_null v = v"

definition drop_undef :: "obj \<Rightarrow> obj" where
  "drop_undef m = (\<lambda>k. case m k of Some JUndef \<Rightarrow> None | r \<Rightarrow> r)"

primrec json_roundtrip :: "jval \<Rightarrow> jval" where
  "json_roundtrip JUndef = JUndef"
| "json_roundtrip JNull = JNull"
| "json_roundtrip (JBool b) = JBool b"
| "json_roundtrip (JNum n) = JNum n"
| "json_roundtrip (JStr s) = JStr s"
| "json_roundtrip (JArr xs) = JArr (map undef_to_null (map json_roundtrip xs))"
| "json_roundtrip (JObj m) = JObj (drop_undef (map_option json_roundtrip \<circ> m))"

section \<open>The Redis client\<close>

text \<open>
  The storage engine talks to one Redis keyspace. A key holds a string (here: the object
  its JSON text denotes) or a set. A command on a key of the other type fails with
  \<open>WRONGTYPE\<close>; \<open>SADD\<close> without a member fails with an arity error; \<open>SET\<close> and \<open>DEL\<close>
  work on any key. A set that loses its last member is deleted. \<open>SMEMBERS\<close> returns the
  members in some order; the model keeps them in insertion order.
\<close>

datatype rval = RString obj | RSet "string list"

type_synonym redis = "string \<rightharpoonup> rval"

datatype error =
    WrongType
  | WrongArity
  | TypeError
  | MissingGuildId
  | EmptyGuildId string

text \<open>
  The entity caches created by the composition root are shared objects. \<open>bindGuild\<close> and
  \<open>bindChannel\<close> mutate them, and their methods read \<open>this.boundGuild\<close> as the default of
  an omitted scope, so the bindings are state next to the keyspace.
\<close>

record world =
  store :: redis
  role_boundGuild :: jval
  emoji_boundGuild :: jval
  member_boundGuild :: jval
  channel_boundGuild :: jval
  presence_boundGuild :: jval
  channelMap_boundGuild :: jval
  permOverwrite_boundGuild :: jval
  permOverwrite_boundChannel :: jval

text \<open>
  An asynchronous method is a function from the state to a result and the state it leaves:
  \<open>Inl e\<close> is a rejected promise or a thrown exception, \<open>Inr x\<close> a fulfilled one. The
  promises of a \<open>Promise.all\<close> batch are run in the order they are created.
\<close>

type_synonym 'a io = "world \<Rightarrow> (error + 'a) \<times> world"

definition io_return :: "'a \<Rightarrow> 'a io" where
  "io_return x = (\<lambda>w. (Inr x, w))"

definition io_throw :: "error \<Rightarrow> 'a io" where
  "io_throw e = (\<lambda>w. (Inl e, w))"

definition io_bind :: "'a io \<Rightarrow> ('a \<Rightarrow> 'b io) \<Rightarrow> 'b io" where
  "io_bind m f = (\<lambda>w. case m w of (Inl e, w') \<Rightarrow> (Inl e, w') | (Inr x, w') \<Rightarrow> f x w')"

definition io_then :: "'a io \<Rightarrow> 'b io \<Rightarrow> 'b io" where
  "io_then m n = io_bind m (\<lambda>_. n)"

fun io_foreach :: "'a list \<Rightarrow> ('a \<Rightarrow> unit io) \<Rightarrow> unit io" where
  "io_foreach [] f = io_return ()"
| "io_foreach (x # xs) f = io_then (f x) (io_foreach xs f)"

fun io_map :: "('a \<Rightarrow> 'b io) \<Rightarrow> 'a list \<Rightarrow> 'b list io" where
  "io_map f [] = io_return []"
| "io_map f (x # xs) = io_bind (f x) (\<lambda>y. io_bind (io_map f xs) (\<lambda>ys. io_return (y # ys)))"

text \<open>
  The client turns a command argument into text: \<open>null\<close> and \<open>undefined\<close> become the
  empty string, everything else \<open>String(v)\<close>.
\<close>

fun redis_arg :: "jval \<Rightarrow> string" where
  "redis_arg JUndef = []"
| "redis_arg JNull = []"
| "redis_arg v = js_string v"

definition redis_GET :: "string \<Rightarrow> obj option io" where
  "redis_GET k = (\<lambda>w. case store w k of
       None \<Rightarrow> (Inr None, w)
     | Some (RString d) \<Rightarrow> (Inr (Some d), w)
     | Some (RSet xs) \<Rightarrow> (Inl WrongType, w))"

definition redis_SET :: "string \<Rightarrow> obj \<Rightarrow> unit io" where
  "redis_SET k d = (\<lambda>w. (Inr (), w\<lparr>store := (store w)(k \<mapsto> RString d)\<rparr>))"

definition redis_DEL :: "string \<Rightarrow> unit io" where
  "redis_DEL k = (\<lambda>w. (Inr (), w\<lparr>store := (store w)(k := None)\<rparr>))"

definition redis_SMEMBERS :: "string \<Rightarrow> string list io" where
  "redis_SMEMBERS k = (\<lambda>w. case store w k of
       None \<Rightarrow> (Inr [], w)
     | Some (RSet xs) \<Rightarrow> (Inr xs, w)
     | Some (RString d) \<Rightarrow> (Inl WrongType, w))"

fun set_insert :: "string list \<Rightarrow> string list \<Rightarrow> string list" where
  "set_insert xs [] = xs"
| "set_insert xs (y # ys) = set_insert (if y \<in> set xs then xs else xs @ [y]) ys"

definition redis_SADD :: "string \<Rightarrow> string list \<Rightarrow> unit io" where
  "redis_SADD k ms = (\<lambda>w.
     if ms = [] then (Inl WrongArity, w)
     else case store w k of
       None \<Rightarrow> (Inr (), w\<lparr>store := (store w)(k \<mapsto> RSet (set_insert [] ms))\<rparr>)
     | Some (RSet xs) \<Rightarrow> (Inr (), w\<lparr>store := (store w)(k \<mapsto> RSet (set_insert xs ms))\<rparr>)
     | Some (RString d) \<Rightarrow> (Inl WrongType, w))"

definition redis_SISMEMBER :: "string \<Rightarrow> string \<Rightarrow> bool io" where
  "redis_SISMEMBER k m = (\<lambda>w. case store w k of
       None \<Rightarrow> (Inr False, w)
     | Some (RSet xs) \<Rightarrow> (Inr (m \<in> set xs), w)
     | Some (RString d) \<Rightarrow> (Inl WrongType, w))"

definition redis_SREM :: "string \<Rightarrow> string \<Rightarrow> unit io" where
  "redis_SREM k m = (\<lambda>w. case store w k of
       None \<Rightarrow> (Inr (), w)
     | Some (RSet xs) \<Rightarrow>
         (Inr (), w\<lparr>store := (if removeAll m xs = [] then (store w)(k := None)
                                else (store w)(k \<mapsto> RSet (removeAll m xs)))\<rparr>)
     | Some (RString d) \<Rightarrow> (Inl WrongType, w))"

definition redis_SCARD :: "string \<Rightarrow> nat io" where
  "redis_SCARD k = (\<lambda>w. case store w k of
       None \<Rightarrow> (Inr 0, w)
     | Some (RSet xs) \<Rightarrow> (Inr (length xs), w)
     | Some (RString d) \<Rightarrow> (Inl WrongType, w))"

section \<open>RedisStorageEngine\<close>

text \<open>
  The engine in its default configuration \<open>useHash = false\<close>: a record is the JSON text of
  an object under a string key, an index is a Redis set. \<open>prepareData\<close> is
  \<open>JSON.stringify\<close> and \<open>parseData\<close> is \<open>JSON.parse\<close>; a stored string is represented by
  the object it parses to, so \<open>prepareData\<close> is the round trip through JSON text and
  \<open>parseData\<close> gives the stored object back.
\<close>

definition prepareData :: "obj \<Rightarrow> obj" where
  "prepareData data = drop_undef (map_option json_roundtrip \<circ> data)"

definition engine_get :: "string \<Rightarrow> obj option io" where
  "engine_get id' = redis_GET id'"

definition engine_upsert :: "string \<Rightarrow> obj \<Rightarrow> unit io" where
  "engine_upsert id' updateData =
     io_bind (engine_get id') (\<lambda>data.
       redis_SET id' (prepareData ((case data of None \<Rightarrow> Map.empty | Some d \<Rightarrow> d) ++ updateData)))"

definition engine_remove :: "string \<Rightarrow> unit io" where
  "engine_remove id' = redis_DEL id'"

definition engine_getListMembers :: "string \<Rightarrow> string list io" where
  "engine_getListMembers listId = redis_SMEMBERS listId"

text \<open>\<open>addToList\<close> takes one id or an array of ids; the client flattens the array.\<close>

fun sadd_members :: "jval \<Rightarrow> string list" where
  "sadd_members (JArr xs) = map redis_arg xs"
| "sadd_members v = [redis_arg v]"

definition engine_addToList :: "string \<Rightarrow> jval \<Rightarrow> unit io" where
  "engine_addToList listId ids = redis_SADD listId (sadd_members ids)"

definition engine_isListMember :: "string \<Rightarrow> jval \<Rightarrow> bool io" where
  "engine_isListMember listId id' = redis_SISMEMBER listId (redis_arg id')"

definition engine_removeFromList :: "string \<Rightarrow> jval \<Rightarrow> unit io" where
  "engine_removeFromList listId id' = redis_SREM listId (redis_arg id')"

definition engine_removeList :: "string \<Rightarrow> unit io" where
  "engine_removeList listId = engine_remove listId"

definition engine_getListCount :: "string \<Rightarrow> nat io" where
  "engine_getListCount listId = redis_SCARD listId"

text \<open>
  \<open>filter(fn, ids, namespace)\<close>: with \<open>ids\<close> null the candidates are the members of the
  set \<open>namespace\<close>; each candidate is read (a missing record reads as null) and the
  predicate is applied to what was read.
\<close>

definition engine_filter ::
  "(obj option \<Rightarrow> bool) \<Rightarrow> string list option \<Rightarrow> string \<Rightarrow> obj option list io" where
  "engine_filter fn ids namespace =
     io_bind (case ids of None \<Rightarrow> engine_getListMembers namespace | Some xs \<Rightarrow> io_return xs)
       (\<lambda>data. io_bind (io_map (\<lambda>id'. engine_get (namespace @ ''.'' @ id')) data)
         (\<lambda>resolvedDataArray. io_return (filter fn resolvedDataArray)))"

section \<open>BaseCache\<close>

text \<open>A parameter with a default value takes the default exactly when it is \<open>undefined\<close>.\<close>

fun default_arg :: "jval \<Rightarrow> jval \<Rightarrow> jval" where
  "default_arg JUndef d = d"
| "default_arg v d = v"

text \<open>
  Reading the default of a parameter from a slot of the instance (\<open>guildId = this.boundGuild\<close>).
\<close>

definition with_default :: "jval \<Rightarrow> (world \<Rightarrow> jval) \<Rightarrow> jval io" where
  "with_default v slot = (\<lambda>w. (Inr (default_arg v (slot w)), w))"

definition BaseCache_buildId :: "string \<Rightarrow> jval \<Rightarrow> string" where
  "BaseCache_buildId namespace id' = namespace @ ''.'' @ js_string id'"

text \<open>
  The index helpers call \<open>this.buildId(objectId)\<close>, which is the subclass's method with
  its second argument missing; \<open>buildId\<close> below stands for that one-argument call and
  \<open>boundGuild\<close> for the instance's \<open>this.boundGuild\<close>.
\<close>

definition BaseCache_addToIndex ::
  "(jval \<Rightarrow> string) \<Rightarrow> (world \<Rightarrow> jval) \<Rightarrow> jval \<Rightarrow> jval \<Rightarrow> unit io" where
  "BaseCache_addToIndex buildId boundGuild id' objectId =
     io_bind (with_default objectId boundGuild) (\<lambda>objectId. engine_addToList (buildId objectId) id')"

definition BaseCache_removeFromIndex ::
  "(jval \<Rightarrow> string) \<Rightarrow> (world \<Rightarrow> jval) \<Rightarrow> jval \<Rightarrow> jval \<Rightarrow> unit io" where
  "BaseCache_removeFromIndex buildId boundGuild id' objectId =
     io_bind (with_default objectId boundGuild) (\<lambda>objectId. engine_removeFromList (buildId objectId) id')"

definition BaseCache_isIndexed ::
  "(jval \<Rightarrow> string) \<Rightarrow> (world \<Rightarrow> jval) \<Rightarrow> jval \<Rightarrow> jval \<Rightarrow> bool io" where
  "BaseCache_isIndexed buildId boundGuild id' objectId =
     io_bind (with_default objectId boundGuild) (\<lambda>objectId. engine_isListMember (buildId objectId) id')"

definition BaseCache_getIndexMembers ::
  "(jval \<Rightarrow> string) \<Rightarrow> (world \<Rightarrow> jval) \<Rightarrow> jval \<Rightarrow> string list io" where
  "BaseCache_getIndexMembers buildId boundGuild objectId =
     io_bind (with_default objectId boundGuild) (\<lambda>objectId. engine_getListMembers (buildId objectId))"

section \<open>Entity caches\<close>

text \<open>
  Each method below is the method of a cache instance that holds no bound object, as the
  instances built by the composition root are: the part after the
  \<open>if (this.boundObject)\<close> guard. The guarded part is modelled in the section on bound
  instances. Identifiers and scopes are JavaScript values, since the dispatcher passes
  payload properties on as they are. \<open>get\<close> and \<open>update\<close> return a new instance bound to
  an object; the model returns that object.
\<close>

subsection \<open>RoleCache\<close>

definition RoleCache_buildId :: "jval \<Rightarrow> jval \<Rightarrow> string" where
  "RoleCache_buildId roleId guildId =
     (if \<not> truthy guildId then BaseCache_buildId ''role'' roleId
      else ''role'' @ ''.'' @ js_string guildId @ ''.'' @ js_string roleId)"

definition RoleCache_addToIndex :: "jval \<Rightarrow> jval \<Rightarrow> unit io" where
  "RoleCache_addToIndex = BaseCache_addToIndex (\<lambda>x. RoleCache_buildId x JUndef) role_boundGuild"

definition RoleCache_removeFromIndex :: "jval \<Rightarrow> jval \<Rightarrow> unit io" where
  "RoleCache_removeFromIndex =
     BaseCache_removeFromIndex (\<lambda>x. RoleCache_buildId x JUndef) role_boundGuild"

definition RoleCache_isIndexed :: "jval \<Rightarrow> jval \<Rightarrow> bool io" where
  "RoleCache_isIndexed = BaseCache_isIndexed (\<lambda>x. RoleCache_buildId x JUndef) role_boundGuild"

definition RoleCache_getIndexMembers :: "jval \<Rightarrow> string list io" where
  "RoleCache_getIndexMembers =
     BaseCache_getIndexMembers (\<lambda>x. RoleCache_buildId x JUndef) role_boundGuild"

definition RoleCache_get :: "jval \<Rightarrow> jval \<Rightarrow> obj option io" where
  "RoleCache_get id' guildId = engine_get (RoleCache_buildId id' guildId)"

definition RoleCache_update :: "jval \<Rightarrow> jval \<Rightarrow> obj \<Rightarrow> obj io" where
  "RoleCache_update id' guildId data =
     (if \<not> truthy guildId then io_throw MissingGuildId
      else
        let data1 = (if \<not> truthy (field data ''guild_id'') then data(''guild_id'' \<mapsto> guildId) else data);
            data2 = (if \<not> truthy (field data1 ''id'') then data1(''id'' \<mapsto> id') else data1)
        in io_then (RoleCache_addToIndex id' guildId)
            (io_then (engine_upsert (RoleCache_buildId id' guildId) data2)
              (io_return data2)))"

definition RoleCache_remove :: "jval \<Rightarrow> jval \<Rightarrow> unit io" where
  "RoleCache_remove id' guildId =
     io_bind (engine_get (RoleCache_buildId id' guildId)) (\<lambda>role.
       case role of
         Some r \<Rightarrow> io_then (RoleCache_removeFromIndex id' guildId)
                     (engine_remove (RoleCache_buildId id' guildId))
       | None \<Rightarrow> io_return ())"

subsection \<open>EmojiCache\<close>

definition EmojiCache_buildId :: "jval \<Rightarrow> jval \<Rightarrow> string" where
  "EmojiCache_buildId emojiId guildId =
     (if \<not> truthy guildId then BaseCache_buildId ''emoji'' emojiId
      else ''emoji'' @ ''.'' @ js_string guildId @ ''.'' @ js_string emojiId)"

definition EmojiCache_addToIndex :: "jval \<Rightarrow> jval \<Rightarrow> unit io" where
  "EmojiCache_addToIndex = BaseCache_addToIndex (\<lambda>x. EmojiCache_buildId x JUndef) emoji_boundGuild"

definition EmojiCache_removeFromIndex :: "jval \<Rightarrow> jval \<Rightarrow> unit io" where
  "EmojiCache_removeFromIndex =
     BaseCache_removeFromIndex (\<lambda>x. EmojiCache_buildId x JUndef) emoji_boundGuild"

definition EmojiCache_isIndexed :: "jval \<Rightarrow> jval \<Rightarrow> bool io" where
  "EmojiCache_isIndexed = BaseCache_isIndexed (\<lambda>x. EmojiCache_buildId x JUndef) emoji_boundGuild"

definition EmojiCache_getIndexMembers :: "jval \<Rightarrow> string list io" where
  "EmojiCache_getIndexMembers =
     BaseCache_getIndexMembers (\<lambda>x. EmojiCache_buildId x JUndef) emoji_boundGuild"

definition EmojiCache_get :: "jval \<Rightarrow> jval \<Rightarrow> obj option io" where
  "EmojiCache_get id' guildId0 =
     io_bind (with_default guildId0 emoji_boundGuild) (\<lambda>guildId.
             engine_get (EmojiCache_buildId id' guildId))"

definition EmojiCache_update :: "jval \<Rightarrow> jval \<Rightarrow> obj \<Rightarrow> obj io" where
  "EmojiCache_update id' guildId0 data =
     io_bind (with_default guildId0 emoji_boundGuild) (\<lambda>guildId.
             io_then (EmojiCache_addToIndex id' guildId)
               (io_then (engine_upsert (EmojiCache_buildId id' guildId) data)
                 (io_return data)))"

definition EmojiCache_remove :: "jval \<Rightarrow> jval \<Rightarrow> unit io" where
  "EmojiCache_remove id' guildId0 =
     io_bind (with_default guildId0 emoji_boundGuild) (\<lambda>guildId.
             io_bind (engine_get (EmojiCache_buildId id' guildId)) (\<lambda>emoji.
               case emoji of
                 Some e \<Rightarrow> io_then (EmojiCache_removeFromIndex id' guildId)
                             (engine_remove (EmojiCache_buildId id' guildId))
               | None \<Rightarrow> io_return ()))"

text \<open>
  \<open>filter\<close> wraps every object the engine returns in an instance bound to it; a null among
  them gives an instance that is bound to nothing.
\<close>

definition EmojiCache_filter :: "(obj option \<Rightarrow> bool) \<Rightarrow> jval \<Rightarrow> obj option list io" where
  "EmojiCache_filter fn guildId0 =
     io_bind (with_default guildId0 emoji_boundGuild) (\<lambda>guildId.
             engine_filter fn None (BaseCache_buildId ''emoji'' guildId))"

subsection \<open>PermissionOverwriteCache\<close>

definition PermissionOverwriteCache_buildId :: "jval \<Rightarrow> jval \<Rightarrow> string" where
  "PermissionOverwriteCache_buildId permissionId channelId =
     (if \<not> truthy channelId then BaseCache_buildId ''permissionoverwrite'' permissionId
      else ''permissionoverwrite'' @ ''.'' @ js_string channelId @ ''.'' @ js_string permissionId)"

definition PermissionOverwriteCache_addToIndex :: "jval \<Rightarrow> jval \<Rightarrow> unit io" where
  "PermissionOverwriteCache_addToIndex =
     BaseCache_addToIndex (\<lambda>x. PermissionOverwriteCache_buildId x JUndef) permOverwrite_boundGuild"

definition PermissionOverwriteCache_removeFromIndex :: "jval \<Rightarrow> jval \<Rightarrow> unit io" where
  "PermissionOverwriteCache_removeFromIndex =
     BaseCache_removeFromIndex (\<lambda>x. PermissionOverwriteCache_buildId x JUndef) permOverwrite_boundGuild"

definition PermissionOverwriteCache_isIndexed :: "jval \<Rightarrow> jval \<Rightarrow> bool io" where
  "PermissionOverwriteCache_isIndexed =
     BaseCache_isIndexed (\<lambda>x. PermissionOverwriteCache_buildId x JUndef) permOverwrite_boundGuild"

definition PermissionOverwriteCache_getIndexMembers :: "jval \<Rightarrow> string list io" where
  "PermissionOverwriteCache_getIndexMembers =
     BaseCache_getIndexMembers (\<lambda>x. PermissionOverwriteCache_buildId x JUndef) permOverwrite_boundGuild"

definition PermissionOverwriteCache_get :: "jval \<Rightarrow> jval \<Rightarrow> obj option io" where
  "PermissionOverwriteCache_get id' channelId0 =
     io_bind (with_default channelId0 permOverwrite_boundChannel) (\<lambda>channelId.
             engine_get (PermissionOverwriteCache_buildId id' channelId))"

definition PermissionOverwriteCache_update :: "jval \<Rightarrow> jval \<Rightarrow> obj \<Rightarrow> obj io" where
  "PermissionOverwriteCache_update id' channelId0 data =
     io_bind (with_default channelId0 permOverwrite_boundChannel) (\<lambda>channelId.
             io_then (PermissionOverwriteCache_addToIndex id' channelId)
               (io_then (engine_upsert (PermissionOverwriteCache_buildId id' channelId) data)
                 (io_return data)))"

definition PermissionOverwriteCache_remove :: "jval \<Rightarrow> jval \<Rightarrow> unit io" where
  "PermissionOverwriteCache_remove id' channelId0 =
     io_bind (with_default channelId0 permOverwrite_boundChannel) (\<lambda>channelId.
             io_bind (engine_get (PermissionOverwriteCache_buildId id' channelId)) (\<lambda>permissionOverwrite.
               case permissionOverwrite of
                 Some p \<Rightarrow> io_then (PermissionOverwriteCache_removeFromIndex id' channelId)
                             (engine_remove (PermissionOverwriteCache_buildId id' channelId))
               | None \<Rightarrow> io_return ()))"

definition PermissionOverwriteCache_bindChannel :: "jval \<Rightarrow> unit io" where
  "PermissionOverwriteCache_bindChannel channelId =
     (\<lambda>w. (Inr (), w\<lparr>permOverwrite_boundChannel := channelId, permOverwrite_boundGuild := channelId\<rparr>))"

subsection \<open>UserCache and PresenceCache\<close>

text \<open>
  Modelled from the spec: the implementation of \<open>UserCache\<close> is not among the sources
  (only its declaration is). The spec gives users a global namespace with no parent
  scope, the key \<open>{namespace}.{id}\<close> (\<open>user.self\<close>, \<open>user.42\<close>), and the common \<open>update\<close>:
  add the id to the index, then merge-upsert the data at the key.
\<close>

definition UserCache_update :: "jval \<Rightarrow> obj \<Rightarrow> obj io" where
  "UserCache_update id' data =
     io_then (engine_addToList ''user'' id')
       (io_then (engine_upsert (BaseCache_buildId ''user'' id') data)
         (io_return data))"

text \<open>
  Modelled from the spec: the implementation of \<open>PresenceCache\<close> is not among the sources
  (only its declaration is). The spec keys a presence by user id in a global scope and
  strips the role list and the guild id before storage; the declaration adds that the
  user is removed as well. The rest is the common \<open>update\<close>.
\<close>

definition PresenceCache_strip :: "obj \<Rightarrow> obj" where
  "PresenceCache_strip data = data(''guild_id'' := None, ''roles'' := None, ''user'' := None)"

definition PresenceCache_update :: "jval \<Rightarrow> obj \<Rightarrow> obj io" where
  "PresenceCache_update id' data =
     io_then (engine_addToList ''presence'' id')
       (io_then (engine_upsert (BaseCache_buildId ''presence'' id') (PresenceCache_strip data))
         (io_return (PresenceCache_strip data)))"

subsection \<open>MemberCache\<close>

definition MemberCache_buildId :: "jval \<Rightarrow> jval \<Rightarrow> string" where
  "MemberCache_buildId userId guildId =
     (if \<not> truthy guildId then BaseCache_buildId ''member'' userId
      else ''member'' @ ''.'' @ js_string guildId @ ''.'' @ js_string userId)"

definition MemberCache_addToIndex :: "jval \<Rightarrow> jval \<Rightarrow> unit io" where
  "MemberCache_addToIndex = BaseCache_addToIndex (\<lambda>x. MemberCache_buildId x JUndef) member_boundGuild"

definition MemberCache_removeFromIndex :: "jval \<Rightarrow> jval \<Rightarrow> unit io" where
  "MemberCache_removeFromIndex =
     BaseCache_removeFromIndex (\<lambda>x. MemberCache_buildId x JUndef) member_boundGuild"

definition MemberCache_isIndexed :: "jval \<Rightarrow> jval \<Rightarrow> bool io" where
  "MemberCache_isIndexed = BaseCache_isIndexed (\<lambda>x. MemberCache_buildId x JUndef) member_boundGuild"

definition MemberCache_getIndexMembers :: "jval \<Rightarrow> string list io" where
  "MemberCache_getIndexMembers =
     BaseCache_getIndexMembers (\<lambda>x. MemberCache_buildId x JUndef) member_boundGuild"

definition MemberCache_get :: "jval \<Rightarrow> jval \<Rightarrow> obj option io" where
  "MemberCache_get id' guildId0 =
     io_bind (with_default guildId0 member_boundGuild) (\<lambda>guildId.
             engine_get (MemberCache_buildId id' guildId))"

definition MemberCache_update :: "jval \<Rightarrow> jval \<Rightarrow> obj \<Rightarrow> obj io" where
  "MemberCache_update id' guildId0 data =
     io_bind (with_default guildId0 member_boundGuild) (\<lambda>guildId.
             (if \<not> truthy guildId then io_throw (EmptyGuildId (js_string id'))
              else
                let data1 = (if \<not> truthy (field data ''guild_id'')
                             then data(''guild_id'' \<mapsto> guildId) else data);
                    data2 = (if \<not> truthy (field data1 ''id'') then data1(''id'' \<mapsto> id') else data1);
                    user = field data2 ''user'';
                    data3 = (if truthy user then data2(''user'' := None) else data2)
                in io_then (if truthy user
                            then io_then (UserCache_update (field (as_obj user) ''id'') (as_obj user))
                                   (io_return ())
                            else io_return ())
                     (io_then (MemberCache_addToIndex id' guildId)
                       (io_then (engine_upsert (MemberCache_buildId id' guildId) data3)
                         (io_return data3)))))"

definition MemberCache_remove :: "jval \<Rightarrow> jval \<Rightarrow> unit io" where
  "MemberCache_remove id' guildId0 =
     io_bind (with_default guildId0 member_boundGuild) (\<lambda>guildId.
             io_bind (engine_get (MemberCache_buildId id' guildId)) (\<lambda>member.
               case member of
                 Some m \<Rightarrow> io_then (MemberCache_removeFromIndex id' guildId)
                             (engine_remove (MemberCache_buildId id' guildId))
               | None \<Rightarrow> io_return ()))"

subsection \<open>ChannelMapCache\<close>

text \<open>
  A channel map is a Redis set of channel ids under \<open>channelmap.{type}.{id}\<close>.
  \<open>getListMembers\<close> always yields an array, which is truthy even when empty, so \<open>get\<close>
  never returns null and \<open>remove\<close> always deletes.
\<close>

definition ChannelMapCache__buildMapId :: "jval \<Rightarrow> jval \<Rightarrow> string" where
  "ChannelMapCache__buildMapId id' type = js_string type @ ''.'' @ js_string id'"

definition ChannelMapCache__buildMap :: "jval \<Rightarrow> jval list \<Rightarrow> jval \<Rightarrow> obj" where
  "ChannelMapCache__buildMap id' channels type =
     [''id'' \<mapsto> id', ''channels'' \<mapsto> JArr channels, ''type'' \<mapsto> type]"

definition ChannelMapCache_key :: "jval \<Rightarrow> jval \<Rightarrow> string" where
  "ChannelMapCache_key id' type =
     BaseCache_buildId ''channelmap'' (JStr (ChannelMapCache__buildMapId id' type))"

text \<open>\<open>xs.splice(xs.indexOf(x), 1)\<close> when \<open>xs.indexOf(x) > -1\<close>: drop the first element equal to \<open>x\<close>.\<close>

fun splice_first :: "jval \<Rightarrow> jval list \<Rightarrow> jval list" where
  "splice_first x [] = []"
| "splice_first x (y # ys) = (if strict_eq y x then ys else y # splice_first x ys)"

definition ChannelMapCache__removeOldChannels :: "jval list \<Rightarrow> jval list \<Rightarrow> jval list" where
  "ChannelMapCache__removeOldChannels oldChannels removeChannels =
     fold splice_first removeChannels oldChannels"

definition ChannelMapCache__checkDupes :: "jval list \<Rightarrow> jval list \<Rightarrow> jval list" where
  "ChannelMapCache__checkDupes oldIds newIds = oldIds @ fold splice_first oldIds newIds"

text \<open>The channel list of the map that \<open>get\<close> returns.\<close>

definition ChannelMapCache_get :: "jval \<Rightarrow> jval \<Rightarrow> jval list io" where
  "ChannelMapCache_get id' type0 =
     (let type = default_arg type0 (JStr ''guild'')
      in io_bind (engine_getListMembers (ChannelMapCache_key id' type)) (\<lambda>channelMap.
           io_return (map JStr channelMap)))"

definition ChannelMapCache_remove :: "jval \<Rightarrow> jval \<Rightarrow> unit io" where
  "ChannelMapCache_remove id' type0 =
     (let type = default_arg type0 (JStr ''guild'')
      in io_bind (engine_getListMembers (ChannelMapCache_key id' type)) (\<lambda>channelMap.
           engine_remove (ChannelMapCache_key id' type)))"

definition ChannelMapCache_update :: "jval \<Rightarrow> jval list \<Rightarrow> jval \<Rightarrow> bool \<Rightarrow> jval list io" where
  "ChannelMapCache_update id' data type0 remove =
     (let type = default_arg type0 (JStr ''guild'')
      in io_bind (ChannelMapCache_get id' type) (\<lambda>oldChannels.
           let data1 = (if \<not> remove then ChannelMapCache__checkDupes oldChannels data else data);
               data2 = (if remove then ChannelMapCache__removeOldChannels oldChannels data1 else data1)
           in io_then (ChannelMapCache_remove id' type)
                (io_then (engine_addToList (ChannelMapCache_key id' type) (JArr data2))
                  (io_return data2))))"

subsection \<open>ChannelCache\<close>

text \<open>\<open>x[0]\<close> on a value.\<close>

fun index0 :: "jval \<Rightarrow> jval" where
  "index0 (JArr (x # xs)) = x"
| "index0 (JStr (c # cs)) = JStr [c]"
| "index0 (JObj m) = field m ''0''"
| "index0 v = JUndef"

text \<open>
  A property read \<open>v.k\<close> throws a \<open>TypeError\<close> on \<open>null\<close> and \<open>undefined\<close>.
\<close>

fun field_of :: "jval \<Rightarrow> string \<Rightarrow> error + jval" where
  "field_of JUndef k = Inl TypeError"
| "field_of JNull k = Inl TypeError"
| "field_of v k = Inr (field (as_obj v) k)"

definition io_lift :: "error + 'a \<Rightarrow> 'a io" where
  "io_lift r = (case r of Inl e \<Rightarrow> io_throw e | Inr x \<Rightarrow> io_return x)"

text \<open>
  \<open>for (let x of v)\<close>: an array yields its elements, a string its characters; any other
  value is not iterable and the loop throws a \<open>TypeError\<close>.
\<close>

fun iter_items :: "jval \<Rightarrow> error + jval list" where
  "iter_items (JArr xs) = Inr xs"
| "iter_items (JStr s) = Inr (map (\<lambda>c. JStr [c]) s)"
| "iter_items v = Inl TypeError"

definition ChannelCache_addToIndex :: "jval \<Rightarrow> unit io" where
  "ChannelCache_addToIndex id' = engine_addToList ''channel'' id'"

definition ChannelCache_removeFromIndex :: "jval \<Rightarrow> unit io" where
  "ChannelCache_removeFromIndex id' = engine_removeFromList ''channel'' id'"

definition ChannelCache_isIndexed :: "jval \<Rightarrow> bool io" where
  "ChannelCache_isIndexed id' = engine_isListMember ''channel'' id'"

definition ChannelCache_getIndexMembers :: "string list io" where
  "ChannelCache_getIndexMembers = engine_getListMembers ''channel''"

definition ChannelCache_get :: "jval \<Rightarrow> obj option io" where
  "ChannelCache_get id' =
     io_bind (engine_get (BaseCache_buildId ''channel'' id')) (\<lambda>channel.
       case channel of
         Some c \<Rightarrow> io_then (PermissionOverwriteCache_bindChannel (field c ''id'')) (io_return (Some c))
       | None \<Rightarrow> io_return None)"

definition ChannelCache_update :: "jval \<Rightarrow> obj \<Rightarrow> obj io" where
  "ChannelCache_update id' data =
     io_then
       (if truthy (field data ''guild_id'')
        then io_then (ChannelMapCache_update (field data ''guild_id'') [field data ''id''] JUndef False)
               (io_return ())
        else if truthy (field data ''recipients'')
        then (if truthy (index0 (field data ''recipients''))
              then io_then (ChannelMapCache_update
                              (field (as_obj (index0 (field data ''recipients''))) ''id'')
                              [field data ''id''] (JStr ''user'') False)
                     (io_return ())
              else io_return ())
        else io_return ())
       (io_then
         (if truthy (field data ''permission_overwrites'')
          then io_bind (io_lift (iter_items (field data ''permission_overwrites''))) (\<lambda>overwrites.
                 io_foreach overwrites (\<lambda>overwrite.
                   io_bind (io_lift (field_of overwrite ''id'')) (\<lambda>oid.
                     io_then (PermissionOverwriteCache_update oid id' (as_obj overwrite))
                       (io_return ()))))
          else io_return ())
         (let data1 = data(''permission_overwrites'' := None, ''recipients'' := None)
          in io_then (ChannelCache_addToIndex id')
               (io_then (engine_upsert (BaseCache_buildId ''channel'' id') data1)
                 (io_bind (engine_get (BaseCache_buildId ''channel'' id')) (\<lambda>channel.
                    case channel of
                      None \<Rightarrow> io_throw TypeError
                    | Some c \<Rightarrow> io_then (PermissionOverwriteCache_bindChannel (field c ''id''))
                                 (io_return c))))))"

definition ChannelCache_remove :: "jval \<Rightarrow> unit io" where
  "ChannelCache_remove id' =
     io_bind (engine_get (BaseCache_buildId ''channel'' id')) (\<lambda>channel.
       case channel of
         Some c \<Rightarrow> io_then (ChannelCache_removeFromIndex id')
                     (engine_remove (BaseCache_buildId ''channel'' id'))
       | None \<Rightarrow> io_return ())"

subsection \<open>GuildCache\<close>

text \<open>
  \<open>x && x.length > 0\<close> followed by a loop over \<open>x\<close> (or \<open>x.map\<close>): the elements of a
  non-empty array. The payload types declare these properties as arrays. An empty array
  and a value without a positive \<open>length\<close> skip the block; a non-empty string or an
  object with a positive numeric \<open>length\<close> enters it and fails there with a \<open>TypeError\<close>
  (no \<open>map\<close>, not iterable, or a property written on a primitive in strict mode).
\<close>

fun batch_items :: "jval \<Rightarrow> error + jval list" where
  "batch_items (JArr xs) = Inr xs"
| "batch_items (JStr s) = (if s = [] then Inr [] else Inl TypeError)"
| "batch_items (JObj m) =
     (case m ''length'' of Some (JNum n) \<Rightarrow> (if 0 < n then Inl TypeError else Inr []) | _ \<Rightarrow> Inr [])"
| "batch_items v = Inr []"

text \<open>
  An array element whose property is written (\<open>channel.guild_id = id\<close>): an object takes
  the property, an array has no named properties yet, \<open>null\<close>, \<open>undefined\<close> and (in strict
  mode) a primitive throw a \<open>TypeError\<close>.
\<close>

fun elem_obj :: "jval \<Rightarrow> error + obj" where
  "elem_obj (JObj m) = Inr m"
| "elem_obj (JArr xs) = Inr Map.empty"
| "elem_obj v = Inl TypeError"

definition GuildCache_addToIndex :: "jval \<Rightarrow> unit io" where
  "GuildCache_addToIndex id' = engine_addToList ''guild'' id'"

definition GuildCache_removeFromIndex :: "jval \<Rightarrow> unit io" where
  "GuildCache_removeFromIndex id' = engine_removeFromList ''guild'' id'"

definition GuildCache_isIndexed :: "jval \<Rightarrow> bool io" where
  "GuildCache_isIndexed id' = engine_isListMember ''guild'' id'"

definition GuildCache_getIndexMembers :: "string list io" where
  "GuildCache_getIndexMembers = engine_getListMembers ''guild''"

text \<open>
  The instance that \<open>get\<close> and \<open>update\<close> return is built with
  \<open>this.channels.bindGuild(guild.id)\<close>, \<open>this.roles.bindGuild(guild.id)\<close> and so on, which
  rebinds the shared caches.
\<close>

definition GuildCache_bindAll :: "jval \<Rightarrow> unit io" where
  "GuildCache_bindAll guildId =
     (\<lambda>w. (Inr (), w\<lparr>channel_boundGuild := guildId, role_boundGuild := guildId,
                       member_boundGuild := guildId, emoji_boundGuild := guildId,
                       presence_boundGuild := guildId, channelMap_boundGuild := guildId\<rparr>))"

definition GuildCache_get :: "jval \<Rightarrow> obj option io" where
  "GuildCache_get id' =
     io_bind (engine_get (BaseCache_buildId ''guild'' id')) (\<lambda>guild.
       case guild of
         Some g \<Rightarrow> io_then (GuildCache_bindAll (field g ''id'')) (io_return (Some g))
       | None \<Rightarrow> io_return None)"

definition GuildCache_update_channels :: "jval \<Rightarrow> obj \<Rightarrow> unit io" where
  "GuildCache_update_channels id' data =
     io_bind (io_lift (batch_items (field data ''channels''))) (\<lambda>channels.
       if channels = [] then io_return ()
       else io_bind (io_map (\<lambda>c. io_lift (field_of c ''id'')) channels) (\<lambda>ids.
              io_then (ChannelMapCache_update id' ids JUndef False)
                (io_foreach channels (\<lambda>channel.
                   io_bind (io_lift (elem_obj channel)) (\<lambda>c.
                     io_then (ChannelCache_update (field c ''id'') (c(''guild_id'' \<mapsto> id')))
                       (io_return ()))))))"

definition GuildCache_update_members :: "jval \<Rightarrow> obj \<Rightarrow> unit io" where
  "GuildCache_update_members id' data =
     io_bind (io_lift (batch_items (field data ''members''))) (\<lambda>members.
       io_foreach members (\<lambda>member.
         io_bind (io_lift (elem_obj member)) (\<lambda>m.
           io_bind (io_lift (field_of (field m ''user'') ''id'')) (\<lambda>uid.
             io_then (MemberCache_update uid id' (m(''guild_id'' \<mapsto> id'))) (io_return ())))))"

definition GuildCache_update_presences :: "obj \<Rightarrow> unit io" where
  "GuildCache_update_presences data =
     io_bind (io_lift (batch_items (field data ''presences''))) (\<lambda>presences.
       io_foreach presences (\<lambda>presence.
         io_bind (io_lift (field_of presence ''user'')) (\<lambda>user.
           io_bind (io_lift (field_of user ''id'')) (\<lambda>uid.
             io_then (PresenceCache_update uid (as_obj presence)) (io_return ())))))"

definition GuildCache_update_roles :: "jval \<Rightarrow> obj \<Rightarrow> unit io" where
  "GuildCache_update_roles id' data =
     io_bind (io_lift (batch_items (field data ''roles''))) (\<lambda>roles.
       io_foreach roles (\<lambda>role.
         io_bind (io_lift (field_of role ''id'')) (\<lambda>rid.
           io_then (RoleCache_update rid id' (as_obj role)) (io_return ()))))"

definition GuildCache_update_emojis :: "jval \<Rightarrow> obj \<Rightarrow> unit io" where
  "GuildCache_update_emojis id' data =
     io_bind (io_lift (batch_items (field data ''emojis''))) (\<lambda>emojis.
       io_foreach emojis (\<lambda>emoji.
         io_bind (io_lift (field_of emoji ''id'')) (\<lambda>eid.
           io_then (EmojiCache_update eid id' (as_obj emoji)) (io_return ()))))"

definition GuildCache_strip :: "obj \<Rightarrow> obj" where
  "GuildCache_strip data =
     data(''members'' := None, ''voice_states'' := None, ''roles'' := None, ''presences'' := None,
          ''emojis'' := None, ''features'' := None, ''channels'' := None)"

definition GuildCache_update :: "jval \<Rightarrow> obj \<Rightarrow> obj io" where
  "GuildCache_update id' data =
     io_then (GuildCache_update_channels id' data)
    (io_then (GuildCache_update_members id' data)
    (io_then (GuildCache_update_presences data)
    (io_then (GuildCache_update_roles id' data)
    (io_then (GuildCache_update_emojis id' data)
    (io_then (GuildCache_addToIndex id')
    (io_then (engine_upsert (BaseCache_buildId ''guild'' id') (GuildCache_strip data))
    (io_bind (engine_get (BaseCache_buildId ''guild'' id')) (\<lambda>guild.
       case guild of
         None \<Rightarrow> io_throw TypeError
       | Some g \<Rightarrow> io_then (GuildCache_bindAll (field g ''id'')) (io_return g)))))))))"

definition GuildCache_remove :: "jval \<Rightarrow> unit io" where
  "GuildCache_remove id' =
     io_bind (engine_get (BaseCache_buildId ''guild'' id')) (\<lambda>guild.
       case guild of
         None \<Rightarrow> io_return ()
       | Some g \<Rightarrow>
           io_bind (ChannelMapCache_get id' JUndef) (\<lambda>channels.
           io_bind (RoleCache_getIndexMembers id') (\<lambda>roles.
           io_bind (EmojiCache_getIndexMembers id') (\<lambda>emojis.
           io_bind (MemberCache_getIndexMembers id') (\<lambda>members.
           io_then (io_foreach emojis (\<lambda>emoji. EmojiCache_remove (JStr emoji) id'))
          (io_then (io_foreach roles (\<lambda>role. RoleCache_remove (JStr role) id'))
          (io_then (io_foreach channels (\<lambda>channel. ChannelCache_remove channel))
          (io_then (io_foreach members (\<lambda>member. MemberCache_remove (JStr member) id'))
          (io_then (ChannelMapCache_remove id' JUndef)
          (io_then (GuildCache_removeFromIndex id')
                   (engine_remove (BaseCache_buildId ''guild'' id'))))))))))))"

section \<open>EventProcessor\<close>

text \<open>
  An inbound event is \<open>{t, d}\<close>: the kind tag and the payload object. The processor holds
  its options, the readiness flag and the presence queue, an object keyed by user id
  whose keys are enumerated in insertion order. The interval timer is not part of the
  model; \<open>flushQueue\<close> is the function it calls.

  The queue and the payloads are plain objects, so a property read that finds no own
  property goes on to \<open>Object.prototype\<close>. \<open>objectPrototype\<close> holds the properties that the
  presence handler has assigned onto \<open>Object.prototype\<close>, none at construction; the reads
  of the presence handler go through it, those of the caches are modelled on a prototype
  that carries no such property.
\<close>

record event =
  event_t :: string
  event_d :: obj

record processor =
  disabledEvents :: obj
  presenceInterval :: nat
  ready :: bool
  presenceQueue :: "(string \<times> obj) list"
  objectPrototype :: obj

type_synonym 'a pio = "processor \<Rightarrow> world \<Rightarrow> (error + 'a) \<times> processor \<times> world"

definition EventProcessor_constructor :: "obj \<Rightarrow> nat \<Rightarrow> processor" where
  "EventProcessor_constructor disabled interval =
     \<lparr>disabledEvents = disabled,
      presenceInterval = (if interval = 0 then 1000 * 5 else interval),
      ready = False,
      presenceQueue = [],
      objectPrototype = Map.empty\<rparr>"

text \<open>A cache call awaited by the processor: it changes the storage side only.\<close>

definition on_caches :: "'a io \<Rightarrow> unit pio" where
  "on_caches m = (\<lambda>p w. case m w of (Inl e, w') \<Rightarrow> (Inl e, p, w') | (Inr x, w') \<Rightarrow> (Inr (), p, w'))"

text \<open>\<open>queue[key] = entry\<close> on the presence queue.\<close>

fun queue_put :: "string \<Rightarrow> obj \<Rightarrow> (string \<times> obj) list \<Rightarrow> (string \<times> obj) list" where
  "queue_put k v [] = [(k, v)]"
| "queue_put k v ((k', v') # q) = (if k' = k then (k, v) # q else (k', v') # queue_put k v q)"

text \<open>
  \<open>ob.k\<close> on a plain object: the own property, else what \<open>Object.prototype\<close> carries under
  that name. The names read this way below are none of the built-in ones.
\<close>

definition inherited_field :: "obj \<Rightarrow> obj \<Rightarrow> string \<Rightarrow> jval" where
  "inherited_field proto ob k = (case ob k of Some v \<Rightarrow> v | None \<Rightarrow> field proto k)"

text \<open>
  The functions that every plain object inherits from \<open>Object.prototype\<close>; beside them
  there is the accessor \<open>__proto__\<close>, which reads and sets the prototype itself.
\<close>

definition Object_prototype_functions :: "string list" where
  "Object_prototype_functions =
     [''constructor'', ''hasOwnProperty'', ''isPrototypeOf'', ''propertyIsEnumerable'',
      ''toLocaleString'', ''toString'', ''valueOf'', ''__defineGetter__'', ''__defineSetter__'',
      ''__lookupGetter__'', ''__lookupSetter__'']"

text \<open>
  The object literal \<open>{status, game, id, user}\<close> of \<open>handlePresenceUpdate\<close>: always these
  four own properties, holding \<open>undefined\<close> where the event has none.
\<close>

definition presence_entry :: "obj \<Rightarrow> obj \<Rightarrow> jval \<Rightarrow> obj" where
  "presence_entry proto presenceEvent uid =
     [''status'' \<mapsto> inherited_field proto presenceEvent ''status'',
      ''game'' \<mapsto> inherited_field proto presenceEvent ''game'',
      ''id'' \<mapsto> uid,
      ''user'' \<mapsto> inherited_field proto presenceEvent ''user'']"

text \<open>
  \<open>handlePresenceUpdate\<close>. \<open>queue[key]\<close> is the own entry of the user when there is one, and
  \<open>Object.assign\<close> writes the four properties over it. Without an own entry the read goes
  to the prototype:
  \<^item> for the key \<open>__proto__\<close> it yields \<open>Object.prototype\<close> itself, the four properties are
    assigned onto that, and the assignment \<open>queue.__proto__ = Object.prototype\<close> that
    follows creates no own key: the queue stays as it is;
  \<^item> for the name of an inherited function, or of a truthy value assigned onto
    \<open>Object.prototype\<close> before, it yields that value, the four properties are assigned onto
    it and the queue gets it as an own property; the entry of the model is the enumerable
    own properties this value then has (the four for a function, none of the index
    properties for the wrapper of a primitive);
  \<^item> otherwise the queue gets the literal as a new own property.
\<close>

definition handlePresenceUpdate :: "obj \<Rightarrow> processor \<Rightarrow> error + processor" where
  "handlePresenceUpdate presenceEvent0 p =
     (let proto = objectPrototype p;
          presenceEvent1 = (if truthy (inherited_field proto presenceEvent0 ''roles'')
                            then presenceEvent0(''roles'' := None) else presenceEvent0);
          presenceEvent = (if truthy (inherited_field proto presenceEvent1 ''guild_id'')
                           then presenceEvent1(''guild_id'' := None) else presenceEvent1);
          user = inherited_field proto presenceEvent ''user''
      in case field_of user ''id'' of
           Inl e \<Rightarrow> Inl e
         | Inr own \<Rightarrow>
             (let uid = inherited_field proto (as_obj user) ''id'';
                  key = js_string uid;
                  entry = presence_entry proto presenceEvent uid;
                  queue = presenceQueue p
              in case map_of queue key of
                   Some old \<Rightarrow> Inr (p\<lparr>presenceQueue := queue_put key (old ++ entry) queue\<rparr>)
                 | None \<Rightarrow>
                     if key = ''__proto__''
                     then Inr (p\<lparr>objectPrototype := proto ++ entry\<rparr>)
                     else if key \<in> set Object_prototype_functions
                     then Inr (p\<lparr>presenceQueue := queue_put key entry queue\<rparr>)
                     else if truthy (field proto key)
                     then Inr (p\<lparr>presenceQueue :=
                                   queue_put key (as_obj (field proto key) ++ entry) queue,
                                 objectPrototype :=
                                   (case field proto key of
                                      JObj m \<Rightarrow> proto(key \<mapsto> JObj (m ++ entry))
                                    | _ \<Rightarrow> proto)\<rparr>)
                     else Inr (p\<lparr>presenceQueue := queue_put key entry queue\<rparr>)))"



definition processReady :: "obj \<Rightarrow> unit io" where
  "processReady d =
     io_bind (io_lift (field_of (field d ''user'') ''id'')) (\<lambda>uid.
       io_then (UserCache_update (JStr ''self'') [''id'' \<mapsto> uid])
      (io_then (UserCache_update uid (as_obj (field d ''user'')))
      (io_bind (io_lift (iter_items (field d ''guilds''))) (\<lambda>guilds.
         io_foreach guilds (\<lambda>guild.
           io_bind (io_lift (field_of guild ''id'')) (\<lambda>gid.
             io_then (GuildCache_update gid (as_obj guild)) (io_return ())))))))"

text \<open>\<open>x.length === 0\<close> for a truthy \<open>x\<close>.\<close>

fun length_is_zero :: "jval \<Rightarrow> bool" where
  "length_is_zero (JArr xs) = (xs = [])"
| "length_is_zero (JObj m) = (case m ''length'' of Some (JNum n) \<Rightarrow> n = 0 | _ \<Rightarrow> False)"
| "length_is_zero v = False"

definition onChannelCreate :: "obj \<Rightarrow> unit io" where
  "onChannelCreate d =
     (if strict_eq (field d ''type'') (JNum 0) \<or> strict_eq (field d ''type'') (JNum 2)
         \<or> strict_eq (field d ''type'') (JNum 4)
      then io_then (ChannelMapCache_update (field d ''guild_id'') [field d ''id''] (JStr ''guild'') False)
             (io_then (ChannelCache_update (field d ''id'') d) (io_return ()))
      else if strict_eq (field d ''type'') (JNum 1)
      then (if \<not> truthy (field d ''recipients'') \<or> length_is_zero (field d ''recipients'')
            then io_return ()
            else io_bind (io_lift (field_of (index0 (field d ''recipients'')) ''id'')) (\<lambda>rid.
                   io_then (ChannelMapCache_update rid [field d ''id''] (JStr ''user'') False)
                     (io_then (ChannelCache_update (field d ''id'') d) (io_return ()))))
      else io_return ())"

definition onChannelDelete :: "obj \<Rightarrow> unit io" where
  "onChannelDelete d =
     (if strict_eq (field d ''type'') (JNum 0) \<or> strict_eq (field d ''type'') (JNum 2)
      then io_then (ChannelMapCache_update (field d ''guild_id'') [field d ''id''] (JStr ''guild'') True)
             (ChannelCache_remove (field d ''id''))
      else if strict_eq (field d ''type'') (JNum 1)
      then io_bind (io_lift (field_of (field d ''recipients'') ''0'')) (\<lambda>r0.
             io_bind (io_lift (field_of (index0 (field d ''recipients'')) ''id'')) (\<lambda>rid.
               io_then (ChannelMapCache_update rid [field d ''id''] (JStr ''user'') True)
                 (ChannelCache_remove (field d ''id''))))
      else io_return ())"

text \<open>
  \<open>GUILD_EMOJIS_UPDATE\<close>. \<open>oldEmotes\<close> are the instances \<open>filter\<close> returns, one per indexed
  id; the \<open>id\<close> of an instance is that of the record it is bound to, \<open>undefined\<close> when it
  is bound to nothing. \<open>oldEmote !== emoji\<close> compares a cache instance with a payload
  object, two different references, so it always holds and every emoji of the event is
  upserted.
\<close>

definition instance_id :: "obj option \<Rightarrow> jval" where
  "instance_id e = (case e of None \<Rightarrow> JUndef | Some r \<Rightarrow> field r ''id'')"

definition onGuildEmojisUpdate :: "obj \<Rightarrow> unit io" where
  "onGuildEmojisUpdate d =
     io_bind (EmojiCache_filter (\<lambda>_. True) (field d ''guild_id'')) (\<lambda>oldEmotes.
     io_bind (io_lift (iter_items (field d ''emojis''))) (\<lambda>emojis.
       io_then
         (io_foreach emojis (\<lambda>emoji.
            io_bind (io_lift (field_of emoji ''id'')) (\<lambda>eid.
              let oldEmote = find (\<lambda>e. strict_eq (instance_id e) eid) oldEmotes;
                  differs = True
              in if (case oldEmote of None \<Rightarrow> True | Some e \<Rightarrow> False) \<or> differs
                 then io_then (EmojiCache_update eid (field d ''guild_id'') (as_obj emoji))
                        (io_return ())
                 else io_return ())))
         (io_foreach oldEmotes (\<lambda>oldEmote.
            case find (\<lambda>e. strict_eq (field (as_obj e) ''id'') (instance_id oldEmote)) emojis of
              Some newEmote \<Rightarrow>
                (if \<not> truthy newEmote
                 then EmojiCache_remove (instance_id oldEmote) (field d ''guild_id'')
                 else io_return ())
            | None \<Rightarrow> EmojiCache_remove (instance_id oldEmote) (field d ''guild_id'')))))"

definition onGuildMembersChunk :: "obj \<Rightarrow> unit io" where
  "onGuildMembersChunk d =
     io_bind (io_lift (iter_items (field d ''members''))) (\<lambda>members.
       io_foreach members (\<lambda>member.
         io_bind (io_lift (field_of member ''user'')) (\<lambda>user.
           io_bind (io_lift (field_of user ''id'')) (\<lambda>uid.
             io_then (MemberCache_update uid (field d ''guild_id'') (as_obj member))
               (io_return ())))))"

definition process :: "event \<Rightarrow> unit pio" where
  "process ev p w =
     (let t = event_t ev; d = event_d ev in
      if t = ''READY'' then
        (case processReady d w of
           (Inl e, w') \<Rightarrow> (Inl e, p, w')
         | (Inr u, w') \<Rightarrow> (Inr (), p\<lparr>ready := True\<rparr>, w'))
      else if t = ''GUILD_CREATE'' \<or> t = ''GUILD_UPDATE'' then
        on_caches (GuildCache_update (field d ''id'') d) p w
      else if t = ''GUILD_DELETE'' then
        (if truthy (field d ''unavailable'')
         then on_caches (GuildCache_update (field d ''id'') d) p w
         else on_caches (GuildCache_remove (field d ''id'')) p w)
      else if t = ''CHANNEL_CREATE'' \<or> t = ''CHANNEL_UPDATE'' then
        on_caches (onChannelCreate d) p w
      else if t = ''CHANNEL_DELETE'' then
        on_caches (onChannelDelete d) p w
      else if t = ''GUILD_MEMBER_ADD'' \<or> t = ''GUILD_MEMBER_UPDATE'' then
        on_caches (io_bind (io_lift (field_of (field d ''user'') ''id'')) (\<lambda>uid.
                     MemberCache_update uid (field d ''guild_id'') d)) p w
      else if t = ''GUILD_MEMBER_REMOVE'' then
        on_caches (io_bind (io_lift (field_of (field d ''user'') ''id'')) (\<lambda>uid.
                     MemberCache_remove uid (field d ''guild_id''))) p w
      else if t = ''GUILD_MEMBERS_CHUNK'' then
        on_caches (onGuildMembersChunk d) p w
      else if t = ''USER_UPDATE'' then
        on_caches (UserCache_update (field d ''id'') d) p w
      else if t = ''PRESENCE_UPDATE'' then
        (case handlePresenceUpdate d p of
           Inl e \<Rightarrow> (Inl e, p, w)
         | Inr p' \<Rightarrow> (Inr (), p', w))
      else if t = ''GUILD_ROLE_CREATE'' \<or> t = ''GUILD_ROLE_UPDATE'' then
        on_caches (io_bind (io_lift (field_of (field d ''role'') ''id'')) (\<lambda>rid.
                     RoleCache_update rid (field d ''guild_id'') (as_obj (field d ''role'')))) p w
      else if t = ''GUILD_ROLE_DELETE'' then
        on_caches (RoleCache_remove (field d ''guild_id'') (field d ''role_id'')) p w
      else if t = ''GUILD_EMOJIS_UPDATE'' then
        on_caches (onGuildEmojisUpdate d) p w
      else if t = ''MESSAGE_CREATE'' then
        (if truthy (field d ''author'') \<and> \<not> truthy (field d ''webhook_id'')
         then on_caches (UserCache_update (field (as_obj (field d ''author'')) ''id'')
                           (as_obj (field d ''author''))) p w
         else (Inr (), p, w))
      else (Inr (), p, w))"

definition inbound :: "event \<Rightarrow> event pio" where
  "inbound ev p w =
     (if truthy (field (disabledEvents p) (event_t ev)) then (Inr ev, p, w)
      else case process ev p w of
             (Inl e, p', w') \<Rightarrow> (Inl e, p', w')
           | (Inr u, p', w') \<Rightarrow> (Inr ev, p', w'))"

section \<open>The composition root\<close>

text \<open>
  The state after \<open>RainCache.initialize\<close> on an empty Redis: \<open>BaseCache\<close> leaves
  \<open>boundGuild\<close> unset, \<open>MemberCache\<close> sets it to the empty string, and
  \<open>PermissionOverwriteCache\<close> sets \<open>boundChannel\<close> to the empty string.
\<close>

definition initial_world :: world where
  "initial_world =
     \<lparr>store = Map.empty,
      role_boundGuild = JUndef,
      emoji_boundGuild = JUndef,
      member_boundGuild = JStr [],
      channel_boundGuild = JUndef,
      presence_boundGuild = JUndef,
      channelMap_boundGuild = JUndef,
      permOverwrite_boundGuild = JUndef,
      permOverwrite_boundChannel = JStr []\<rparr>"

section \<open>Bound instances\<close>

text \<open>
  \<open>get\<close> wraps a record it finds in a new instance of the cache class with that record as
  \<open>boundObject\<close>. Such an instance is an object of its own, with its own \<open>boundGuild\<close>.
  \<open>bindObject\<close> stores the object and copies its properties onto the instance; entity
  objects have no property named like a slot or a method of the cache class, so the
  copy leaves the slots alone.

  The methods of an instance start with \<open>if (this.boundObject)\<close>. In \<open>update\<close> the guarded
  part calls \<open>this.bindObject(data)\<close> and then \<open>this.update\<close> again, on the same
  instance. The call may not return, so the method is a partial function: \<open>None\<close> is a
  call that never returns.
\<close>

record cache_instance =
  boundObject :: "obj option"
  boundGuild :: jval

definition bindObject :: "obj \<Rightarrow> cache_instance \<Rightarrow> cache_instance" where
  "bindObject b this = this\<lparr>boundObject := Some b\<rparr>"

definition new_EmojiCache :: "obj \<Rightarrow> cache_instance" where
  "new_EmojiCache b = \<lparr>boundObject = Some b, boundGuild = JUndef\<rparr>"

definition new_MemberCache :: "obj \<Rightarrow> cache_instance" where
  "new_MemberCache b = \<lparr>boundObject = Some b, boundGuild = JStr []\<rparr>"

text \<open>
  The unguarded part of a method, run on \<open>this\<close> rather than on the shared instance: it
  reads \<open>this.boundGuild\<close>, which the definitions of the previous sections take from the
  world, so it runs with that slot holding the binding of \<open>this\<close>, and the shared
  binding is put back afterwards.
\<close>

definition on_emoji_instance :: "cache_instance \<Rightarrow> 'a io \<Rightarrow> 'a io" where
  "on_emoji_instance this m =
     (\<lambda>w. case m (w\<lparr>emoji_boundGuild := boundGuild this\<rparr>) of
             (r, w') \<Rightarrow> (r, w'\<lparr>emoji_boundGuild := emoji_boundGuild w\<rparr>))"

definition on_member_instance :: "cache_instance \<Rightarrow> 'a io \<Rightarrow> 'a io" where
  "on_member_instance this m =
     (\<lambda>w. case m (w\<lparr>member_boundGuild := boundGuild this\<rparr>) of
             (r, w') \<Rightarrow> (r, w'\<lparr>member_boundGuild := member_boundGuild w\<rparr>))"

definition returning :: "cache_instance \<Rightarrow> (error + 'a) \<times> world \<Rightarrow> (error + cache_instance) \<times> world" where
  "returning this r = (case r of (Inl e, w') \<Rightarrow> (Inl e, w') | (Inr x, w') \<Rightarrow> (Inr this, w'))"

definition EmojiCache_get_instance :: "jval \<Rightarrow> jval \<Rightarrow> cache_instance option io" where
  "EmojiCache_get_instance id' guildId =
     io_bind (EmojiCache_get id' guildId) (\<lambda>emoji. io_return (map_option new_EmojiCache emoji))"

definition MemberCache_get_instance :: "jval \<Rightarrow> jval \<Rightarrow> cache_instance option io" where
  "MemberCache_get_instance id' guildId =
     io_bind (MemberCache_get id' guildId) (\<lambda>member. io_return (map_option new_MemberCache member))"

partial_function (option) EmojiCache_update_method ::
  "cache_instance \<Rightarrow> jval \<Rightarrow> jval \<Rightarrow> obj \<Rightarrow> world \<Rightarrow> ((error + cache_instance) \<times> world) option" where
  "EmojiCache_update_method this id' guildId0 data w =
     (let guildId = default_arg guildId0 (boundGuild this) in
      case boundObject this of
        Some b \<Rightarrow>
          Option.bind (EmojiCache_update_method (bindObject data this) id' guildId data w)
            (\<lambda>r. Some (returning (bindObject data this) r))
      | None \<Rightarrow>
          Some (case on_emoji_instance this (EmojiCache_update id' guildId data) w of
                  (Inl e, w') \<Rightarrow> (Inl e, w')
                | (Inr d, w') \<Rightarrow> (Inr (new_EmojiCache d), w')))"

partial_function (option) MemberCache_update_method ::
  "cache_instance \<Rightarrow> jval \<Rightarrow> jval \<Rightarrow> obj \<Rightarrow> world \<Rightarrow> ((error + cache_instance) \<times> world) option" where
  "MemberCache_update_method this id' guildId0 data w =
     (let guildId = default_arg guildId0 (boundGuild this) in
      case boundObject this of
        Some b \<Rightarrow>
          Option.bind (MemberCache_update_method (bindObject data this)
                         (field data ''id'') (field data ''guild_id'') data w)
            (\<lambda>r. Some (returning (bindObject data this) r))
      | None \<Rightarrow>
          Some (case on_member_instance this (MemberCache_update id' guildId data) w of
                  (Inl e, w') \<Rightarrow> (Inl e, w')
                | (Inr d, w') \<Rightarrow> (Inr (new_MemberCache d), w')))"

section \<open>The common operation contract\<close>

text \<open>
  \<open>update(id, scope, data)\<close>, \<open>get(id, scope)\<close>, \<open>remove(id, scope)\<close>, \<open>isIndexed(id, scope)\<close>
  and \<open>getIndexMembers(scope)\<close> of the classes that keep an index of their records, by
  class. \<open>ChannelCache\<close> and \<open>GuildCache\<close> take no scope: they override the index helpers
  and keep one global index each.
\<close>

datatype kind = Role | Emoji | PermissionOverwrite | Member | Channel | Guild

fun cache_update :: "kind \<Rightarrow> jval \<Rightarrow> jval \<Rightarrow> obj \<Rightarrow> obj io" where
  "cache_update Role id' scope data = RoleCache_update id' scope data"
| "cache_update Emoji id' scope data = EmojiCache_update id' scope data"
| "cache_update PermissionOverwrite id' scope data = PermissionOverwriteCache_update id' scope data"
| "cache_update Member id' scope data = MemberCache_update id' scope data"
| "cache_update Channel id' scope data = ChannelCache_update id' data"
| "cache_update Guild id' scope data = GuildCache_update id' data"

fun cache_get :: "kind \<Rightarrow> jval \<Rightarrow> jval \<Rightarrow> obj option io" where
  "cache_get Role id' scope = RoleCache_get id' scope"
| "cache_get Emoji id' scope = EmojiCache_get id' scope"
| "cache_get PermissionOverwrite id' scope = PermissionOverwriteCache_get id' scope"
| "cache_get Member id' scope = MemberCache_get id' scope"
| "cache_get Channel id' scope = ChannelCache_get id'"
| "cache_get Guild id' scope = GuildCache_get id'"

fun cache_remove :: "kind \<Rightarrow> jval \<Rightarrow> jval \<Rightarrow> unit io" where
  "cache_remove Role id' scope = RoleCache_remove id' scope"
| "cache_remove Emoji id' scope = EmojiCache_remove id' scope"
| "cache_remove PermissionOverwrite id' scope = PermissionOverwriteCache_remove id' scope"
| "cache_remove Member id' scope = MemberCache_remove id' scope"
| "cache_remove Channel id' scope = ChannelCache_remove id'"
| "cache_remove Guild id' scope = GuildCache_remove id'"

fun cache_isIndexed :: "kind \<Rightarrow> jval \<Rightarrow> jval \<Rightarrow> bool io" where
  "cache_isIndexed Role id' scope = RoleCache_isIndexed id' scope"
| "cache_isIndexed Emoji id' scope = EmojiCache_isIndexed id' scope"
| "cache_isIndexed PermissionOverwrite id' scope = PermissionOverwriteCache_isIndexed id' scope"
| "cache_isIndexed Member id' scope = MemberCache_isIndexed id' scope"
| "cache_isIndexed Channel id' scope = ChannelCache_isIndexed id'"
| "cache_isIndexed Guild id' scope = GuildCache_isIndexed id'"

fun cache_getIndexMembers :: "kind \<Rightarrow> jval \<Rightarrow> string list io" where
  "cache_getIndexMembers Role scope = RoleCache_getIndexMembers scope"
| "cache_getIndexMembers Emoji scope = EmojiCache_getIndexMembers scope"
| "cache_getIndexMembers PermissionOverwrite scope = PermissionOverwriteCache_getIndexMembers scope"
| "cache_getIndexMembers Member scope = MemberCache_getIndexMembers scope"
| "cache_getIndexMembers Channel scope = ChannelCache_getIndexMembers"
| "cache_getIndexMembers Guild scope = GuildCache_getIndexMembers"



text \<open>\<open>ChannelMapCache\<close> inherits the index helpers of \<open>BaseCache\<close> as they are.\<close>

definition ChannelMapCache_isIndexed :: "jval \<Rightarrow> jval \<Rightarrow> bool io" where
  "ChannelMapCache_isIndexed =
     BaseCache_isIndexed (BaseCache_buildId ''channelmap'') channelMap_boundGuild"

section \<open>Example states\<close>

text \<open>
  A cache holding guild \<open>7\<close> with one role \<open>5\<close>, and the event that reports the deletion
  of that role.
\<close>

definition role_world :: world where
  "role_world = initial_world\<lparr>store :=
     [''guild.7'' \<mapsto> RString [''id'' \<mapsto> JStr ''7''],
      ''guild'' \<mapsto> RSet [''7''],
      ''role.7.5'' \<mapsto> RString [''id'' \<mapsto> JStr ''5'', ''guild_id'' \<mapsto> JStr ''7''],
      ''role.7'' \<mapsto> RSet [''5'']]\<rparr>"

definition role_delete_event :: event where
  "role_delete_event =
     \<lparr>event_t = ''GUILD_ROLE_DELETE'',
      event_d = [''guild_id'' \<mapsto> JStr ''7'', ''role_id'' \<mapsto> JStr ''5'']\<rparr>"

text \<open>A presence update of user \<open>42\<close> and a message of the same user.\<close>

definition presence_event :: event where
  "presence_event =
     \<lparr>event_t = ''PRESENCE_UPDATE'',
      event_d = [''user'' \<mapsto> JObj [''id'' \<mapsto> JStr ''42''], ''status'' \<mapsto> JStr ''online'']\<rparr>"

definition message_event :: event where
  "message_event =
     \<lparr>event_t = ''MESSAGE_CREATE'',
      event_d = [''author'' \<mapsto> JObj [''id'' \<mapsto> JStr ''42'', ''username'' \<mapsto> JStr ''bob'']]\<rparr>"


section \<open>Vocabulary of the proofs\<close>

text \<open>
  \<open>touches P m\<close>: the operation \<open>m\<close> changes the keyspace only at keys that satisfy \<open>P\<close>,
  whether it succeeds or fails.
\<close>

definition touches :: "(string \<Rightarrow> bool) \<Rightarrow> 'a io \<Rightarrow> bool" where
  "touches P m = (\<forall>w k. \<not> P k \<longrightarrow> store (snd (m w)) k = store w k)"

text \<open>The key of a record, the key of the index that lists it, and the object stored.\<close>

fun record_key :: "kind \<Rightarrow> jval \<Rightarrow> jval \<Rightarrow> string" where
  "record_key Role id' scope = RoleCache_buildId id' scope"
| "record_key Emoji id' scope = EmojiCache_buildId id' scope"
| "record_key PermissionOverwrite id' scope = PermissionOverwriteCache_buildId id' scope"
| "record_key Member id' scope = MemberCache_buildId id' scope"
| "record_key Channel id' scope = BaseCache_buildId ''channel'' id'"
| "record_key Guild id' scope = BaseCache_buildId ''guild'' id'"

fun index_key :: "kind \<Rightarrow> jval \<Rightarrow> string" where
  "index_key Role scope = RoleCache_buildId scope JUndef"
| "index_key Emoji scope = EmojiCache_buildId scope JUndef"
| "index_key PermissionOverwrite scope = PermissionOverwriteCache_buildId scope JUndef"
| "index_key Member scope = MemberCache_buildId scope JUndef"
| "index_key Channel scope = ''channel''"
| "index_key Guild scope = ''guild''"

definition fill_defaults :: "jval \<Rightarrow> jval \<Rightarrow> obj \<Rightarrow> obj" where
  "fill_defaults id' guildId data =
     (let data1 = (if \<not> truthy (field data ''guild_id'') then data(''guild_id'' \<mapsto> guildId) else data)
      in (if \<not> truthy (field data1 ''id'') then data1(''id'' \<mapsto> id') else data1))"

fun stored_data :: "kind \<Rightarrow> jval \<Rightarrow> jval \<Rightarrow> obj \<Rightarrow> obj" where
  "stored_data Role id' scope data = fill_defaults id' scope data"
| "stored_data Member id' scope data =
     (if truthy (field (fill_defaults id' scope data) ''user'')
      then (fill_defaults id' scope data)(''user'' := None) else fill_defaults id' scope data)"
| "stored_data Channel id' scope data = data(''permission_overwrites'' := None, ''recipients'' := None)"
| "stored_data Guild id' scope data = GuildCache_strip data"
| "stored_data k id' scope data = data"

definition ns_key :: "string \<Rightarrow> string \<Rightarrow> bool" where
  "ns_key ns k = (take (length ns) k = ns)"

definition not_guild_key :: "string \<Rightarrow> bool" where
  "not_guild_key k = (k \<noteq> [] \<and> hd k \<noteq> CHR ''g'')"

text \<open>A channel map of guild \<open>7\<close> with one channel.\<close>

definition channel_map_run :: "(error + jval list) \<times> world" where
  "channel_map_run = ChannelMapCache_update (JStr ''7'') [JStr ''1''] (JStr ''guild'') False initial_world"


text \<open>A cache holding emoji \<open>1\<close> of guild \<open>7\<close> and member \<open>42\<close> of guild \<open>7\<close>.\<close>

definition bound_world :: world where
  "bound_world = initial_world\<lparr>store :=
     [''emoji.7.1'' \<mapsto> RString [''id'' \<mapsto> JStr ''1'', ''name'' \<mapsto> JStr ''a''],
      ''emoji.7'' \<mapsto> RSet [''1''],
      ''member.7.42'' \<mapsto> RString [''id'' \<mapsto> JStr ''42'', ''guild_id'' \<mapsto> JStr ''7''],
      ''member.7'' \<mapsto> RSet [''42'']]\<rparr>"



text \<open>The members of the set at a key, and whether a key holds a record.\<close>

definition members :: "world \<Rightarrow> string \<Rightarrow> string list" where
  "members w k = (case store w k of Some (RSet xs) \<Rightarrow> xs | _ \<Rightarrow> [])"

definition has_record :: "world \<Rightarrow> string \<Rightarrow> bool" where
  "has_record w k = (case store w k of Some (RString r) \<Rightarrow> True | _ \<Rightarrow> False)"



text \<open>
  Guild \<open>7\<close> with the emojis \<open>A\<close>, \<open>B\<close> and \<open>C\<close> cached from data that carries a name and
  no id: the state that three calls of \<open>emojiCache.update\<close> leave.
\<close>

definition emoji_named_world :: world where
  "emoji_named_world = initial_world\<lparr>store :=
     [''emoji.7'' \<mapsto> RSet [''A'', ''B'', ''C''],
      ''emoji.7.A'' \<mapsto> RString [''name'' \<mapsto> JStr ''a''],
      ''emoji.7.B'' \<mapsto> RString [''name'' \<mapsto> JStr ''b''],
      ''emoji.7.C'' \<mapsto> RString [''name'' \<mapsto> JStr ''c'']]\<rparr>"



text \<open>
  Guild \<open>7\<close> with role \<open>5\<close>, member \<open>42\<close>, emoji \<open>1\<close> and the mapped channel \<open>9\<close>, all
  with their records; and the same guild after \<open>roleCache.addToIndex\<close> has put the role
  id \<open>6\<close>, which has no record, into its role index.
\<close>

definition guild_world :: world where
  "guild_world = initial_world\<lparr>store :=
     [''guild.7'' \<mapsto> RString [''id'' \<mapsto> JStr ''7''],
      ''guild'' \<mapsto> RSet [''7''],
      ''role.7.5'' \<mapsto> RString [''id'' \<mapsto> JStr ''5'', ''guild_id'' \<mapsto> JStr ''7''],
      ''role.7'' \<mapsto> RSet [''5''],
      ''member.7.42'' \<mapsto> RString [''id'' \<mapsto> JStr ''42'', ''guild_id'' \<mapsto> JStr ''7''],
      ''member.7'' \<mapsto> RSet [''42''],
      ''emoji.7.1'' \<mapsto> RString [''id'' \<mapsto> JStr ''1''],
      ''emoji.7'' \<mapsto> RSet [''1''],
      ''channel.9'' \<mapsto> RString [''id'' \<mapsto> JStr ''9'', ''guild_id'' \<mapsto> JStr ''7''],
      ''channel'' \<mapsto> RSet [''9''],
      ''channelmap.guild.7'' \<mapsto> RSet [''9'']]\<rparr>"

definition guild_world_unrecorded_role :: world where
  "guild_world_unrecorded_role =
     guild_world\<lparr>store := (store guild_world)(''role.7'' \<mapsto> RSet [''5'', ''6''])\<rparr>"

section \<open>Basic facts\<close>

lemmas io_defs = io_return_def io_throw_def io_bind_def io_then_def io_lift_def with_default_def

lemmas redis_defs = redis_GET_def redis_SET_def redis_DEL_def redis_SMEMBERS_def redis_SADD_def
  redis_SISMEMBER_def redis_SREM_def redis_SCARD_def

lemmas engine_defs = engine_get_def engine_upsert_def engine_remove_def engine_getListMembers_def
  engine_addToList_def engine_isListMember_def engine_removeFromList_def engine_removeList_def
  engine_getListCount_def

lemmas index_defs = BaseCache_addToIndex_def BaseCache_removeFromIndex_def BaseCache_isIndexed_def
  BaseCache_getIndexMembers_def BaseCache_buildId_def

lemma io_return_ok [simp]: "io_return x w = (r, w') \<longleftrightarrow> r = Inr x \<and> w' = w"
  by (auto simp: io_return_def)

lemma io_throw_ok [simp]: "io_throw e w = (r, w') \<longleftrightarrow> r = Inl e \<and> w' = w"
  by (auto simp: io_throw_def)

lemma io_bindE:
  assumes "io_bind m f w = (Inr y, w2)"
  obtains x w1 where "m w = (Inr x, w1)" and "f x w1 = (Inr y, w2)"
  using assms by (auto simp: io_bind_def split: prod.splits sum.splits)

lemma io_thenE:
  assumes "io_then m n w = (Inr y, w2)"
  obtains x w1 where "m w = (Inr x, w1)" and "n w1 = (Inr y, w2)"
  using assms by (auto simp: io_then_def elim: io_bindE)

lemma io_bind_Inr: "m w = (Inr x, w1) \<Longrightarrow> io_bind m f w = f x w1"
  by (simp add: io_bind_def)

lemma io_then_Inr: "m w = (Inr x, w1) \<Longrightarrow> io_then m n w = n w1"
  by (simp add: io_then_def io_bind_def)

lemma io_lift_ok [simp]: "io_lift r w = (Inr x, w') \<longleftrightarrow> r = Inr x \<and> w' = w"
  by (cases r) (auto simp: io_lift_def)

text \<open>What the engine's operations do to the state when they succeed.\<close>

lemma engine_get_ok:
  "engine_get k w = (Inr r, w') \<longleftrightarrow>
     w' = w \<and> (case store w k of None \<Rightarrow> r = None | Some (RString d) \<Rightarrow> r = Some d | Some (RSet xs) \<Rightarrow> False)"
  by (auto simp: engine_get_def redis_GET_def split: option.splits rval.splits)

lemma engine_upsert_ok:
  assumes "engine_upsert k d w = (Inr u, w')"
  obtains old where "w' = w\<lparr>store := (store w)(k \<mapsto> RString (prepareData (old ++ d)))\<rparr>"
    and "store w k = None \<and> old = Map.empty \<or> store w k = Some (RString old)"
  using assms
  by (auto simp: engine_upsert_def engine_get_def redis_GET_def redis_SET_def io_bind_def
      split: option.splits rval.splits)

lemma engine_addToList_ok:
  assumes "engine_addToList k v w = (Inr u, w')"
  obtains xs where "w' = w\<lparr>store := (store w)(k \<mapsto> RSet (set_insert xs (sadd_members v)))\<rparr>"
    and "store w k = None \<and> xs = [] \<or> store w k = Some (RSet xs)"
  using assms
  by (auto simp: engine_addToList_def redis_SADD_def split: option.splits rval.splits if_splits)

lemma set_set_insert [simp]: "set (set_insert xs ys) = set xs \<union> set ys"
  by (induction ys arbitrary: xs) auto


lemma truthy_not_undef: "truthy v \<Longrightarrow> v \<noteq> JUndef"
  by auto

section \<open>Role removal by the dispatcher\<close>

text \<open>
  C1. The dispatcher handles \<open>GUILD_ROLE_DELETE\<close> with
  \<open>roleCache.remove(event.d.guild_id, event.d.role_id)\<close>, while \<open>RoleCache.remove\<close> takes
  \<open>(id, guildId)\<close>: the guild id is passed as the role id and the role id as the scope. On
  a cache that holds role \<open>5\<close> of guild \<open>7\<close>, the event for that role leaves the record and
  the index entry in place, whereas the removal keyed by (role id, guild id) deletes both.
\<close>

theorem role_delete_event_keeps_role:
  "process role_delete_event p role_world = (Inr (), p, role_world)
   \<and> store role_world ''role.7.5'' \<noteq> None
   \<and> fst (RoleCache_isIndexed (JStr ''5'') (JStr ''7'') role_world) = Inr True
   \<and> store (snd (RoleCache_remove (JStr ''5'') (JStr ''7'') role_world)) ''role.7.5'' = None
   \<and> store (snd (RoleCache_remove (JStr ''5'') (JStr ''7'') role_world)) ''role.7'' = None"
  by (simp add: process_def on_caches_def RoleCache_remove_def RoleCache_buildId_def field_def
      RoleCache_removeFromIndex_def RoleCache_isIndexed_def index_defs
      io_defs redis_defs engine_defs role_world_def role_delete_event_def initial_world_def)

section \<open>A missing guild id\<close>

text \<open>
  C8, as amended. \<open>MemberCache.update\<close> throws when the guild id (the argument, or the bound
  guild when the argument is omitted) is empty, and \<open>RoleCache.update\<close> rejects when its
  guild id argument is empty. Both do so before any index or storage write: the state
  is returned as it was.
\<close>

theorem missing_guild_id_rejected:
  "(\<not> truthy (default_arg guildId (member_boundGuild w)) \<longrightarrow>
      MemberCache_update id' guildId data w = (Inl (EmptyGuildId (js_string id')), w))
   \<and> (\<not> truthy guildId \<longrightarrow> RoleCache_update id' guildId data w = (Inl MissingGuildId, w))"
  by (simp add: MemberCache_update_def RoleCache_update_def io_throw_def io_bind_def with_default_def)

theorem missing_guild_id_rejected_witness:
  "\<not> truthy (default_arg (JStr []) (member_boundGuild initial_world))
   \<and> MemberCache_update (JStr ''1'') (JStr []) [''nick'' \<mapsto> JStr ''n''] initial_world
       = (Inl (EmptyGuildId ''1''), initial_world)
   \<and> \<not> truthy (JStr [])
   \<and> RoleCache_update (JStr ''5'') (JStr []) [''name'' \<mapsto> JStr ''r''] initial_world
       = (Inl MissingGuildId, initial_world)"
  using missing_guild_id_rejected [of "JStr []" initial_world "JStr ''1''" "[''nick'' \<mapsto> JStr ''n'']"]
    missing_guild_id_rejected [of "JStr []" initial_world "JStr ''5''" "[''name'' \<mapsto> JStr ''r'']"]
  by simp

text \<open>
  The claim as stated speaks of every scope-requiring cache. \<open>EmojiCache.update\<close> has no
  such check: with no guild id from the argument, the data or the bound guild it indexes
  the emoji under \<open>emoji.undefined\<close> and stores the record at the one-argument key.
\<close>

theorem emoji_update_without_scope_counterexample:
  "fst (EmojiCache_update (JStr ''1'') JUndef [''name'' \<mapsto> JStr ''e''] initial_world)
     = Inr [''name'' \<mapsto> JStr ''e'']
   \<and> store (snd (EmojiCache_update (JStr ''1'') JUndef [''name'' \<mapsto> JStr ''e''] initial_world))
        ''emoji.undefined'' = Some (RSet [''1''])
   \<and> store (snd (EmojiCache_update (JStr ''1'') JUndef [''name'' \<mapsto> JStr ''e''] initial_world))
        ''emoji.1'' \<noteq> None"
  by (simp add: EmojiCache_update_def EmojiCache_buildId_def EmojiCache_addToIndex_def index_defs
      io_defs redis_defs engine_defs initial_world_def)

section \<open>Disabled events\<close>

text \<open>
  C9, as amended. When \<open>disabledEvents\<close> holds a truthy value under the event's kind tag,
  \<open>inbound\<close> returns the event without calling \<open>process\<close>: records, indexes, cache
  bindings and the presence queue are unchanged.
\<close>

theorem disabled_event_skipped:
  "truthy (field (disabledEvents p) (event_t ev)) \<Longrightarrow> inbound ev p w = (Inr ev, p, w)"
  by (simp add: inbound_def)

theorem disabled_event_skipped_witness:
  "truthy (field [''MESSAGE_CREATE'' \<mapsto> JBool True] (event_t message_event))
   \<and> inbound message_event (EventProcessor_constructor [''MESSAGE_CREATE'' \<mapsto> JBool True] 0) initial_world
       = (Inr message_event, EventProcessor_constructor [''MESSAGE_CREATE'' \<mapsto> JBool True] 0, initial_world)"
proof -
  have h: "truthy (field (disabledEvents (EventProcessor_constructor [''MESSAGE_CREATE'' \<mapsto> JBool True] 0))
             (event_t message_event))"
    by (simp add: EventProcessor_constructor_def message_event_def field_def)
  show ?thesis
    using h disabled_event_skipped [OF h, of initial_world]
    by (simp add: EventProcessor_constructor_def)
qed

text \<open>
  The test is on the value, not on the presence of the key: a tag that is in the map with
  the value \<open>false\<close> is processed, and here a presence update enters the queue.
\<close>

theorem disabled_false_entry_counterexample:
  "disabledEvents (EventProcessor_constructor [''PRESENCE_UPDATE'' \<mapsto> JBool False] 0)
       (event_t presence_event) \<noteq> None
   \<and> presenceQueue (fst (snd (inbound presence_event
         (EventProcessor_constructor [''PRESENCE_UPDATE'' \<mapsto> JBool False] 0) initial_world))) \<noteq> []
   \<and> presenceQueue (EventProcessor_constructor [''PRESENCE_UPDATE'' \<mapsto> JBool False] 0) = []"
  by (simp add: inbound_def process_def handlePresenceUpdate_def presence_event_def
      EventProcessor_constructor_def field_def inherited_field_def Let_def
      Object_prototype_functions_def)

section \<open>Member records\<close>

lemma with_default_ok [simp]:
  "with_default v slot w = (r, w') \<longleftrightarrow> r = Inr (default_arg v (slot w)) \<and> w' = w"
  by (auto simp: with_default_def)

lemma MemberCache_update_ok:
  assumes "MemberCache_update id' guildId0 data w = (Inr d', w')"
  defines "guildId \<equiv> default_arg guildId0 (member_boundGuild w)"
  defines "data1 \<equiv> (if \<not> truthy (field data ''guild_id'') then data(''guild_id'' \<mapsto> guildId) else data)"
  defines "data2 \<equiv> (if \<not> truthy (field data1 ''id'') then data1(''id'' \<mapsto> id') else data1)"
  defines "data3 \<equiv> (if truthy (field data2 ''user'') then data2(''user'' := None) else data2)"
  obtains w1 w2 u1 u2 where "truthy guildId"
    and "(if truthy (field data2 ''user'')
          then io_then (UserCache_update (field (as_obj (field data2 ''user'')) ''id'')
                          (as_obj (field data2 ''user''))) (io_return ())
          else io_return ()) w = (Inr (), w1)"
    and "MemberCache_addToIndex id' guildId w1 = (Inr u1, w2)"
    and "engine_upsert (MemberCache_buildId id' guildId) data3 w2 = (Inr u2, w')"
    and "d' = data3"
proof -
  have t: "truthy guildId"
    using assms(1) unfolding MemberCache_update_def guildId_def
    by (auto simp: Let_def io_bind_def with_default_def split: if_splits)
  have "io_then (if truthy (field data2 ''user'')
                 then io_then (UserCache_update (field (as_obj (field data2 ''user'')) ''id'') (as_obj (field data2 ''user'')))
                        (io_return ())
                 else io_return ())
          (io_then (MemberCache_addToIndex id' guildId)
            (io_then (engine_upsert (MemberCache_buildId id' guildId) data3)
              (io_return data3))) w = (Inr d', w')"
    using assms(1) t unfolding MemberCache_update_def guildId_def data1_def data2_def data3_def
    by (simp add: Let_def io_bind_def with_default_def)
  then obtain x w1 where p: "(if truthy (field data2 ''user'')
          then io_then (UserCache_update (field (as_obj (field data2 ''user'')) ''id'')
                          (as_obj (field data2 ''user''))) (io_return ())
          else io_return ()) w = (Inr x, w1)"
    and "io_then (MemberCache_addToIndex id' guildId)
            (io_then (engine_upsert (MemberCache_buildId id' guildId) data3)
              (io_return data3)) w1 = (Inr d', w')"
    by (rule io_thenE)
  then obtain u1 w2 where a: "MemberCache_addToIndex id' guildId w1 = (Inr u1, w2)"
    and "io_then (engine_upsert (MemberCache_buildId id' guildId) data3) (io_return data3) w2 = (Inr d', w')"
    by (auto elim: io_thenE)
  then obtain u2 w3 where b: "engine_upsert (MemberCache_buildId id' guildId) data3 w2 = (Inr u2, w3)"
    and "io_return data3 w3 = (Inr d', w')"
    by (auto elim: io_thenE)
  then have "d' = data3" "w3 = w'" by auto
  with a b t p that show thesis by auto
qed



lemmas member_defs = MemberCache_update_def MemberCache_buildId_def MemberCache_addToIndex_def
  MemberCache_removeFromIndex_def MemberCache_isIndexed_def MemberCache_getIndexMembers_def
  MemberCache_get_def MemberCache_remove_def UserCache_update_def


section \<open>Frames\<close>

lemma touchesI: "(\<And>w r w' k. m w = (r, w') \<Longrightarrow> \<not> P k \<Longrightarrow> store w' k = store w k) \<Longrightarrow> touches P m"
  unfolding touches_def by (metis prod.collapse)

lemma touchesD: "touches P m \<Longrightarrow> m w = (r, w') \<Longrightarrow> \<not> P k \<Longrightarrow> store w' k = store w k"
  unfolding touches_def by (metis snd_conv)

lemma touches_mono: "touches P m \<Longrightarrow> (\<And>k. P k \<Longrightarrow> Q k) \<Longrightarrow> touches Q m"
  unfolding touches_def by blast

lemma touches_return [intro!, simp]: "touches P (io_return x)"
  by (simp add: touches_def io_return_def)

lemma touches_throw [intro!, simp]: "touches P (io_throw e)"
  by (simp add: touches_def io_throw_def)

lemma touches_lift [intro!, simp]: "touches P (io_lift r)"
  by (cases r) (simp_all add: io_lift_def)

lemma touches_bind [intro!]:
  assumes "touches P m" and "\<And>x. touches P (f x)"
  shows "touches P (io_bind m f)"
proof (rule touchesI)
  fix w r w' k assume run: "io_bind m f w = (r, w')" and k: "\<not> P k"
  obtain r1 w1 where m: "m w = (r1, w1)" by (cases "m w")
  have 1: "store w1 k = store w k" using touchesD [OF assms(1) m k] .
  show "store w' k = store w k"
  proof (cases r1)
    case (Inl e)
    with run m have "w' = w1" by (simp add: io_bind_def)
    with 1 show ?thesis by simp
  next
    case (Inr x)
    with run m have "f x w1 = (r, w')" by (simp add: io_bind_def)
    from touchesD [OF assms(2) this k] 1 show ?thesis by simp
  qed
qed

lemma touches_then [intro!]: "touches P m \<Longrightarrow> touches P n \<Longrightarrow> touches P (io_then m n)"
  unfolding io_then_def by (rule touches_bind)

lemma touches_foreach [intro!]: "(\<And>x. touches P (f x)) \<Longrightarrow> touches P (io_foreach xs f)"
  by (induction xs) auto

lemma touches_map [intro!]: "(\<And>x. touches P (f x)) \<Longrightarrow> touches P (io_map f xs)"
  by (induction xs) auto

lemma touches_reader: "(\<And>x. touches P (f x)) \<Longrightarrow> touches P (\<lambda>w. f (g w) w)"
  unfolding touches_def by blast

lemma touches_if [intro!]: "touches P m \<Longrightarrow> touches P n \<Longrightarrow> touches P (if c then m else n)"
  by simp

lemma touches_case_option [intro!]:
  "touches P m \<Longrightarrow> (\<And>x. touches P (f x)) \<Longrightarrow> touches P (case v of None \<Rightarrow> m | Some x \<Rightarrow> f x)"
  by (cases v) auto

lemma touches_engine_get [intro!, simp]: "touches P (engine_get k)"
  by (auto simp: touches_def engine_get_def redis_GET_def split: option.splits rval.splits)

lemma touches_engine_getListMembers [intro!, simp]: "touches P (engine_getListMembers k)"
  by (auto simp: touches_def engine_getListMembers_def redis_SMEMBERS_def split: option.splits rval.splits)

lemma touches_engine_isListMember [intro!, simp]: "touches P (engine_isListMember k v)"
  by (auto simp: touches_def engine_isListMember_def redis_SISMEMBER_def split: option.splits rval.splits)

lemma touches_engine_upsert [intro]: "P k \<Longrightarrow> touches P (engine_upsert k d)"
  by (auto simp: touches_def engine_upsert_def engine_get_def redis_GET_def redis_SET_def io_bind_def
      split: option.splits rval.splits)

lemma touches_engine_remove [intro]: "P k \<Longrightarrow> touches P (engine_remove k)"
  by (auto simp: touches_def engine_remove_def redis_DEL_def)

lemma touches_engine_addToList [intro]: "P k \<Longrightarrow> touches P (engine_addToList k v)"
  by (auto simp: touches_def engine_addToList_def redis_SADD_def split: option.splits rval.splits)

lemma touches_engine_removeFromList [intro]: "P k \<Longrightarrow> touches P (engine_removeFromList k v)"
  by (auto simp: touches_def engine_removeFromList_def redis_SREM_def split: option.splits rval.splits)

lemma touches_bindChannel [intro!, simp]: "touches P (PermissionOverwriteCache_bindChannel c)"
  by (simp add: touches_def PermissionOverwriteCache_bindChannel_def)

lemma touches_bindAll [intro!, simp]: "touches P (GuildCache_bindAll g)"
  by (simp add: touches_def GuildCache_bindAll_def)

lemma default_arg_given [simp]: "v \<noteq> JUndef \<Longrightarrow> default_arg v d = v"
  by (cases v) auto

lemma default_arg_truthy [simp]: "truthy v \<Longrightarrow> default_arg v d = v"
  by (cases v) auto

lemma default_arg_idem [simp]: "default_arg (default_arg v d) d = default_arg v d"
  by (cases v; cases d) auto

lemma touches_with_default [intro!, simp]: "touches P (with_default v slot)"
  by (simp add: touches_def with_default_def)

lemma touches_addToIndex [intro]:
  "(\<And>x. P (b x)) \<Longrightarrow> touches P (BaseCache_addToIndex b bg i ob)"
  unfolding BaseCache_addToIndex_def by (intro touches_bind touches_with_default touches_engine_addToList)

lemma touches_removeFromIndex [intro]:
  "(\<And>x. P (b x)) \<Longrightarrow> touches P (BaseCache_removeFromIndex b bg i ob)"
  unfolding BaseCache_removeFromIndex_def
  by (intro touches_bind touches_with_default touches_engine_removeFromList)

lemma touches_UserCache_update: "touches (ns_key ''user'') (UserCache_update i d)"
  unfolding UserCache_update_def BaseCache_buildId_def
  by (intro touches_then touches_engine_addToList touches_engine_upsert touches_return)
    (simp_all add: ns_key_def)

lemma touches_PresenceCache_update: "touches (ns_key ''presence'') (PresenceCache_update i d)"
  unfolding PresenceCache_update_def BaseCache_buildId_def
  by (intro touches_then touches_engine_addToList touches_engine_upsert touches_return)
    (simp_all add: ns_key_def)

lemma touches_RoleCache_update: "touches (ns_key ''role'') (RoleCache_update i g d)"
  unfolding RoleCache_update_def RoleCache_addToIndex_def Let_def
  by (intro touches_if touches_throw touches_then touches_addToIndex
      touches_engine_upsert touches_return)
    (simp_all add: RoleCache_buildId_def BaseCache_buildId_def ns_key_def)

lemma touches_EmojiCache_update: "touches (ns_key ''emoji'') (EmojiCache_update i g d)"
  unfolding EmojiCache_update_def EmojiCache_addToIndex_def Let_def
  by (intro touches_bind touches_with_default touches_then touches_addToIndex touches_engine_upsert
      touches_return)
    (simp_all add: EmojiCache_buildId_def BaseCache_buildId_def ns_key_def)

lemma touches_PermissionOverwriteCache_update:
  "touches (ns_key ''permissionoverwrite'') (PermissionOverwriteCache_update i g d)"
  unfolding PermissionOverwriteCache_update_def PermissionOverwriteCache_addToIndex_def Let_def
  by (intro touches_bind touches_with_default touches_then touches_addToIndex touches_engine_upsert
      touches_return)
    (simp_all add: PermissionOverwriteCache_buildId_def BaseCache_buildId_def ns_key_def)

lemma touches_ChannelMapCache_update:
  "touches (ns_key ''channelmap'') (ChannelMapCache_update i d t r)"
  unfolding ChannelMapCache_update_def ChannelMapCache_get_def ChannelMapCache_remove_def
    ChannelMapCache_key_def BaseCache_buildId_def Let_def
  by (intro touches_bind touches_then touches_engine_addToList touches_engine_remove touches_return
      touches_engine_getListMembers)
    (simp_all add: ns_key_def)

lemma touches_MemberCache_update:
  "touches (\<lambda>k. ns_key ''member'' k \<or> ns_key ''user'' k) (MemberCache_update i g d)"
  unfolding MemberCache_update_def MemberCache_addToIndex_def Let_def
  by (intro touches_bind touches_with_default touches_if touches_throw touches_then
      touches_addToIndex touches_engine_upsert touches_return
      touches_mono [OF touches_UserCache_update])
    (simp_all add: MemberCache_buildId_def BaseCache_buildId_def ns_key_def)

lemma ns_key_hd: "ns_key (c # ns) k \<Longrightarrow> k \<noteq> [] \<and> hd k = c"
  by (cases k) (auto simp: ns_key_def)

lemma ns_key_prefix: "ns_key (a @ b) k \<Longrightarrow> ns_key a k"
proof -
  assume "ns_key (a @ b) k"
  then have "take (length a) (take (length (a @ b)) k) = take (length a) (a @ b)"
    by (simp add: ns_key_def)
  then show ?thesis by (simp add: ns_key_def min_def)
qed

lemma ns_key_channelmap: "ns_key ''channelmap'' k \<Longrightarrow> ns_key ''channel'' k"
  using ns_key_prefix [of "''channel''" "''map''" k] by simp

lemma touches_ChannelCache_update:
  "touches (\<lambda>k. ns_key ''channel'' k \<or> ns_key ''permissionoverwrite'' k) (ChannelCache_update i d)"
  unfolding ChannelCache_update_def ChannelCache_addToIndex_def Let_def
  by (intro touches_bind touches_then touches_if touches_foreach touches_lift touches_return
      touches_throw touches_case_option touches_bindChannel touches_engine_get
      touches_engine_addToList touches_engine_upsert
      touches_mono [OF touches_ChannelMapCache_update]
      touches_mono [OF touches_PermissionOverwriteCache_update])
    (auto simp: BaseCache_buildId_def ns_key_channelmap, simp_all add: ns_key_def)

lemma touches_GuildCache_update_channels:
  "touches not_guild_key (GuildCache_update_channels i d)"
  unfolding GuildCache_update_channels_def
  by (intro touches_bind touches_then touches_if touches_foreach touches_map touches_lift
      touches_return
      touches_mono [OF touches_ChannelMapCache_update]
      touches_mono [OF touches_ChannelCache_update])
    (auto simp: not_guild_key_def dest!: ns_key_hd)

lemma touches_GuildCache_update_members:
  "touches not_guild_key (GuildCache_update_members i d)"
  unfolding GuildCache_update_members_def
  by (intro touches_bind touches_then touches_foreach touches_lift touches_return
      touches_mono [OF touches_MemberCache_update])
    (auto simp: not_guild_key_def dest!: ns_key_hd)

lemma touches_GuildCache_update_presences:
  "touches not_guild_key (GuildCache_update_presences d)"
  unfolding GuildCache_update_presences_def
  by (intro touches_bind touches_then touches_foreach touches_lift touches_return
      touches_mono [OF touches_PresenceCache_update])
    (auto simp: not_guild_key_def dest!: ns_key_hd)

lemma touches_GuildCache_update_roles:
  "touches not_guild_key (GuildCache_update_roles i d)"
  unfolding GuildCache_update_roles_def
  by (intro touches_bind touches_then touches_foreach touches_lift touches_return
      touches_mono [OF touches_RoleCache_update])
    (auto simp: not_guild_key_def dest!: ns_key_hd)

lemma touches_GuildCache_update_emojis:
  "touches not_guild_key (GuildCache_update_emojis i d)"
  unfolding GuildCache_update_emojis_def
  by (intro touches_bind touches_then touches_foreach touches_lift touches_return
      touches_mono [OF touches_EmojiCache_update])
    (auto simp: not_guild_key_def dest!: ns_key_hd)

section \<open>The last two steps of every update\<close>

lemma addToIndex_given:
  "scope \<noteq> JUndef \<Longrightarrow> BaseCache_addToIndex b bg i scope = engine_addToList (b scope) i"
  by (rule ext) (simp add: BaseCache_addToIndex_def io_bind_def with_default_def)

lemma removeFromIndex_given:
  "scope \<noteq> JUndef \<Longrightarrow> BaseCache_removeFromIndex b bg i scope = engine_removeFromList (b scope) i"
  by (rule ext) (simp add: BaseCache_removeFromIndex_def io_bind_def with_default_def)

lemma isIndexed_given:
  "scope \<noteq> JUndef \<Longrightarrow> BaseCache_isIndexed b bg i scope = engine_isListMember (b scope) i"
  by (rule ext) (simp add: BaseCache_isIndexed_def io_bind_def with_default_def)

lemma getIndexMembers_given:
  "scope \<noteq> JUndef \<Longrightarrow> BaseCache_getIndexMembers b bg scope = engine_getListMembers (b scope)"
  by (rule ext) (simp add: BaseCache_getIndexMembers_def io_bind_def with_default_def)

lemma with_default_given:
  "scope \<noteq> JUndef \<Longrightarrow> io_bind (with_default scope slot) f = f scope"
  by (rule ext) (simp add: io_bind_def with_default_def)

lemma last_steps:
  assumes "io_then (engine_addToList kidx i) (io_then (engine_upsert krec d) rest) w1 = (Inr r, w')"
    and "touches (\<lambda>k. False) rest"
  obtains w2 w3 u1 u2 where "engine_addToList kidx i w1 = (Inr u1, w2)"
    and "engine_upsert krec d w2 = (Inr u2, w3)" and "store w' = store w3"
proof -
  from assms(1) obtain u1 w2 where a: "engine_addToList kidx i w1 = (Inr u1, w2)"
    and "io_then (engine_upsert krec d) rest w2 = (Inr r, w')"
    by (rule io_thenE)
  then obtain u2 w3 where b: "engine_upsert krec d w2 = (Inr u2, w3)" and c: "rest w3 = (Inr r, w')"
    by (auto elim: io_thenE)
  have "store w' = store w3"
    using touchesD [OF assms(2) c] by auto
  with a b that show thesis by blast
qed

lemma Role_update_final:
  assumes "RoleCache_update i scope data w = (Inr d', w')"
  obtains w2 w3 u1 u2 where
    "engine_addToList (index_key Role scope) i w = (Inr u1, w2)"
    "engine_upsert (record_key Role i scope) (stored_data Role i scope data) w2 = (Inr u2, w3)"
    "store w' = store w3"
proof -
  have t: "truthy scope"
    using assms by (auto simp: RoleCache_update_def split: if_splits)
  then have "scope \<noteq> JUndef" by auto
  with assms t have "io_then (engine_addToList (index_key Role scope) i)
           (io_then (engine_upsert (record_key Role i scope) (stored_data Role i scope data))
             (io_return (stored_data Role i scope data))) w = (Inr d', w')"
    by (simp add: RoleCache_update_def RoleCache_addToIndex_def addToIndex_given fill_defaults_def Let_def)
  then show thesis
    by (rule last_steps) (auto intro: that)
qed

lemma Emoji_update_final:
  assumes "EmojiCache_update i scope data w = (Inr d', w')" and "scope \<noteq> JUndef"
  obtains w2 w3 u1 u2 where
    "engine_addToList (index_key Emoji scope) i w = (Inr u1, w2)"
    "engine_upsert (record_key Emoji i scope) (stored_data Emoji i scope data) w2 = (Inr u2, w3)"
    "store w' = store w3"
proof -
  from assms have "io_then (engine_addToList (index_key Emoji scope) i)
           (io_then (engine_upsert (record_key Emoji i scope) (stored_data Emoji i scope data))
             (io_return (stored_data Emoji i scope data))) w = (Inr d', w')"
    by (simp add: EmojiCache_update_def EmojiCache_addToIndex_def addToIndex_given with_default_given)
  then show thesis
    by (rule last_steps) (auto intro: that)
qed

lemma PermissionOverwrite_update_final:
  assumes "PermissionOverwriteCache_update i scope data w = (Inr d', w')" and "scope \<noteq> JUndef"
  obtains w2 w3 u1 u2 where
    "engine_addToList (index_key PermissionOverwrite scope) i w = (Inr u1, w2)"
    "engine_upsert (record_key PermissionOverwrite i scope)
       (stored_data PermissionOverwrite i scope data) w2 = (Inr u2, w3)"
    "store w' = store w3"
proof -
  from assms have "io_then (engine_addToList (index_key PermissionOverwrite scope) i)
           (io_then (engine_upsert (record_key PermissionOverwrite i scope)
                       (stored_data PermissionOverwrite i scope data))
             (io_return (stored_data PermissionOverwrite i scope data))) w = (Inr d', w')"
    by (simp add: PermissionOverwriteCache_update_def PermissionOverwriteCache_addToIndex_def
        addToIndex_given with_default_given)
  then show thesis
    by (rule last_steps) (auto intro: that)
qed

lemma Member_update_final:
  assumes "MemberCache_update i scope data w = (Inr d', w')" and "scope \<noteq> JUndef"
  obtains w1 w2 w3 u1 u2 where
    "store w1 (record_key Member i scope) = store w (record_key Member i scope)"
    "engine_addToList (index_key Member scope) i w1 = (Inr u1, w2)"
    "engine_upsert (record_key Member i scope) (stored_data Member i scope data) w2 = (Inr u2, w3)"
    "store w' = store w3"
proof -
  from assms(1) obtain w1 w2 u1 u2 where t: "truthy (default_arg scope (member_boundGuild w))"
    and p: "(if truthy (field (fill_defaults i scope data) ''user'')
          then io_then (UserCache_update (field (as_obj (field (fill_defaults i scope data) ''user'')) ''id'')
                          (as_obj (field (fill_defaults i scope data) ''user''))) (io_return ())
          else io_return ()) w = (Inr (), w1)"
    and a: "MemberCache_addToIndex i scope w1 = (Inr u1, w2)"
    and b: "engine_upsert (MemberCache_buildId i scope) (stored_data Member i scope data) w2 = (Inr u2, w')"
    by (rule MemberCache_update_ok) (use assms(2) in \<open>simp add: fill_defaults_def Let_def cong: if_cong\<close>)
  have "touches (ns_key ''user'') (if truthy (field (fill_defaults i scope data) ''user'')
          then io_then (UserCache_update (field (as_obj (field (fill_defaults i scope data) ''user'')) ''id'')
                          (as_obj (field (fill_defaults i scope data) ''user''))) (io_return ())
          else io_return ())"
    by (intro touches_if touches_then touches_return touches_UserCache_update)
  from touchesD [OF this p, of "record_key Member i scope"]
  have 1: "store w1 (record_key Member i scope) = store w (record_key Member i scope)"
    by (simp add: ns_key_def MemberCache_buildId_def BaseCache_buildId_def)
  from a assms(2) have 2: "engine_addToList (index_key Member scope) i w1 = (Inr u1, w2)"
    by (simp add: MemberCache_addToIndex_def addToIndex_given)
  from 1 2 b that show thesis by auto
qed

lemma touches_none_get_bind:
  "touches (\<lambda>k. False) (io_bind (engine_get key) (\<lambda>channel.
      case channel of None \<Rightarrow> io_throw TypeError
      | Some c \<Rightarrow> io_then (PermissionOverwriteCache_bindChannel (field c ''id'')) (io_return c)))"
  by (intro touches_bind touches_case_option touches_then) auto

lemma touches_none_get_bindAll:
  "touches (\<lambda>k. False) (io_bind (engine_get key) (\<lambda>guild.
      case guild of None \<Rightarrow> io_throw TypeError
      | Some g \<Rightarrow> io_then (GuildCache_bindAll (field g ''id'')) (io_return g)))"
  by (intro touches_bind touches_case_option touches_then) auto

lemma Channel_update_final:
  assumes "ChannelCache_update i data w = (Inr d', w')"
  obtains w1 w2 w3 u1 u2 where
    "store w1 (record_key Channel i scope) = store w (record_key Channel i scope)"
    "engine_addToList (index_key Channel scope) i w1 = (Inr u1, w2)"
    "engine_upsert (record_key Channel i scope) (stored_data Channel i scope data) w2 = (Inr u2, w3)"
    "store w' = store w3"
proof -
  from assms obtain x wa where a: "(if truthy (field data ''guild_id'')
        then io_then (ChannelMapCache_update (field data ''guild_id'') [field data ''id''] JUndef False)
               (io_return ())
        else if truthy (field data ''recipients'')
        then (if truthy (index0 (field data ''recipients''))
              then io_then (ChannelMapCache_update
                              (field (as_obj (index0 (field data ''recipients''))) ''id'')
                              [field data ''id''] (JStr ''user'') False)
                     (io_return ())
              else io_return ())
        else io_return ()) w = (Inr x, wa)"
    and rest1: "(io_then
         (if truthy (field data ''permission_overwrites'')
          then io_bind (io_lift (iter_items (field data ''permission_overwrites''))) (\<lambda>overwrites.
                 io_foreach overwrites (\<lambda>overwrite.
                   io_bind (io_lift (field_of overwrite ''id'')) (\<lambda>oid.
                     io_then (PermissionOverwriteCache_update oid i (as_obj overwrite))
                       (io_return ()))))
          else io_return ())
         (let data1 = data(''permission_overwrites'' := None, ''recipients'' := None)
          in io_then (ChannelCache_addToIndex i)
               (io_then (engine_upsert (BaseCache_buildId ''channel'' i) data1)
                 (io_bind (engine_get (BaseCache_buildId ''channel'' i)) (\<lambda>channel.
                    case channel of
                      None \<Rightarrow> io_throw TypeError
                    | Some c \<Rightarrow> io_then (PermissionOverwriteCache_bindChannel (field c ''id''))
                                 (io_return c)))))) wa = (Inr d', w')"
    unfolding ChannelCache_update_def by (rule io_thenE)
  from rest1 obtain y w1 where b: "(if truthy (field data ''permission_overwrites'')
          then io_bind (io_lift (iter_items (field data ''permission_overwrites''))) (\<lambda>overwrites.
                 io_foreach overwrites (\<lambda>overwrite.
                   io_bind (io_lift (field_of overwrite ''id'')) (\<lambda>oid.
                     io_then (PermissionOverwriteCache_update oid i (as_obj overwrite))
                       (io_return ()))))
          else io_return ()) wa = (Inr y, w1)"
    and rest2: "io_then (engine_addToList (index_key Channel scope) i)
               (io_then (engine_upsert (record_key Channel i scope) (stored_data Channel i scope data))
                 (io_bind (engine_get (BaseCache_buildId ''channel'' i)) (\<lambda>channel.
                    case channel of
                      None \<Rightarrow> io_throw TypeError
                    | Some c \<Rightarrow> io_then (PermissionOverwriteCache_bindChannel (field c ''id''))
                                 (io_return c)))) w1 = (Inr d', w')"
    by (rule io_thenE) (simp add: Let_def ChannelCache_addToIndex_def)
  have ta: "touches (ns_key ''channelmap'') (if truthy (field data ''guild_id'')
        then io_then (ChannelMapCache_update (field data ''guild_id'') [field data ''id''] JUndef False)
               (io_return ())
        else if truthy (field data ''recipients'')
        then (if truthy (index0 (field data ''recipients''))
              then io_then (ChannelMapCache_update
                              (field (as_obj (index0 (field data ''recipients''))) ''id'')
                              [field data ''id''] (JStr ''user'') False)
                     (io_return ())
              else io_return ())
        else io_return ())"
    by (intro touches_if touches_then touches_return touches_ChannelMapCache_update)
  have tb: "touches (ns_key ''permissionoverwrite'') (if truthy (field data ''permission_overwrites'')
          then io_bind (io_lift (iter_items (field data ''permission_overwrites''))) (\<lambda>overwrites.
                 io_foreach overwrites (\<lambda>overwrite.
                   io_bind (io_lift (field_of overwrite ''id'')) (\<lambda>oid.
                     io_then (PermissionOverwriteCache_update oid i (as_obj overwrite))
                       (io_return ()))))
          else io_return ())"
    by (intro touches_if touches_bind touches_then touches_return touches_lift touches_foreach
        touches_PermissionOverwriteCache_update)
  have 1: "store w1 (record_key Channel i scope) = store w (record_key Channel i scope)"
    using touchesD [OF ta a, of "record_key Channel i scope"]
      touchesD [OF tb b, of "record_key Channel i scope"]
    by (simp add: ns_key_def BaseCache_buildId_def)
  from rest2 touches_none_get_bind obtain w2 w3 u1 u2 where
    "engine_addToList (index_key Channel scope) i w1 = (Inr u1, w2)"
    "engine_upsert (record_key Channel i scope) (stored_data Channel i scope data) w2 = (Inr u2, w3)"
    "store w' = store w3"
    by (rule last_steps)
  with 1 that show thesis by blast
qed

lemma Guild_update_final:
  assumes "GuildCache_update i data w = (Inr d', w')"
  obtains w1 w2 w3 u1 u2 where
    "store w1 (record_key Guild i scope) = store w (record_key Guild i scope)"
    "engine_addToList (index_key Guild scope) i w1 = (Inr u1, w2)"
    "engine_upsert (record_key Guild i scope) (stored_data Guild i scope data) w2 = (Inr u2, w3)"
    "store w' = store w3"
proof -
  from assms obtain x1 wa where a: "GuildCache_update_channels i data w = (Inr x1, wa)"
    and r1: "(io_then (GuildCache_update_members i data)
    (io_then (GuildCache_update_presences data)
    (io_then (GuildCache_update_roles i data)
    (io_then (GuildCache_update_emojis i data)
    (io_then (GuildCache_addToIndex i)
    (io_then (engine_upsert (BaseCache_buildId ''guild'' i) (GuildCache_strip data))
    (io_bind (engine_get (BaseCache_buildId ''guild'' i)) (\<lambda>guild.
       case guild of
         None \<Rightarrow> io_throw TypeError
       | Some g \<Rightarrow> io_then (GuildCache_bindAll (field g ''id'')) (io_return g))))))))) wa = (Inr d', w')"
    unfolding GuildCache_update_def by (rule io_thenE)
  from r1 obtain x2 wb where b: "GuildCache_update_members i data wa = (Inr x2, wb)"
    and r2: "(io_then (GuildCache_update_presences data)
    (io_then (GuildCache_update_roles i data)
    (io_then (GuildCache_update_emojis i data)
    (io_then (GuildCache_addToIndex i)
    (io_then (engine_upsert (BaseCache_buildId ''guild'' i) (GuildCache_strip data))
    (io_bind (engine_get (BaseCache_buildId ''guild'' i)) (\<lambda>guild.
       case guild of
         None \<Rightarrow> io_throw TypeError
       | Some g \<Rightarrow> io_then (GuildCache_bindAll (field g ''id'')) (io_return g)))))))) wb = (Inr d', w')"
    by (rule io_thenE)
  from r2 obtain x3 wc where c: "GuildCache_update_presences data wb = (Inr x3, wc)"
    and r3: "(io_then (GuildCache_update_roles i data)
    (io_then (GuildCache_update_emojis i data)
    (io_then (GuildCache_addToIndex i)
    (io_then (engine_upsert (BaseCache_buildId ''guild'' i) (GuildCache_strip data))
    (io_bind (engine_get (BaseCache_buildId ''guild'' i)) (\<lambda>guild.
       case guild of
         None \<Rightarrow> io_throw TypeError
       | Some g \<Rightarrow> io_then (GuildCache_bindAll (field g ''id'')) (io_return g))))))) wc = (Inr d', w')"
    by (rule io_thenE)
  from r3 obtain x4 wd where d: "GuildCache_update_roles i data wc = (Inr x4, wd)"
    and r4: "(io_then (GuildCache_update_emojis i data)
    (io_then (GuildCache_addToIndex i)
    (io_then (engine_upsert (BaseCache_buildId ''guild'' i) (GuildCache_strip data))
    (io_bind (engine_get (BaseCache_buildId ''guild'' i)) (\<lambda>guild.
       case guild of
         None \<Rightarrow> io_throw TypeError
       | Some g \<Rightarrow> io_then (GuildCache_bindAll (field g ''id'')) (io_return g)))))) wd = (Inr d', w')"
    by (rule io_thenE)
  from r4 obtain x5 w1 where e: "GuildCache_update_emojis i data wd = (Inr x5, w1)"
    and r5: "(io_then (engine_addToList (index_key Guild scope) i)
    (io_then (engine_upsert (record_key Guild i scope) (stored_data Guild i scope data))
    (io_bind (engine_get (BaseCache_buildId ''guild'' i)) (\<lambda>guild.
       case guild of
         None \<Rightarrow> io_throw TypeError
       | Some g \<Rightarrow> io_then (GuildCache_bindAll (field g ''id'')) (io_return g))))) w1 = (Inr d', w')"
    by (rule io_thenE) (simp add: GuildCache_addToIndex_def)
  have ng: "\<not> not_guild_key (record_key Guild i scope)"
    by (simp add: not_guild_key_def BaseCache_buildId_def)
  have 1: "store w1 (record_key Guild i scope) = store w (record_key Guild i scope)"
    using touchesD [OF touches_GuildCache_update_channels a ng]
      touchesD [OF touches_GuildCache_update_members b ng]
      touchesD [OF touches_GuildCache_update_presences c ng]
      touchesD [OF touches_GuildCache_update_roles d ng]
      touchesD [OF touches_GuildCache_update_emojis e ng]
    by simp
  from r5 touches_none_get_bindAll obtain w2 w3 u1 u2 where
    "engine_addToList (index_key Guild scope) i w1 = (Inr u1, w2)"
    "engine_upsert (record_key Guild i scope) (stored_data Guild i scope data) w2 = (Inr u2, w3)"
    "store w' = store w3"
    by (rule last_steps)
  with 1 that show thesis by blast
qed

lemma cache_update_final:
  assumes "cache_update k i scope data w = (Inr d', w')" and "scope \<noteq> JUndef"
  obtains w1 w2 w3 u1 u2 where
    "store w1 (record_key k i scope) = store w (record_key k i scope)"
    "engine_addToList (index_key k scope) i w1 = (Inr u1, w2)"
    "engine_upsert (record_key k i scope) (stored_data k i scope data) w2 = (Inr u2, w3)"
    "store w' = store w3"
proof (cases k)
  case Role
  with assms show thesis by (auto elim!: Role_update_final intro: that)
next
  case Emoji
  with assms show thesis by (auto elim!: Emoji_update_final intro: that)
next
  case PermissionOverwrite
  with assms show thesis by (auto elim!: PermissionOverwrite_update_final intro: that)
next
  case Member
  with assms show thesis by (auto elim!: Member_update_final intro: that)
next
  case Channel
  with assms have "ChannelCache_update i data w = (Inr d', w')" by simp
  then show thesis using Channel Channel_update_final [of i data w d' w' scope] that by metis
next
  case Guild
  with assms have "GuildCache_update i data w = (Inr d', w')" by simp
  then show thesis using Guild Guild_update_final [of i data w d' w' scope] that by metis
qed

section \<open>The steps of a removal\<close>

lemma engine_removeFromList_ok:
  assumes "engine_removeFromList k v w = (Inr u, w')"
  shows "case store w' k of None \<Rightarrow> True | Some (RString d) \<Rightarrow> False
         | Some (RSet xs) \<Rightarrow> redis_arg v \<notin> set xs"
    and "\<And>k'. k' \<noteq> k \<Longrightarrow> store w' k' = store w k'"
    and "store w k = None \<or> (\<exists>xs. store w k = Some (RSet xs))"
    and "case store w k of Some (RSet xs) \<Rightarrow>
           (if removeAll (redis_arg v) xs = [] then store w' k = None
            else store w' k = Some (RSet (removeAll (redis_arg v) xs)))
         | _ \<Rightarrow> store w' k = None"
  using assms
  by (auto simp: engine_removeFromList_def redis_SREM_def split: option.splits rval.splits if_splits)

lemma engine_remove_ok:
  "engine_remove k w = (r, w') \<longleftrightarrow> r = Inr () \<and> w' = w\<lparr>store := (store w)(k := None)\<rparr>"
  by (auto simp: engine_remove_def redis_DEL_def)

lemma record_remove_steps:
  assumes "io_bind (engine_get krec) (\<lambda>x.
             case x of Some r \<Rightarrow> io_then (engine_removeFromList kidx i) (engine_remove krec)
             | None \<Rightarrow> io_return ()) w = (Inr (), w')"
    and "fst (engine_get krec w) = Inr (Some r)"
  obtains w2 u1 where "engine_removeFromList kidx i w = (Inr u1, w2)"
    and "engine_remove krec w2 = (Inr (), w')" and "kidx \<noteq> krec"
proof -
  from assms(2) have g: "engine_get krec w = (Inr (Some r), w)"
    by (auto simp: engine_get_def redis_GET_def split: option.splits rval.splits)
  with assms(1) have "io_then (engine_removeFromList kidx i) (engine_remove krec) w = (Inr (), w')"
    by (simp add: io_bind_def)
  then obtain u1 w2 where a: "engine_removeFromList kidx i w = (Inr u1, w2)"
    and b: "engine_remove krec w2 = (Inr (), w')"
    by (rule io_thenE)
  from g have "\<exists>d. store w krec = Some (RString d)"
    by (auto simp: engine_get_def redis_GET_def split: option.splits rval.splits)
  moreover from engine_removeFromList_ok(3) [OF a]
  have "store w kidx = None \<or> (\<exists>xs. store w kidx = Some (RSet xs))" .
  ultimately have "kidx \<noteq> krec" by auto
  with a b that show thesis by blast
qed

lemma cache_get_key:
  "scope \<noteq> JUndef \<Longrightarrow> fst (cache_get k i scope w) = fst (engine_get (record_key k i scope) w)"
  by (cases k)
    (auto simp: RoleCache_get_def EmojiCache_get_def PermissionOverwriteCache_get_def
      MemberCache_get_def ChannelCache_get_def GuildCache_get_def with_default_given
      io_bind_def io_then_def io_return_def PermissionOverwriteCache_bindChannel_def GuildCache_bindAll_def
      split: prod.splits sum.splits option.splits)

lemma cache_isIndexed_key:
  "scope \<noteq> JUndef \<Longrightarrow> cache_isIndexed k i scope = engine_isListMember (index_key k scope) i"
  by (cases k)
    (simp_all add: RoleCache_isIndexed_def EmojiCache_isIndexed_def
      PermissionOverwriteCache_isIndexed_def MemberCache_isIndexed_def ChannelCache_isIndexed_def
      GuildCache_isIndexed_def isIndexed_given)

lemma cache_getIndexMembers_key:
  "scope \<noteq> JUndef \<Longrightarrow> cache_getIndexMembers k scope = engine_getListMembers (index_key k scope)"
  by (cases k)
    (simp_all add: RoleCache_getIndexMembers_def EmojiCache_getIndexMembers_def
      PermissionOverwriteCache_getIndexMembers_def MemberCache_getIndexMembers_def
      ChannelCache_getIndexMembers_def GuildCache_getIndexMembers_def getIndexMembers_given)

lemma Guild_remove_final:
  assumes "GuildCache_remove i w = (Inr (), w')"
    and "fst (engine_get (BaseCache_buildId ''guild'' i) w) = Inr (Some r)"
  obtains w1 w2 u1 where "engine_removeFromList ''guild'' i w1 = (Inr u1, w2)"
    and "engine_remove (BaseCache_buildId ''guild'' i) w2 = (Inr (), w')"
proof -
  from assms(2) have g: "engine_get (BaseCache_buildId ''guild'' i) w = (Inr (Some r), w)"
    by (auto simp: engine_get_def redis_GET_def split: option.splits rval.splits)
  from assms(1) g obtain channels roles emojis members wa wb wc wd where
    "(io_then (io_foreach emojis (\<lambda>emoji. EmojiCache_remove (JStr emoji) i))
          (io_then (io_foreach roles (\<lambda>role. RoleCache_remove (JStr role) i))
          (io_then (io_foreach channels (\<lambda>channel. ChannelCache_remove channel))
          (io_then (io_foreach members (\<lambda>member. MemberCache_remove (JStr member) i))
          (io_then (ChannelMapCache_remove i JUndef)
          (io_then (GuildCache_removeFromIndex i)
                   (engine_remove (BaseCache_buildId ''guild'' i)))))))) wd = (Inr (), w')"
    unfolding GuildCache_remove_def
    by (auto simp: io_bind_Inr elim!: io_bindE)
  then obtain w1 w2 u1 where "GuildCache_removeFromIndex i w1 = (Inr u1, w2)"
    and "engine_remove (BaseCache_buildId ''guild'' i) w2 = (Inr (), w')"
    by (elim io_thenE) blast
  with that show thesis by (simp add: GuildCache_removeFromIndex_def)
qed

lemma cache_remove_final:
  assumes "cache_remove k i scope w = (Inr (), w')" and "scope \<noteq> JUndef"
    and "fst (cache_get k i scope w) = Inr (Some r)"
  obtains w1 w2 u1 where "engine_removeFromList (index_key k scope) i w1 = (Inr u1, w2)"
    and "engine_remove (record_key k i scope) w2 = (Inr (), w')"
    and "index_key k scope \<noteq> record_key k i scope"
proof -
  from assms(2,3) have g: "fst (engine_get (record_key k i scope) w) = Inr (Some r)"
    by (simp add: cache_get_key)
  show thesis
  proof (cases k)
    case Role
    have "RoleCache_removeFromIndex i scope = engine_removeFromList (index_key Role scope) i"
      using assms(2) by (simp add: RoleCache_removeFromIndex_def removeFromIndex_given)
    with assms(1) Role have "io_bind (engine_get (record_key Role i scope)) (\<lambda>x.
             case x of Some r \<Rightarrow> io_then (engine_removeFromList (index_key Role scope) i)
                                  (engine_remove (record_key Role i scope))
             | None \<Rightarrow> io_return ()) w = (Inr (), w')"
      by (simp add: RoleCache_remove_def cong: option.case_cong)
    then show thesis using g Role that by (elim record_remove_steps) auto
  next
    case Emoji
    have "EmojiCache_removeFromIndex i scope = engine_removeFromList (index_key Emoji scope) i"
      using assms(2) by (simp add: EmojiCache_removeFromIndex_def removeFromIndex_given)
    with assms(1,2) Emoji have "io_bind (engine_get (record_key Emoji i scope)) (\<lambda>x.
             case x of Some r \<Rightarrow> io_then (engine_removeFromList (index_key Emoji scope) i)
                                  (engine_remove (record_key Emoji i scope))
             | None \<Rightarrow> io_return ()) w = (Inr (), w')"
      by (simp add: EmojiCache_remove_def with_default_given cong: option.case_cong)
    then show thesis using g Emoji that by (elim record_remove_steps) auto
  next
    case PermissionOverwrite
    have "PermissionOverwriteCache_removeFromIndex i scope
            = engine_removeFromList (index_key PermissionOverwrite scope) i"
      using assms(2) by (simp add: PermissionOverwriteCache_removeFromIndex_def removeFromIndex_given)
    with assms(1,2) PermissionOverwrite
    have "io_bind (engine_get (record_key PermissionOverwrite i scope)) (\<lambda>x.
             case x of Some r \<Rightarrow> io_then (engine_removeFromList (index_key PermissionOverwrite scope) i)
                                  (engine_remove (record_key PermissionOverwrite i scope))
             | None \<Rightarrow> io_return ()) w = (Inr (), w')"
      by (simp add: PermissionOverwriteCache_remove_def with_default_given cong: option.case_cong)
    then show thesis using g PermissionOverwrite that by (elim record_remove_steps) auto
  next
    case Member
    have "MemberCache_removeFromIndex i scope = engine_removeFromList (index_key Member scope) i"
      using assms(2) by (simp add: MemberCache_removeFromIndex_def removeFromIndex_given)
    with assms(1,2) Member have "io_bind (engine_get (record_key Member i scope)) (\<lambda>x.
             case x of Some r \<Rightarrow> io_then (engine_removeFromList (index_key Member scope) i)
                                  (engine_remove (record_key Member i scope))
             | None \<Rightarrow> io_return ()) w = (Inr (), w')"
      by (simp add: MemberCache_remove_def with_default_given cong: option.case_cong)
    then show thesis using g Member that by (elim record_remove_steps) auto
  next
    case Channel
    with assms(1) have "io_bind (engine_get (record_key Channel i scope)) (\<lambda>x.
             case x of Some r \<Rightarrow> io_then (engine_removeFromList (index_key Channel scope) i)
                                  (engine_remove (record_key Channel i scope))
             | None \<Rightarrow> io_return ()) w = (Inr (), w')"
      by (simp add: ChannelCache_remove_def ChannelCache_removeFromIndex_def cong: option.case_cong)
    then show thesis using g Channel that by (elim record_remove_steps) auto
  next
    case Guild
    with assms(1) g obtain w1 w2 u1 where "engine_removeFromList ''guild'' i w1 = (Inr u1, w2)"
      and "engine_remove (BaseCache_buildId ''guild'' i) w2 = (Inr (), w')"
      by (auto elim: Guild_remove_final)
    moreover have "''guild'' \<noteq> BaseCache_buildId ''guild'' i"
      by (simp add: BaseCache_buildId_def)
    ultimately show thesis using Guild that by simp
  qed
qed

section \<open>Index consistency\<close>

lemma engine_isListMember_set:
  "store w k = Some (RSet xs) \<Longrightarrow> engine_isListMember k (JStr i) w = (Inr (i \<in> set xs), w)"
  by (simp add: engine_isListMember_def redis_SISMEMBER_def)

lemma engine_isListMember_none:
  "store w k = None \<Longrightarrow> engine_isListMember k v w = (Inr False, w)"
  by (simp add: engine_isListMember_def redis_SISMEMBER_def)

lemma engine_getListMembers_set:
  "store w k = Some (RSet xs) \<Longrightarrow> engine_getListMembers k w = (Inr xs, w)"
  by (simp add: engine_getListMembers_def redis_SMEMBERS_def)

lemma engine_getListMembers_none:
  "store w k = None \<Longrightarrow> engine_getListMembers k w = (Inr [], w)"
  by (simp add: engine_getListMembers_def redis_SMEMBERS_def)

lemma indexed_after_update:
  assumes "cache_update k (JStr i) scope data w = (Inr d, w')" and "scope \<noteq> JUndef"
  shows "\<exists>xs. store w' (index_key k scope) = Some (RSet xs) \<and> i \<in> set xs"
proof -
  from assms obtain w1 w2 w3 u1 u2 where
    a: "engine_addToList (index_key k scope) (JStr i) w1 = (Inr u1, w2)" and
    b: "engine_upsert (record_key k (JStr i) scope) (stored_data k (JStr i) scope data) w2 = (Inr u2, w3)" and
    c: "store w' = store w3"
    by (rule cache_update_final)
  from a obtain xs where 2: "store w2 (index_key k scope) = Some (RSet (set_insert xs [i]))"
    by (rule engine_addToList_ok) simp
  from b obtain old where
    3: "w3 = w2\<lparr>store := (store w2)(record_key k (JStr i) scope \<mapsto>
            RString (prepareData (old ++ stored_data k (JStr i) scope data)))\<rparr>"
    and 4: "store w2 (record_key k (JStr i) scope) = None \<and> old = Map.empty
            \<or> store w2 (record_key k (JStr i) scope) = Some (RString old)"
    by (rule engine_upsert_ok)
  from 2 4 have "index_key k scope \<noteq> record_key k (JStr i) scope" by auto
  with 2 3 c show ?thesis by auto
qed

lemma unindexed_after_remove:
  assumes "cache_remove k (JStr i) scope w = (Inr (), w')" and "scope \<noteq> JUndef"
    and "fst (cache_get k (JStr i) scope w) = Inr (Some r)"
  shows "store w' (index_key k scope) = None
         \<or> (\<exists>xs. store w' (index_key k scope) = Some (RSet xs) \<and> i \<notin> set xs)"
proof -
  from assms obtain w1 w2 u1 where
    a: "engine_removeFromList (index_key k scope) (JStr i) w1 = (Inr u1, w2)" and
    b: "engine_remove (record_key k (JStr i) scope) w2 = (Inr (), w')" and
    ne: "index_key k scope \<noteq> record_key k (JStr i) scope"
    by (rule cache_remove_final)
  from engine_removeFromList_ok(1) [OF a]
  have "store w2 (index_key k scope) = None
         \<or> (\<exists>xs. store w2 (index_key k scope) = Some (RSet xs) \<and> i \<notin> set xs)"
    by (auto split: option.splits rval.splits)
  moreover from b ne have "store w' (index_key k scope) = store w2 (index_key k scope)"
    by (auto simp: engine_remove_ok)
  ultimately show ?thesis by simp
qed

text \<open>
  C4, as amended. For the Role, Emoji, PermissionOverwrite, Member, Channel and Guild
  caches and a scope that is given: after an unbound \<open>update(id, scope, data)\<close> completes,
  \<open>isIndexed(id, scope)\<close> returns true and \<open>id\<close> is among \<open>getIndexMembers(scope)\<close>; after
  \<open>remove(id, scope)\<close> on an existing record completes, \<open>isIndexed(id, scope)\<close> returns false
  and \<open>id\<close> is not among \<open>getIndexMembers(scope)\<close>.
\<close>

theorem index_consistency:
  assumes "scope \<noteq> JUndef"
  shows "(cache_update k (JStr i) scope data w = (Inr d, w') \<longrightarrow>
            cache_isIndexed k (JStr i) scope w' = (Inr True, w')
            \<and> (\<exists>ms. cache_getIndexMembers k scope w' = (Inr ms, w') \<and> i \<in> set ms))
       \<and> (fst (cache_get k (JStr i) scope w) = Inr (Some r)
            \<and> cache_remove k (JStr i) scope w = (Inr (), w') \<longrightarrow>
            cache_isIndexed k (JStr i) scope w' = (Inr False, w')
            \<and> (\<exists>ms. cache_getIndexMembers k scope w' = (Inr ms, w') \<and> i \<notin> set ms))"
proof (intro conjI impI)
  assume "cache_update k (JStr i) scope data w = (Inr d, w')"
  from indexed_after_update [OF this assms]
  obtain xs where xs: "store w' (index_key k scope) = Some (RSet xs)" "i \<in> set xs" by blast
  then show "cache_isIndexed k (JStr i) scope w' = (Inr True, w')"
    using assms by (simp add: cache_isIndexed_key engine_isListMember_set)
  from xs show "\<exists>ms. cache_getIndexMembers k scope w' = (Inr ms, w') \<and> i \<in> set ms"
    using assms by (simp add: cache_getIndexMembers_key engine_getListMembers_set)
next
  assume h: "fst (cache_get k (JStr i) scope w) = Inr (Some r)
      \<and> cache_remove k (JStr i) scope w = (Inr (), w')"
  then have c: "store w' (index_key k scope) = None
         \<or> (\<exists>xs. store w' (index_key k scope) = Some (RSet xs) \<and> i \<notin> set xs)"
    using unindexed_after_remove assms by blast
  then show "cache_isIndexed k (JStr i) scope w' = (Inr False, w')"
    using assms
    by (auto simp: cache_isIndexed_key engine_isListMember_set engine_isListMember_none)
  from c show "\<exists>ms. cache_getIndexMembers k scope w' = (Inr ms, w') \<and> i \<notin> set ms"
    using assms
    by (auto simp: cache_getIndexMembers_key engine_getListMembers_set engine_getListMembers_none)
qed

lemmas role_defs = RoleCache_update_def RoleCache_remove_def RoleCache_get_def RoleCache_buildId_def
  RoleCache_addToIndex_def RoleCache_removeFromIndex_def RoleCache_isIndexed_def
  RoleCache_getIndexMembers_def

theorem index_consistency_witness:
  "JStr ''7'' \<noteq> JUndef
   \<and> fst (cache_update Role (JStr ''6'') (JStr ''7'') [''name'' \<mapsto> JStr ''admin''] role_world)
        = Inr [''name'' \<mapsto> JStr ''admin'', ''guild_id'' \<mapsto> JStr ''7'', ''id'' \<mapsto> JStr ''6'']
   \<and> fst (cache_isIndexed Role (JStr ''6'') (JStr ''7'')
            (snd (cache_update Role (JStr ''6'') (JStr ''7'') [''name'' \<mapsto> JStr ''admin''] role_world)))
        = Inr True
   \<and> fst (cache_get Role (JStr ''5'') (JStr ''7'') role_world)
        = Inr (Some [''id'' \<mapsto> JStr ''5'', ''guild_id'' \<mapsto> JStr ''7''])
   \<and> fst (cache_remove Role (JStr ''5'') (JStr ''7'') role_world) = Inr ()
   \<and> fst (cache_isIndexed Role (JStr ''5'') (JStr ''7'')
            (snd (cache_remove Role (JStr ''5'') (JStr ''7'') role_world)))
        = Inr False"
proof -
  let ?d = "[''name'' \<mapsto> JStr ''admin'', ''guild_id'' \<mapsto> JStr ''7'', ''id'' \<mapsto> JStr ''6'']"
  let ?up = "cache_update Role (JStr ''6'') (JStr ''7'') [''name'' \<mapsto> JStr ''admin''] role_world"
  let ?rm = "cache_remove Role (JStr ''5'') (JStr ''7'') role_world"
  have s: "JStr ''7'' \<noteq> JUndef" by simp
  have up: "fst ?up = Inr ?d"
    by (simp add: role_defs role_world_def initial_world_def index_defs io_defs redis_defs engine_defs
        field_def Let_def fun_eq_iff)
  then have up': "?up = (Inr ?d, snd ?up)" by (metis prod.collapse)
  have g: "fst (cache_get Role (JStr ''5'') (JStr ''7'') role_world)
             = Inr (Some [''id'' \<mapsto> JStr ''5'', ''guild_id'' \<mapsto> JStr ''7''])"
    by (simp add: role_defs role_world_def initial_world_def io_defs redis_defs engine_defs)
  have rm: "fst ?rm = Inr ()"
    by (simp add: role_defs role_world_def initial_world_def index_defs io_defs redis_defs engine_defs)
  then have rm': "?rm = (Inr (), snd ?rm)" by (metis prod.collapse)
  from index_consistency [OF s, of Role "''6''" "[''name'' \<mapsto> JStr ''admin'']" role_world ?d "snd ?up"] up'
  have 1: "fst (cache_isIndexed Role (JStr ''6'') (JStr ''7'') (snd ?up)) = Inr True" by simp
  from index_consistency [OF s, of Role "''5''" _ role_world _ "snd ?rm"
      "[''id'' \<mapsto> JStr ''5'', ''guild_id'' \<mapsto> JStr ''7'']"] g rm'
  have 2: "fst (cache_isIndexed Role (JStr ''5'') (JStr ''7'') (snd ?rm)) = Inr False" by simp
  from s up g rm 1 2 show ?thesis by blast
qed

text \<open>
  The claim as stated speaks of every entity kind. \<open>ChannelMapCache\<close> is one of the entity
  caches and inherits \<open>isIndexed\<close> from \<open>BaseCache\<close>, but its \<open>update\<close> never calls
  \<open>addToIndex\<close>: it keeps no index of its maps.
\<close>

theorem channel_map_not_indexed_counterexample:
  "fst channel_map_run = Inr [JStr ''1'']
   \<and> fst (ChannelMapCache_isIndexed (JStr ''7'') (JStr ''guild'') (snd channel_map_run)) = Inr False"
  by (simp add: channel_map_run_def ChannelMapCache_update_def ChannelMapCache_get_def
      ChannelMapCache_remove_def ChannelMapCache_key_def ChannelMapCache__buildMapId_def
      ChannelMapCache__checkDupes_def ChannelMapCache_isIndexed_def
      initial_world_def index_defs io_defs redis_defs engine_defs Let_def)

section \<open>Update followed by get\<close>









section \<open>Update on a bound instance\<close>

lemma EmojiCache_update_method_returns:
  assumes "EmojiCache_update_method self i g data w = Some y"
  shows "boundObject self = None"
proof (rule EmojiCache_update_method.raw_induct
    [where P = "\<lambda>self i g data w y. boundObject self = None", OF _ assms])
  fix f self i g data w y
  assume IH: "\<And>self i g data w y. f self i g data w = Some y \<Longrightarrow> boundObject self = None"
    and eq: "(let guildId = default_arg g (boundGuild self) in
      case boundObject self of
        None \<Rightarrow>
          Some (case on_emoji_instance self (EmojiCache_update i guildId data) w of
                  (Inl e, w') \<Rightarrow> (Inl e, w')
                | (Inr d, w') \<Rightarrow> (Inr (new_EmojiCache d), w'))
      | Some b \<Rightarrow>
          Option.bind (f (bindObject data self) i guildId data w)
            (\<lambda>r. Some (returning (bindObject data self) r))) = Some y"
  show "boundObject self = None"
  proof (cases "boundObject self")
    case None
    then show ?thesis .
  next
    case (Some b)
    with eq obtain r where
      r: "f (bindObject data self) i (default_arg g (boundGuild self)) data w = Some r"
      by (auto simp: Let_def Option.bind_eq_Some_conv)
    have "boundObject (bindObject data self) = None"
      using r by (rule IH)
    then show ?thesis by (simp add: bindObject_def)
  qed
qed

lemma MemberCache_update_method_returns:
  assumes "MemberCache_update_method self i g data w = Some y"
  shows "boundObject self = None"
proof (rule MemberCache_update_method.raw_induct
    [where P = "\<lambda>self i g data w y. boundObject self = None", OF _ assms])
  fix f self i g data w y
  assume IH: "\<And>self i g data w y. f self i g data w = Some y \<Longrightarrow> boundObject self = None"
    and eq: "(let guildId = default_arg g (boundGuild self) in
      case boundObject self of
        None \<Rightarrow>
          Some (case on_member_instance self (MemberCache_update i guildId data) w of
                  (Inl e, w') \<Rightarrow> (Inl e, w')
                | (Inr d, w') \<Rightarrow> (Inr (new_MemberCache d), w'))
      | Some b \<Rightarrow>
          Option.bind (f (bindObject data self) (field data ''id'') (field data ''guild_id'') data w)
            (\<lambda>r. Some (returning (bindObject data self) r))) = Some y"
  show "boundObject self = None"
  proof (cases "boundObject self")
    case None
    then show ?thesis .
  next
    case (Some b)
    with eq obtain r where
      r: "f (bindObject data self) (field data ''id'') (field data ''guild_id'') data w = Some r"
      by (auto simp: Let_def Option.bind_eq_Some_conv)
    have "boundObject (bindObject data self) = None"
      using r by (rule IH)
    then show ?thesis by (simp add: bindObject_def)
  qed
qed

lemma bound_update_never_returns:
  "boundObject self \<noteq> None \<Longrightarrow> EmojiCache_update_method self i g data w = None"
  "boundObject self \<noteq> None \<Longrightarrow> MemberCache_update_method self i g data w = None"
  using EmojiCache_update_method_returns MemberCache_update_method_returns
  by (metis option.exhaust)+

text \<open>
  C2. \<open>c = await cache.get(id, scope)\<close> on a cache that holds the record returns an
  instance bound to it. \<open>c.update(otherId, otherScope, data)\<close> then enters the guarded part
  of \<open>update\<close>, which binds \<open>data\<close> and calls \<open>this.update\<close> on the same instance, whose
  \<open>boundObject\<close> is still set: the call enters the guarded part again and never reaches
  the storage engine. It does not return, and the record at \<open>(id, scope)\<close> is as it was.
\<close>

theorem bound_update_does_not_return:
  "(case fst (EmojiCache_get_instance (JStr ''1'') (JStr ''7'') bound_world) of
      Inr (Some c) \<Rightarrow>
        boundObject c = Some [''id'' \<mapsto> JStr ''1'', ''name'' \<mapsto> JStr ''a'']
        \<and> EmojiCache_update_method c (JStr ''2'') (JStr ''8'') [''name'' \<mapsto> JStr ''b''] bound_world = None
    | _ \<Rightarrow> False)
   \<and> (case fst (MemberCache_get_instance (JStr ''42'') (JStr ''7'') bound_world) of
      Inr (Some c) \<Rightarrow>
        boundObject c = Some [''id'' \<mapsto> JStr ''42'', ''guild_id'' \<mapsto> JStr ''7'']
        \<and> MemberCache_update_method c (JStr ''43'') (JStr ''8'') [''nick'' \<mapsto> JStr ''b''] bound_world = None
    | _ \<Rightarrow> False)"
  by (simp add: EmojiCache_get_instance_def EmojiCache_get_def EmojiCache_buildId_def
      MemberCache_get_instance_def MemberCache_get_def MemberCache_buildId_def
      new_EmojiCache_def new_MemberCache_def bound_update_never_returns
      bound_world_def initial_world_def io_defs redis_defs engine_defs)

section \<open>Effects of the operations on indexes and records\<close>

lemma io_foreach_map: "io_foreach (map h xs) f = io_foreach xs (\<lambda>x. f (h x))"
  by (induction xs) simp_all


lemma io_foreach_prefix_induct:
  assumes "io_foreach xs f w = (Inr u, w')" and "P [] w"
    and "\<And>ys x w1 w2. x \<in> set xs \<Longrightarrow> P ys w1 \<Longrightarrow> f x w1 = (Inr (), w2) \<Longrightarrow> P (ys @ [x]) w2"
  shows "P xs w'"
proof -
  have "P ys w \<Longrightarrow> io_foreach zs f w = (Inr u, w') \<Longrightarrow> set zs \<subseteq> set xs \<Longrightarrow> P (ys @ zs) w'"
    for ys zs w
  proof (induction zs arbitrary: ys w)
    case Nil
    then show ?case by simp
  next
    case (Cons z zs)
    from Cons.prems(2) obtain x w1 where 1: "f z w = (Inr x, w1)"
      and 2: "io_foreach zs f w1 = (Inr u, w')"
      by (auto elim: io_thenE)
    from Cons.prems(3) have "z \<in> set xs" by simp
    from assms(3) [OF this Cons.prems(1)] 1 have "P (ys @ [z]) w1" by simp
    from Cons.IH [OF this 2] Cons.prems(3) show ?case by simp
  qed
  from this [of "[]" w xs] assms(1,2) show ?thesis by simp
qed

lemma engine_getListMembers_members:
  "engine_getListMembers k w = (Inr xs, w') \<Longrightarrow> xs = members w k \<and> w' = w"
  by (auto simp: engine_getListMembers_def redis_SMEMBERS_def members_def
      split: option.splits rval.splits)


lemma removeAll_empty: "removeAll i xs = [] \<Longrightarrow> x \<in> set xs \<Longrightarrow> x = i"
  by (induction xs) (auto split: if_splits)

lemma removeFromList_effect:
  assumes "engine_removeFromList k (JStr i) w = (Inr u, w')"
  shows "set (members w' k) = set (members w k) - {i}"
    and "\<And>k'. k' \<noteq> k \<Longrightarrow> store w' k' = store w k'"
    and "\<not> has_record w' k" and "\<not> has_record w k"
  using assms
  by (auto simp: engine_removeFromList_def redis_SREM_def members_def has_record_def
      dest: removeAll_empty split: option.splits rval.splits if_splits)


lemma members_cong: "store w' k = store w k \<Longrightarrow> members w' k = members w k"
  by (simp add: members_def)

lemma has_record_cong: "store w' k = store w k \<Longrightarrow> has_record w' k = has_record w k"
  by (simp add: has_record_def)


lemma record_remove_effect:
  assumes "io_bind (engine_get krec) (\<lambda>x.
             case x of Some r \<Rightarrow> io_then (engine_removeFromList kidx (JStr i)) (engine_remove krec)
             | None \<Rightarrow> io_return ()) w = (Inr (), w')"
  shows "store w' krec = None"
    and "\<And>k. k \<noteq> kidx \<Longrightarrow> k \<noteq> krec \<Longrightarrow> store w' k = store w k"
    and "has_record w krec \<Longrightarrow> set (members w' kidx) = set (members w kidx) - {i}"
    and "\<not> has_record w krec \<Longrightarrow> w' = w"
proof -
  from assms obtain x where g: "engine_get krec w = (Inr x, w)"
    and rest: "(case x of Some r \<Rightarrow> io_then (engine_removeFromList kidx (JStr i)) (engine_remove krec)
             | None \<Rightarrow> io_return ()) w = (Inr (), w')"
    by (auto elim!: io_bindE simp: engine_get_ok)
  have "store w' krec = None \<and> (\<forall>k. k \<noteq> kidx \<longrightarrow> k \<noteq> krec \<longrightarrow> store w' k = store w k)
    \<and> (has_record w krec \<longrightarrow> set (members w' kidx) = set (members w kidx) - {i})
    \<and> (\<not> has_record w krec \<longrightarrow> w' = w)"
  proof (cases x)
    case None
    with g rest have "store w krec = None" "w' = w"
      by (auto simp: engine_get_ok split: option.splits rval.splits)
    then show ?thesis by (simp add: has_record_def)
  next
    case (Some r)
    with g have hr: "has_record w krec"
      by (auto simp: engine_get_ok has_record_def split: option.splits rval.splits)
    from rest Some obtain u1 w2 where a: "engine_removeFromList kidx (JStr i) w = (Inr u1, w2)"
      and b: "engine_remove krec w2 = (Inr (), w')"
      by (auto elim: io_thenE)
    from removeFromList_effect(4) [OF a] hr have ne: "kidx \<noteq> krec" by auto
    from b have w': "w' = w2\<lparr>store := (store w2)(krec := None)\<rparr>" by (simp add: engine_remove_ok)
    have 1: "store w' krec = None" by (simp add: w')
    have 2: "store w' k = store w k" if "k \<noteq> kidx" "k \<noteq> krec" for k
      using that removeFromList_effect(2) [OF a] by (simp add: w')
    have 3: "set (members w' kidx) = set (members w kidx) - {i}"
      using removeFromList_effect(1) [OF a] ne by (simp add: w' members_def)
    from 1 2 3 hr show ?thesis by simp
  qed
  then show "store w' krec = None" and "\<And>k. k \<noteq> kidx \<Longrightarrow> k \<noteq> krec \<Longrightarrow> store w' k = store w k"
    and "has_record w krec \<Longrightarrow> set (members w' kidx) = set (members w kidx) - {i}"
    and "\<not> has_record w krec \<Longrightarrow> w' = w"
    by simp_all
qed

section \<open>Caches scoped by a guild\<close>

lemma js_string_JStr: "js_string (JStr s) = s"
  by simp

lemma scoped_keys:
  assumes "g \<noteq> []" and "k = Role \<or> k = Emoji \<or> k = Member"
  shows "record_key k (JStr i) (JStr g) = index_key k (JStr g) @ ''.'' @ i"
  using assms
  by (auto simp: RoleCache_buildId_def EmojiCache_buildId_def MemberCache_buildId_def
      BaseCache_buildId_def)

lemma scoped_remove_form:
  assumes "scope \<noteq> JUndef" and "k = Role \<or> k = Emoji \<or> k = Member"
  shows "cache_remove k i scope =
    io_bind (engine_get (record_key k i scope)) (\<lambda>x.
      case x of Some r \<Rightarrow> io_then (engine_removeFromList (index_key k scope) i)
                           (engine_remove (record_key k i scope))
      | None \<Rightarrow> io_return ())"
  using assms
  by (auto simp: RoleCache_remove_def EmojiCache_remove_def MemberCache_remove_def
      RoleCache_removeFromIndex_def EmojiCache_removeFromIndex_def MemberCache_removeFromIndex_def
      removeFromIndex_given with_default_given cong: option.case_cong)

lemma record_remove_keeps_list:
  assumes "io_bind (engine_get krec) (\<lambda>x.
             case x of Some r \<Rightarrow> io_then (engine_removeFromList kidx (JStr i)) (engine_remove krec)
             | None \<Rightarrow> io_return ()) w = (Inr (), w')"
    and "\<not> has_record w kidx"
  shows "\<not> has_record w' kidx"
proof (cases "has_record w krec")
  case False
  from record_remove_effect(4) [OF assms(1) False] assms(2) show ?thesis by simp
next
  case True
  with assms(2) have ne: "kidx \<noteq> krec" by auto
  show ?thesis
  proof (cases "store w kidx")
    case None
    have "\<not> has_record w' kidx"
      using assms(1) None ne
      by (auto simp: io_bind_def io_then_def io_return_def engine_get_def redis_GET_def
          engine_removeFromList_def redis_SREM_def engine_remove_def redis_DEL_def has_record_def
          split: option.splits rval.splits if_splits prod.splits sum.splits)
    then show ?thesis .
  next
    case (Some v)
    show ?thesis
      using assms Some ne
      by (auto simp: io_bind_def io_then_def io_return_def engine_get_def redis_GET_def
          engine_removeFromList_def redis_SREM_def engine_remove_def redis_DEL_def has_record_def
          split: option.splits rval.splits if_splits prod.splits sum.splits)
  qed
qed

text \<open>
  Removing, one after the other, the ids of a list that are outside \<open>N\<close> from a cache
  whose indexed ids all have their records.
\<close>

lemma foreach_remove:
  fixes N :: "string set"
  defines "K \<equiv> \<lambda>k g. index_key k (JStr g)"
  defines "R \<equiv> \<lambda>k g a. record_key k (JStr a) (JStr g)"
  assumes run: "io_foreach xs (\<lambda>a. if a \<in> N then io_return () else cache_remove k (JStr a) (JStr g)) w
                  = (Inr (), w')"
    and g: "g \<noteq> []" and k: "k = Role \<or> k = Emoji \<or> k = Member"
    and cons: "\<forall>i \<in> set (members w (K k g)). has_record w (R k g i)"
    and list: "\<not> has_record w (K k g)"
  shows "set (members w' (K k g)) = set (members w (K k g)) - (set xs - N)
    \<and> (\<forall>i \<in> set (members w' (K k g)). has_record w' (R k g i))
    \<and> (\<forall>a \<in> set xs - N. store w' (R k g a) = None)
    \<and> \<not> has_record w' (K k g)
    \<and> (\<forall>k'. k' \<noteq> K k g \<longrightarrow> (\<forall>a. k' \<noteq> R k g a) \<longrightarrow> store w' k' = store w k')"
proof -
  let ?P = "\<lambda>ys w1. set (members w1 (K k g)) = set (members w (K k g)) - (set ys - N)
    \<and> (\<forall>i \<in> set (members w1 (K k g)). has_record w1 (R k g i))
    \<and> (\<forall>a \<in> set ys - N. store w1 (R k g a) = None)
    \<and> \<not> has_record w1 (K k g)
    \<and> (\<forall>k'. k' \<noteq> K k g \<longrightarrow> (\<forall>a. k' \<noteq> R k g a) \<longrightarrow> store w1 k' = store w k')"
  have RK: "R k g a = K k g @ ''.'' @ a" for a
    using scoped_keys [OF g k] by (simp add: R_def K_def)
  have inj: "R k g a = R k g b \<longleftrightarrow> a = b" for a b by (simp add: RK)
  have neq: "R k g a \<noteq> K k g" for a by (simp add: RK)
  show ?thesis
  proof (rule io_foreach_prefix_induct [where P = ?P, OF run])
    show "?P [] w" using cons list by simp
  next
    fix ys x w1 w2
    assume P: "?P ys w1"
      and step: "(if x \<in> N then io_return () else cache_remove k (JStr x) (JStr g)) w1 = (Inr (), w2)"
    show "?P (ys @ [x]) w2"
    proof (cases "x \<in> N")
      case True
      with step have "w2 = w1" by simp
      with P True show ?thesis by auto
    next
      case False
      with step have c: "cache_remove k (JStr x) (JStr g) w1 = (Inr (), w2)" by simp
      have rm: "io_bind (engine_get (R k g x)) (\<lambda>r.
          case r of Some r \<Rightarrow> io_then (engine_removeFromList (K k g) (JStr x)) (engine_remove (R k g x))
          | None \<Rightarrow> io_return ()) w1 = (Inr (), w2)"
        unfolding R_def K_def
        using c scoped_remove_form [OF _ k, of "JStr g" "JStr x"] by simp
      note e = record_remove_effect [OF rm]
      have l2: "\<not> has_record w2 (K k g)"
        using record_remove_keeps_list [OF rm] P by simp
      show ?thesis
      proof (cases "has_record w1 (R k g x)")
        case True
        have m: "set (members w2 (K k g)) = set (members w1 (K k g)) - {x}"
          using e(3) [OF True] .
        have keep: "store w2 (R k g a) = store w1 (R k g a)" if "a \<noteq> x" for a
          using e(2) [of "R k g a"] that by (simp add: inj neq)
        have 1: "set (members w2 (K k g)) = set (members w (K k g)) - (set (ys @ [x]) - N)"
          using m P False by auto
        have 2: "\<forall>i \<in> set (members w2 (K k g)). has_record w2 (R k g i)"
        proof
          fix i assume "i \<in> set (members w2 (K k g))"
          with m have "i \<in> set (members w1 (K k g))" "i \<noteq> x" by auto
          with P keep [of i] show "has_record w2 (R k g i)" by (simp add: has_record_def)
        qed
        have 3: "\<forall>a \<in> set (ys @ [x]) - N. store w2 (R k g a) = None"
        proof
          fix a assume a: "a \<in> set (ys @ [x]) - N"
          show "store w2 (R k g a) = None"
          proof (cases "a = x")
            case True
            then show ?thesis using e(1) by simp
          next
            case False
            with a P keep [of a] show ?thesis by auto
          qed
        qed
        have 5: "\<forall>k'. k' \<noteq> K k g \<longrightarrow> (\<forall>a. k' \<noteq> R k g a) \<longrightarrow> store w2 k' = store w k'"
          using e(2) P by auto
        from 1 2 3 l2 5 show ?thesis by blast
      next
        case nr: False
        have same: "w2 = w1" using e(4) [OF nr] .
        from P nr have "x \<notin> set (members w1 (K k g))" by auto
        then have 1: "set (members w2 (K k g)) = set (members w (K k g)) - (set (ys @ [x]) - N)"
          using P same by auto
        have 3: "\<forall>a \<in> set (ys @ [x]) - N. store w2 (R k g a) = None"
          using P e(1) same by auto
        from 1 3 P same show ?thesis by blast
      qed
    qed
  qed
qed

section \<open>Emoji reconciliation\<close>






lemma getListMembers_members:
  "engine_getListMembers k w = (Inr xs, w1) \<longleftrightarrow> \<not> has_record w k \<and> xs = members w k \<and> w1 = w"
  by (auto simp: engine_getListMembers_def redis_SMEMBERS_def members_def has_record_def
      split: option.splits rval.splits)

lemma engine_get_record:
  "fst (engine_get k w) = Inr (Some r) \<longleftrightarrow> store w k = Some (RString r)"
  "fst (engine_get k w) = Inr None \<longleftrightarrow> store w k = None"
  by (auto simp: engine_get_def redis_GET_def split: option.splits rval.splits)


lemmas emoji_defs = EmojiCache_update_def EmojiCache_remove_def EmojiCache_get_def EmojiCache_buildId_def
  EmojiCache_addToIndex_def EmojiCache_removeFromIndex_def EmojiCache_isIndexed_def
  EmojiCache_getIndexMembers_def EmojiCache_filter_def engine_filter_def




lemma emoji_named_world_written:
  "store (snd (EmojiCache_update (JStr ''C'') (JStr ''7'') [''name'' \<mapsto> JStr ''c'']
       (snd (EmojiCache_update (JStr ''B'') (JStr ''7'') [''name'' \<mapsto> JStr ''b'']
         (snd (EmojiCache_update (JStr ''A'') (JStr ''7'') [''name'' \<mapsto> JStr ''a''] initial_world))))))
   = store emoji_named_world"
proof -
  let ?w1 = "initial_world\<lparr>store :=
     [''emoji.7'' \<mapsto> RSet [''A''],
      ''emoji.7.A'' \<mapsto> RString [''name'' \<mapsto> JStr ''a'']]\<rparr>"
  let ?w2 = "initial_world\<lparr>store :=
     [''emoji.7'' \<mapsto> RSet [''A'', ''B''],
      ''emoji.7.A'' \<mapsto> RString [''name'' \<mapsto> JStr ''a''],
      ''emoji.7.B'' \<mapsto> RString [''name'' \<mapsto> JStr ''b'']]\<rparr>"
  have 1: "snd (EmojiCache_update (JStr ''A'') (JStr ''7'') [''name'' \<mapsto> JStr ''a''] initial_world) = ?w1"
    by (simp add: initial_world_def emoji_defs index_defs io_defs redis_defs engine_defs
        prepareData_def drop_undef_def fun_eq_iff)
  have 2: "snd (EmojiCache_update (JStr ''B'') (JStr ''7'') [''name'' \<mapsto> JStr ''b''] ?w1) = ?w2"
    by (simp add: initial_world_def emoji_defs index_defs io_defs redis_defs engine_defs
        prepareData_def drop_undef_def fun_eq_iff)
  have 3: "snd (EmojiCache_update (JStr ''C'') (JStr ''7'') [''name'' \<mapsto> JStr ''c''] ?w2) = emoji_named_world"
    by (simp add: emoji_named_world_def initial_world_def emoji_defs index_defs io_defs redis_defs
        engine_defs prepareData_def drop_undef_def fun_eq_iff)
  show ?thesis by (simp only: 1 2 3)
qed


section \<open>Presence coalescing\<close>










lemma presence_key_neq: "''presence.'' @ k \<noteq> ''presence''"
  by simp



section \<open>Guild removal\<close>

lemma foreach_remove_frame:
  assumes run: "io_foreach xs (\<lambda>a. cache_remove k (JStr a) (JStr g)) w = (Inr (), w')"
    and k: "k = Role \<or> k = Emoji \<or> k = Member"
  shows "\<forall>k'. k' \<noteq> index_key k (JStr g) \<longrightarrow> (\<forall>a. k' \<noteq> record_key k (JStr a) (JStr g))
           \<longrightarrow> store w' k' = store w k'"
proof -
  let ?P = "\<lambda>(ys :: string list) w1. \<forall>k'. k' \<noteq> index_key k (JStr g) \<longrightarrow>
      (\<forall>a. k' \<noteq> record_key k (JStr a) (JStr g)) \<longrightarrow> store w1 k' = store w k'"
  show ?thesis
  proof (rule io_foreach_prefix_induct [where P = ?P, OF run])
    show "?P [] w" by simp
  next
    fix ys x w1 w2
    assume P: "?P ys w1" and c: "cache_remove k (JStr x) (JStr g) w1 = (Inr (), w2)"
    have rm: "io_bind (engine_get (record_key k (JStr x) (JStr g))) (\<lambda>r.
          case r of Some r \<Rightarrow> io_then (engine_removeFromList (index_key k (JStr g)) (JStr x))
                               (engine_remove (record_key k (JStr x) (JStr g)))
          | None \<Rightarrow> io_return ()) w1 = (Inr (), w2)"
      using c scoped_remove_form [OF _ k, of "JStr g" "JStr x"] by simp
    from record_remove_effect(2) [OF rm] P show "?P (ys @ [x]) w2" by simp
  qed
qed

lemma ChannelCache_remove_form:
  "ChannelCache_remove (JStr c) =
    io_bind (engine_get (''channel.'' @ c)) (\<lambda>x.
      case x of Some r \<Rightarrow> io_then (engine_removeFromList ''channel'' (JStr c))
                           (engine_remove (''channel.'' @ c))
      | None \<Rightarrow> io_return ())"
  by (simp add: ChannelCache_remove_def ChannelCache_removeFromIndex_def BaseCache_buildId_def
      cong: option.case_cong)

lemma foreach_channel_remove:
  assumes run: "io_foreach (map JStr cs) ChannelCache_remove w = (Inr (), w')"
  shows "(\<forall>c \<in> set cs. store w' (''channel.'' @ c) = None)
    \<and> (\<forall>k'. k' \<noteq> ''channel'' \<longrightarrow> (\<forall>c. k' \<noteq> ''channel.'' @ c) \<longrightarrow> store w' k' = store w k')"
proof -
  let ?P = "\<lambda>ys w1. (\<forall>c \<in> set ys. store w1 (''channel.'' @ c) = None)
    \<and> (\<forall>k'. k' \<noteq> ''channel'' \<longrightarrow> (\<forall>c. k' \<noteq> ''channel.'' @ c) \<longrightarrow> store w1 k' = store w k')"
  from run have run': "io_foreach cs (\<lambda>c. ChannelCache_remove (JStr c)) w = (Inr (), w')"
    by (simp add: io_foreach_map)
  show ?thesis
  proof (rule io_foreach_prefix_induct [where P = ?P, OF run'])
    show "?P [] w" by simp
  next
    fix ys x w1 w2
    assume P: "?P ys w1" and c: "ChannelCache_remove (JStr x) w1 = (Inr (), w2)"
    note e = record_remove_effect [OF c [unfolded ChannelCache_remove_form]]
    have 1: "\<forall>c \<in> set (ys @ [x]). store w2 (''channel.'' @ c) = None"
    proof
      fix c assume c: "c \<in> set (ys @ [x])"
      show "store w2 (''channel.'' @ c) = None"
      proof (cases "c = x")
        case True
        with e(1) show ?thesis by simp
      next
        case False
        then have "store w2 (''channel.'' @ c) = store w1 (''channel.'' @ c)"
          by (intro e(2)) simp_all
        with c False P show ?thesis by simp
      qed
    qed
    have 2: "\<forall>k'. k' \<noteq> ''channel'' \<longrightarrow> (\<forall>c. k' \<noteq> ''channel.'' @ c) \<longrightarrow> store w2 k' = store w k'"
      using e(2) P by simp
    from 1 2 show "?P (ys @ [x]) w2" by blast
  qed
qed

lemma ChannelMapCache_get_members:
  assumes "ChannelMapCache_get (JStr g) JUndef w = (Inr cs, w1)"
  shows "cs = map JStr (members w (''channelmap.guild.'' @ g)) \<and> w1 = w
    \<and> \<not> has_record w (''channelmap.guild.'' @ g)"
  using assms
  by (auto simp: ChannelMapCache_get_def ChannelMapCache_key_def ChannelMapCache__buildMapId_def
      BaseCache_buildId_def Let_def getListMembers_members elim!: io_bindE)

lemma ChannelMapCache_remove_effect:
  assumes "ChannelMapCache_remove (JStr g) JUndef w = (Inr (), w')"
  shows "w' = w\<lparr>store := (store w)(''channelmap.guild.'' @ g := None)\<rparr>"
  using assms
  by (auto simp: ChannelMapCache_remove_def ChannelMapCache_key_def ChannelMapCache__buildMapId_def
      BaseCache_buildId_def Let_def getListMembers_members engine_remove_ok elim!: io_bindE)

lemma scoped_getIndexMembers:
  assumes "cache_getIndexMembers k (JStr g) w = (Inr xs, w1)"
  shows "xs = members w (index_key k (JStr g)) \<and> w1 = w \<and> \<not> has_record w (index_key k (JStr g))"
proof -
  have "JStr g \<noteq> JUndef" by simp
  from assms [unfolded cache_getIndexMembers_key [OF this]] show ?thesis
    by (simp add: getListMembers_members)
qed

lemma scoped_index_key:
  "index_key Role (JStr g) = ''role.'' @ g"
  "index_key Emoji (JStr g) = ''emoji.'' @ g"
  "index_key Member (JStr g) = ''member.'' @ g"
  by (simp_all add: RoleCache_buildId_def EmojiCache_buildId_def MemberCache_buildId_def
      BaseCache_buildId_def)

lemma scoped_record_key:
  assumes "g \<noteq> []"
  shows "record_key Role (JStr a) (JStr g) = ''role.'' @ g @ ''.'' @ a"
    and "record_key Emoji (JStr a) (JStr g) = ''emoji.'' @ g @ ''.'' @ a"
    and "record_key Member (JStr a) (JStr g) = ''member.'' @ g @ ''.'' @ a"
  using assms
  by (simp_all add: RoleCache_buildId_def EmojiCache_buildId_def MemberCache_buildId_def
      BaseCache_buildId_def)

text \<open>
  The cascade of \<open>GuildCache.remove\<close> on a guild whose indexed roles and members have their
  records, in terms of the store.
\<close>

lemma GuildCache_remove_effect:
  assumes g: "g \<noteq> []"
    and guild: "has_record w (''guild.'' @ g)"
    and rc: "\<forall>i \<in> set (members w (''role.'' @ g)). has_record w (''role.'' @ g @ ''.'' @ i)"
    and mc: "\<forall>i \<in> set (members w (''member.'' @ g)). has_record w (''member.'' @ g @ ''.'' @ i)"
    and run: "GuildCache_remove (JStr g) w = (Inr (), w')"
  shows "members w' (''role.'' @ g) = [] \<and> \<not> has_record w' (''role.'' @ g)"
    and "members w' (''member.'' @ g) = [] \<and> \<not> has_record w' (''member.'' @ g)"
    and "\<forall>a \<in> set (members w (''role.'' @ g)). store w' (''role.'' @ g @ ''.'' @ a) = None"
    and "\<forall>a \<in> set (members w (''member.'' @ g)). store w' (''member.'' @ g @ ''.'' @ a) = None"
    and "\<forall>c \<in> set (members w (''channelmap.guild.'' @ g)). store w' (''channel.'' @ c) = None"
    and "store w' (''channelmap.guild.'' @ g) = None"
    and "g \<notin> set (members w' ''guild'') \<and> \<not> has_record w' ''guild''"
    and "store w' (''guild.'' @ g) = None"
proof -
  let ?Kr = "''role.'' @ g" and ?Km = "''member.'' @ g" and ?CM = "''channelmap.guild.'' @ g"
  have kE: "Emoji = Role \<or> Emoji = Emoji \<or> Emoji = Member" by simp
  have kR: "Role = Role \<or> Role = Emoji \<or> Role = Member" by simp
  have kM: "Member = Role \<or> Member = Emoji \<or> Member = Member" by simp
  from guild obtain r where gr: "engine_get (BaseCache_buildId ''guild'' (JStr g)) w = (Inr (Some r), w)"
    by (auto simp: has_record_def engine_get_ok BaseCache_buildId_def split: option.splits rval.splits)
  from run gr have "io_bind (ChannelMapCache_get (JStr g) JUndef) (\<lambda>channels.
        io_bind (RoleCache_getIndexMembers (JStr g)) (\<lambda>roles.
        io_bind (EmojiCache_getIndexMembers (JStr g)) (\<lambda>emojis.
        io_bind (MemberCache_getIndexMembers (JStr g)) (\<lambda>members.
        io_then (io_foreach emojis (\<lambda>emoji. EmojiCache_remove (JStr emoji) (JStr g)))
       (io_then (io_foreach roles (\<lambda>role. RoleCache_remove (JStr role) (JStr g)))
       (io_then (io_foreach channels (\<lambda>channel. ChannelCache_remove channel))
       (io_then (io_foreach members (\<lambda>member. MemberCache_remove (JStr member) (JStr g)))
       (io_then (ChannelMapCache_remove (JStr g) JUndef)
       (io_then (GuildCache_removeFromIndex (JStr g))
                (engine_remove (BaseCache_buildId ''guild'' (JStr g)))))))))))) w = (Inr (), w')"
    unfolding GuildCache_remove_def by (simp add: io_bind_Inr)
  then obtain channels wa where c0: "ChannelMapCache_get (JStr g) JUndef w = (Inr channels, wa)"
    and "io_bind (RoleCache_getIndexMembers (JStr g)) (\<lambda>roles.
        io_bind (EmojiCache_getIndexMembers (JStr g)) (\<lambda>emojis.
        io_bind (MemberCache_getIndexMembers (JStr g)) (\<lambda>members.
        io_then (io_foreach emojis (\<lambda>emoji. EmojiCache_remove (JStr emoji) (JStr g)))
       (io_then (io_foreach roles (\<lambda>role. RoleCache_remove (JStr role) (JStr g)))
       (io_then (io_foreach channels (\<lambda>channel. ChannelCache_remove channel))
       (io_then (io_foreach members (\<lambda>member. MemberCache_remove (JStr member) (JStr g)))
       (io_then (ChannelMapCache_remove (JStr g) JUndef)
       (io_then (GuildCache_removeFromIndex (JStr g))
                (engine_remove (BaseCache_buildId ''guild'' (JStr g))))))))))) wa = (Inr (), w')"
    by (rule io_bindE)
  moreover from ChannelMapCache_get_members [OF c0]
  have ch: "channels = map JStr (members w ?CM)" and "wa = w" by simp_all
  ultimately obtain roles wb where r0: "cache_getIndexMembers Role (JStr g) w = (Inr roles, wb)"
    and "io_bind (EmojiCache_getIndexMembers (JStr g)) (\<lambda>emojis.
        io_bind (MemberCache_getIndexMembers (JStr g)) (\<lambda>members.
        io_then (io_foreach emojis (\<lambda>emoji. EmojiCache_remove (JStr emoji) (JStr g)))
       (io_then (io_foreach roles (\<lambda>role. RoleCache_remove (JStr role) (JStr g)))
       (io_then (io_foreach channels (\<lambda>channel. ChannelCache_remove channel))
       (io_then (io_foreach members (\<lambda>member. MemberCache_remove (JStr member) (JStr g)))
       (io_then (ChannelMapCache_remove (JStr g) JUndef)
       (io_then (GuildCache_removeFromIndex (JStr g))
                (engine_remove (BaseCache_buildId ''guild'' (JStr g)))))))))) wb = (Inr (), w')"
    by (auto elim: io_bindE)
  moreover from scoped_getIndexMembers [OF r0, unfolded scoped_index_key]
  have ro: "roles = members w ?Kr" and "wb = w" and lr: "\<not> has_record w ?Kr"
    by simp_all
  ultimately obtain emojis wc where e0: "cache_getIndexMembers Emoji (JStr g) w = (Inr emojis, wc)"
    and "io_bind (MemberCache_getIndexMembers (JStr g)) (\<lambda>members.
        io_then (io_foreach emojis (\<lambda>emoji. EmojiCache_remove (JStr emoji) (JStr g)))
       (io_then (io_foreach roles (\<lambda>role. RoleCache_remove (JStr role) (JStr g)))
       (io_then (io_foreach channels (\<lambda>channel. ChannelCache_remove channel))
       (io_then (io_foreach members (\<lambda>member. MemberCache_remove (JStr member) (JStr g)))
       (io_then (ChannelMapCache_remove (JStr g) JUndef)
       (io_then (GuildCache_removeFromIndex (JStr g))
                (engine_remove (BaseCache_buildId ''guild'' (JStr g))))))))) wc = (Inr (), w')"
    by (auto elim: io_bindE)
  moreover from scoped_getIndexMembers [OF e0] have "wc = w" by simp
  ultimately obtain mems wd where m0: "cache_getIndexMembers Member (JStr g) w = (Inr mems, wd)"
    and "io_then (io_foreach emojis (\<lambda>emoji. EmojiCache_remove (JStr emoji) (JStr g)))
       (io_then (io_foreach roles (\<lambda>role. RoleCache_remove (JStr role) (JStr g)))
       (io_then (io_foreach channels (\<lambda>channel. ChannelCache_remove channel))
       (io_then (io_foreach mems (\<lambda>member. MemberCache_remove (JStr member) (JStr g)))
       (io_then (ChannelMapCache_remove (JStr g) JUndef)
       (io_then (GuildCache_removeFromIndex (JStr g))
                (engine_remove (BaseCache_buildId ''guild'' (JStr g)))))))) wd = (Inr (), w')"
    by (auto elim: io_bindE)
  moreover from scoped_getIndexMembers [OF m0, unfolded scoped_index_key]
  have me: "mems = members w ?Km" and "wd = w" and lm: "\<not> has_record w ?Km"
    by simp_all
  ultimately have "io_then (io_foreach emojis (\<lambda>emoji. cache_remove Emoji (JStr emoji) (JStr g)))
       (io_then (io_foreach roles (\<lambda>role. cache_remove Role (JStr role) (JStr g)))
       (io_then (io_foreach channels ChannelCache_remove)
       (io_then (io_foreach mems (\<lambda>member. cache_remove Member (JStr member) (JStr g)))
       (io_then (ChannelMapCache_remove (JStr g) JUndef)
       (io_then (GuildCache_removeFromIndex (JStr g))
                (engine_remove (BaseCache_buildId ''guild'' (JStr g)))))))) w = (Inr (), w')"
    by simp
  then obtain u1 u2 u3 u4 u5 u6 w1 w2 w3 w4 w5 w6 where
    s1: "io_foreach emojis (\<lambda>emoji. cache_remove Emoji (JStr emoji) (JStr g)) w = (Inr u1, w1)" and
    s2: "io_foreach roles (\<lambda>role. cache_remove Role (JStr role) (JStr g)) w1 = (Inr u2, w2)" and
    s3: "io_foreach channels ChannelCache_remove w2 = (Inr u3, w3)" and
    s4: "io_foreach mems (\<lambda>member. cache_remove Member (JStr member) (JStr g)) w3 = (Inr u4, w4)" and
    s5: "ChannelMapCache_remove (JStr g) JUndef w4 = (Inr u5, w5)" and
    s6: "GuildCache_removeFromIndex (JStr g) w5 = (Inr u6, w6)" and
    s7: "engine_remove (BaseCache_buildId ''guild'' (JStr g)) w6 = (Inr (), w')"
    by (elim io_thenE) blast
  have s1': "io_foreach emojis (\<lambda>emoji. cache_remove Emoji (JStr emoji) (JStr g)) w = (Inr (), w1)"
    using s1 by (cases u1) (simp only:)
  have s2': "io_foreach roles (\<lambda>role. cache_remove Role (JStr role) (JStr g)) w1 = (Inr (), w2)"
    using s2 by (cases u2) (simp only:)
  have s3': "io_foreach (map JStr (members w ?CM)) ChannelCache_remove w2 = (Inr (), w3)"
    using s3 unfolding ch by (cases u3) (simp only:)
  have s4': "io_foreach mems (\<lambda>member. cache_remove Member (JStr member) (JStr g)) w3 = (Inr (), w4)"
    using s4 by (cases u4) (simp only:)
  have s5': "ChannelMapCache_remove (JStr g) JUndef w4 = (Inr (), w5)"
    using s5 by (cases u5) (simp only:)
  note f1 = foreach_remove_frame [OF s1' kE, unfolded scoped_index_key scoped_record_key [OF g]]
  have a1: "store w1 k = store w k" if "hd k \<noteq> CHR ''e''" for k
    using that f1 by (cases k) auto
  have c1: "\<forall>i \<in> set (members w1 (index_key Role (JStr g))).
      has_record w1 (record_key Role (JStr i) (JStr g))"
    unfolding scoped_index_key scoped_record_key [OF g]
    using rc by (simp add: members_def has_record_def a1)
  have l1: "\<not> has_record w1 (index_key Role (JStr g))"
    unfolding scoped_index_key using lr by (simp add: has_record_def a1)
  have s2'': "io_foreach roles (\<lambda>a. if a \<in> {} then io_return ()
      else cache_remove Role (JStr a) (JStr g)) w1 = (Inr (), w2)"
    using s2' by simp
  note f2 = foreach_remove [OF s2'' g kR c1 l1, unfolded scoped_index_key scoped_record_key [OF g]]
  have r1: "members w1 ?Kr = roles"
    by (simp add: ro members_def a1)
  have m2: "members w2 ?Kr = []" and h2: "\<not> has_record w2 ?Kr"
    and d2: "\<forall>a \<in> set roles. store w2 (''role.'' @ g @ ''.'' @ a) = None"
    using f2 r1 by simp_all
  have a2: "store w2 k = store w1 k" if "hd k \<noteq> CHR ''r''" for k
    using that f2 by (cases k) auto
  note f3 = foreach_channel_remove [OF s3']
  have a3: "store w3 k = store w2 k" if "hd k \<noteq> CHR ''c''" for k
    using that f3 by (cases k) auto
  have c3: "\<forall>i \<in> set (members w3 (index_key Member (JStr g))).
      has_record w3 (record_key Member (JStr i) (JStr g))"
    unfolding scoped_index_key scoped_record_key [OF g]
    using mc by (simp add: members_def has_record_def a1 a2 a3)
  have l3: "\<not> has_record w3 (index_key Member (JStr g))"
    unfolding scoped_index_key using lm by (simp add: has_record_def a1 a2 a3)
  have s4'': "io_foreach mems (\<lambda>a. if a \<in> {} then io_return ()
      else cache_remove Member (JStr a) (JStr g)) w3 = (Inr (), w4)"
    using s4' by simp
  note f4 = foreach_remove [OF s4'' g kM c3 l3, unfolded scoped_index_key scoped_record_key [OF g]]
  have r3: "members w3 ?Km = mems"
    by (simp add: me members_def a1 a2 a3)
  have m4: "members w4 ?Km = []" and h4: "\<not> has_record w4 ?Km"
    and d4: "\<forall>a \<in> set mems. store w4 (''member.'' @ g @ ''.'' @ a) = None"
    using f4 r3 by simp_all
  have a4: "store w4 k = store w3 k" if "hd k \<noteq> CHR ''m''" for k
    using that f4 by (cases k) auto
  have w5: "w5 = w4\<lparr>store := (store w4)(?CM := None)\<rparr>"
    using s5' by (rule ChannelMapCache_remove_effect)
  from s6 have s6': "engine_removeFromList ''guild'' (JStr g) w5 = (Inr u6, w6)"
    by (simp add: GuildCache_removeFromIndex_def)
  note f6 = removeFromList_effect [OF s6']
  from s7 have w': "w' = w6\<lparr>store := (store w6)(''guild.'' @ g := None)\<rparr>"
    by (simp add: engine_remove_ok BaseCache_buildId_def)
  have a7: "store w' k = store w4 k" if "k \<noteq> ?CM" "k \<noteq> ''guild''" "k \<noteq> ''guild.'' @ g" for k
    using that f6(2) [of k] by (simp add: w' w5)
  have kr: "store w' ?Kr = store w2 ?Kr"
    by (simp add: a7 a4 a3)
  have km: "store w' ?Km = store w4 ?Km"
    by (simp add: a7)
  show "members w' (''role.'' @ g) = [] \<and> \<not> has_record w' (''role.'' @ g)"
    using m2 h2 kr by (simp add: members_def has_record_def)
  show "members w' (''member.'' @ g) = [] \<and> \<not> has_record w' (''member.'' @ g)"
    using m4 h4 km by (simp add: members_def has_record_def)
  show "\<forall>a \<in> set (members w (''role.'' @ g)). store w' (''role.'' @ g @ ''.'' @ a) = None"
    using d2 by (simp add: ro a7 a4 a3)
  show "\<forall>a \<in> set (members w (''member.'' @ g)). store w' (''member.'' @ g @ ''.'' @ a) = None"
    using d4 by (simp add: me a7)
  show "\<forall>c \<in> set (members w (''channelmap.guild.'' @ g)). store w' (''channel.'' @ c) = None"
    using f3 by (simp add: a7 a4)
  show "store w' (''channelmap.guild.'' @ g) = None"
    using f6(2) [of ?CM] by (simp add: w' w5)
  show "g \<notin> set (members w' ''guild'') \<and> \<not> has_record w' ''guild''"
    using f6(1,3) by (simp add: w' members_def has_record_def)
  show "store w' (''guild.'' @ g) = None"
    by (simp add: w')
qed

lemma isListMember_members:
  "\<not> has_record w k \<Longrightarrow> engine_isListMember k (JStr i) w = (Inr (i \<in> set (members w k)), w)"
  by (auto simp: engine_isListMember_def redis_SISMEMBER_def members_def has_record_def
      split: option.splits rval.splits)

text \<open>
  C3, as amended. On an existing guild whose indexed roles and members all have their
  records, \<open>GuildCache.remove\<close>, when it completes, leaves the role index and the member
  index of the guild empty, with no record of a role or member that was indexed, leaves no
  record of a channel listed in the guild's channel map, deletes the channel map, takes
  the guild id out of the guild index and deletes the guild record.
\<close>

theorem guild_remove_cascades:
  assumes "g \<noteq> []"
    and "fst (GuildCache_get (JStr g) w) = Inr (Some r)"
    and "RoleCache_getIndexMembers (JStr g) w = (Inr roles, w)"
    and "\<forall>i \<in> set roles. \<exists>x. fst (RoleCache_get (JStr i) (JStr g) w) = Inr (Some x)"
    and "MemberCache_getIndexMembers (JStr g) w = (Inr mems, w)"
    and "\<forall>i \<in> set mems. \<exists>x. fst (MemberCache_get (JStr i) (JStr g) w) = Inr (Some x)"
    and "ChannelMapCache_get (JStr g) JUndef w = (Inr channels, w)"
    and "GuildCache_remove (JStr g) w = (Inr (), w')"
  shows "RoleCache_getIndexMembers (JStr g) w' = (Inr [], w')
    \<and> MemberCache_getIndexMembers (JStr g) w' = (Inr [], w')
    \<and> (\<forall>i \<in> set roles. fst (RoleCache_get (JStr i) (JStr g) w') = Inr None)
    \<and> (\<forall>i \<in> set mems. fst (MemberCache_get (JStr i) (JStr g) w') = Inr None)
    \<and> (\<forall>c \<in> set channels. fst (ChannelCache_get c w') = Inr None)
    \<and> store w' (ChannelMapCache_key (JStr g) (JStr ''guild'')) = None
    \<and> fst (GuildCache_isIndexed (JStr g) w') = Inr False
    \<and> fst (GuildCache_get (JStr g) w') = Inr None"
proof -
  have s: "JStr g \<noteq> JUndef" by simp
  have get: "fst (cache_get k (JStr i) (JStr g) v) = fst (engine_get (record_key k (JStr i) (JStr g)) v)"
    for k i v
    using s by (rule cache_get_key)
  have gi: "cache_getIndexMembers k (JStr g) = engine_getListMembers (index_key k (JStr g))" for k
    using s by (rule cache_getIndexMembers_key)
  note rk = scoped_record_key [OF assms(1)]
  have gG: "fst (GuildCache_get (JStr g) v) = fst (engine_get (''guild.'' @ g) v)" for v
    using get [of Guild g v] by (simp add: BaseCache_buildId_def)
  have gR: "fst (RoleCache_get (JStr i) (JStr g) v) = fst (engine_get (''role.'' @ g @ ''.'' @ i) v)"
    for i v
    using get [of Role i v, unfolded rk] by simp
  have gM: "fst (MemberCache_get (JStr i) (JStr g) v) = fst (engine_get (''member.'' @ g @ ''.'' @ i) v)"
    for i v
    using get [of Member i v, unfolded rk] by simp
  have gC: "fst (ChannelCache_get (JStr c) v) = fst (engine_get (''channel.'' @ c) v)" for c v
    using get [of Channel c v] by (simp add: BaseCache_buildId_def)
  have some: "has_record v key" if "fst (engine_get key v) = Inr (Some x)" for v key x
    using that by (simp add: engine_get_record has_record_def)
  have none: "fst (engine_get key v) = Inr None" if "store v key = None" for v key
    using that by (simp add: engine_get_record)
  have iR: "RoleCache_getIndexMembers (JStr g) = engine_getListMembers (''role.'' @ g)"
    using gi [of Role, unfolded scoped_index_key] by simp
  have iM: "MemberCache_getIndexMembers (JStr g) = engine_getListMembers (''member.'' @ g)"
    using gi [of Member, unfolded scoped_index_key] by simp
  have guild: "has_record w (''guild.'' @ g)"
    using assms(2) unfolding gG by (rule some)
  from assms(3) have ro: "roles = members w (''role.'' @ g)"
    unfolding iR by (simp add: getListMembers_members)
  from assms(5) have me: "mems = members w (''member.'' @ g)"
    unfolding iM by (simp add: getListMembers_members)
  from ChannelMapCache_get_members [OF assms(7)]
  have ch: "channels = map JStr (members w (''channelmap.guild.'' @ g))" by simp
  have rc: "\<forall>i \<in> set (members w (''role.'' @ g)). has_record w (''role.'' @ g @ ''.'' @ i)"
  proof
    fix i assume "i \<in> set (members w (''role.'' @ g))"
    with assms(4) ro obtain x where "fst (RoleCache_get (JStr i) (JStr g) w) = Inr (Some x)" by blast
    then show "has_record w (''role.'' @ g @ ''.'' @ i)"
      unfolding gR by (rule some)
  qed
  have mc: "\<forall>i \<in> set (members w (''member.'' @ g)). has_record w (''member.'' @ g @ ''.'' @ i)"
  proof
    fix i assume "i \<in> set (members w (''member.'' @ g))"
    with assms(6) me obtain x where "fst (MemberCache_get (JStr i) (JStr g) w) = Inr (Some x)" by blast
    then show "has_record w (''member.'' @ g @ ''.'' @ i)"
      unfolding gM by (rule some)
  qed
  note e = GuildCache_remove_effect [OF assms(1) guild rc mc assms(8)]
  have 1: "RoleCache_getIndexMembers (JStr g) w' = (Inr [], w')"
    unfolding iR using e(1) by (simp add: getListMembers_members)
  have 2: "MemberCache_getIndexMembers (JStr g) w' = (Inr [], w')"
    unfolding iM using e(2) by (simp add: getListMembers_members)
  have 3: "\<forall>i \<in> set roles. fst (RoleCache_get (JStr i) (JStr g) w') = Inr None"
  proof
    fix i assume "i \<in> set roles"
    with e(3) ro have "store w' (''role.'' @ g @ ''.'' @ i) = None" by blast
    then show "fst (RoleCache_get (JStr i) (JStr g) w') = Inr None"
      unfolding gR by (rule none)
  qed
  have 4: "\<forall>i \<in> set mems. fst (MemberCache_get (JStr i) (JStr g) w') = Inr None"
  proof
    fix i assume "i \<in> set mems"
    with e(4) me have "store w' (''member.'' @ g @ ''.'' @ i) = None" by blast
    then show "fst (MemberCache_get (JStr i) (JStr g) w') = Inr None"
      unfolding gM by (rule none)
  qed
  have 5: "\<forall>c \<in> set channels. fst (ChannelCache_get c w') = Inr None"
  proof
    fix c assume "c \<in> set channels"
    with ch obtain c' where c: "c = JStr c'" and "c' \<in> set (members w (''channelmap.guild.'' @ g))"
      by auto
    with e(5) have "store w' (''channel.'' @ c') = None" by blast
    then show "fst (ChannelCache_get c w') = Inr None"
      unfolding c gC by (rule none)
  qed
  have 6: "store w' (ChannelMapCache_key (JStr g) (JStr ''guild'')) = None"
    using e(6) by (simp add: ChannelMapCache_key_def ChannelMapCache__buildMapId_def BaseCache_buildId_def)
  have 7: "fst (GuildCache_isIndexed (JStr g) w') = Inr False"
    using e(7) by (simp add: GuildCache_isIndexed_def isListMember_members)
  have 8: "fst (GuildCache_get (JStr g) w') = Inr None"
    unfolding gG using e(8) by (rule none)
  from 1 2 3 4 5 6 7 8 show ?thesis by blast
qed

lemmas guild_remove_defs = GuildCache_remove_def GuildCache_removeFromIndex_def GuildCache_get_def
  GuildCache_isIndexed_def GuildCache_bindAll_def ChannelMapCache_get_def ChannelMapCache_remove_def
  ChannelMapCache_key_def ChannelMapCache__buildMapId_def ChannelCache_remove_def ChannelCache_get_def
  ChannelCache_removeFromIndex_def PermissionOverwriteCache_bindChannel_def

lemma guild_world_completes:
  "fst (GuildCache_remove (JStr ''7'') guild_world) = Inr ()"
  by (simp add: guild_world_def initial_world_def guild_remove_defs emoji_defs role_defs member_defs
      index_defs io_defs redis_defs engine_defs field_def Let_def split: prod.splits)

theorem guild_remove_cascades_witness:
  "fst (GuildCache_remove (JStr ''7'') guild_world) = Inr ()
   \<and> RoleCache_getIndexMembers (JStr ''7'') guild_world = (Inr [''5''], guild_world)
   \<and> MemberCache_getIndexMembers (JStr ''7'') guild_world = (Inr [''42''], guild_world)
   \<and> ChannelMapCache_get (JStr ''7'') JUndef guild_world = (Inr [JStr ''9''], guild_world)
   \<and> fst (RoleCache_getIndexMembers (JStr ''7'') (snd (GuildCache_remove (JStr ''7'') guild_world))) = Inr []
   \<and> fst (MemberCache_getIndexMembers (JStr ''7'') (snd (GuildCache_remove (JStr ''7'') guild_world))) = Inr []
   \<and> fst (RoleCache_get (JStr ''5'') (JStr ''7'') (snd (GuildCache_remove (JStr ''7'') guild_world))) = Inr None
   \<and> fst (MemberCache_get (JStr ''42'') (JStr ''7'') (snd (GuildCache_remove (JStr ''7'') guild_world))) = Inr None
   \<and> fst (ChannelCache_get (JStr ''9'') (snd (GuildCache_remove (JStr ''7'') guild_world))) = Inr None
   \<and> store (snd (GuildCache_remove (JStr ''7'') guild_world)) ''channelmap.guild.7'' = None
   \<and> fst (GuildCache_isIndexed (JStr ''7'') (snd (GuildCache_remove (JStr ''7'') guild_world))) = Inr False
   \<and> fst (GuildCache_get (JStr ''7'') (snd (GuildCache_remove (JStr ''7'') guild_world))) = Inr None"
proof -
  let ?run = "GuildCache_remove (JStr ''7'') guild_world"
  have g: "''7'' \<noteq> []" by simp
  have a: "fst (GuildCache_get (JStr ''7'') guild_world) = Inr (Some [''id'' \<mapsto> JStr ''7''])"
    by (simp add: guild_world_def initial_world_def guild_remove_defs index_defs io_defs redis_defs
        engine_defs field_def)
  have b: "RoleCache_getIndexMembers (JStr ''7'') guild_world = (Inr [''5''], guild_world)"
    by (simp add: guild_world_def initial_world_def role_defs index_defs io_defs redis_defs engine_defs)
  have c: "fst (RoleCache_get (JStr i) (JStr ''7'') guild_world)
      = Inr (Some [''id'' \<mapsto> JStr ''5'', ''guild_id'' \<mapsto> JStr ''7''])" if "i = ''5''" for i
    using that
    by (simp add: guild_world_def initial_world_def role_defs index_defs io_defs redis_defs engine_defs)
  have c': "\<forall>i \<in> set [''5'']. \<exists>x. fst (RoleCache_get (JStr i) (JStr ''7'') guild_world) = Inr (Some x)"
  proof
    fix i :: string assume "i \<in> set [''5'']"
    then have "i = ''5''" by simp
    from c [OF this] show "\<exists>x. fst (RoleCache_get (JStr i) (JStr ''7'') guild_world) = Inr (Some x)"
      by (rule exI [of _ "[''id'' \<mapsto> JStr ''5'', ''guild_id'' \<mapsto> JStr ''7'']"])
  qed
  have d: "MemberCache_getIndexMembers (JStr ''7'') guild_world = (Inr [''42''], guild_world)"
    by (simp add: guild_world_def initial_world_def member_defs index_defs io_defs redis_defs engine_defs)
  have e: "fst (MemberCache_get (JStr i) (JStr ''7'') guild_world)
      = Inr (Some [''id'' \<mapsto> JStr ''42'', ''guild_id'' \<mapsto> JStr ''7''])" if "i = ''42''" for i
    using that
    by (simp add: guild_world_def initial_world_def member_defs index_defs io_defs redis_defs engine_defs)
  have e': "\<forall>i \<in> set [''42'']. \<exists>x. fst (MemberCache_get (JStr i) (JStr ''7'') guild_world) = Inr (Some x)"
  proof
    fix i :: string assume "i \<in> set [''42'']"
    then have "i = ''42''" by simp
    from e [OF this] show "\<exists>x. fst (MemberCache_get (JStr i) (JStr ''7'') guild_world) = Inr (Some x)"
      by (rule exI [of _ "[''id'' \<mapsto> JStr ''42'', ''guild_id'' \<mapsto> JStr ''7'']"])
  qed
  have f: "ChannelMapCache_get (JStr ''7'') JUndef guild_world = (Inr [JStr ''9''], guild_world)"
    by (simp add: guild_world_def initial_world_def guild_remove_defs index_defs io_defs redis_defs
        engine_defs Let_def)
  have fin: "fst ?run = Inr ()" by (rule guild_world_completes)
  then have run: "?run = (Inr (), snd ?run)" by (simp add: prod_eq_iff)
  note r = guild_remove_cascades [OF g a b c' d e' f run]
  have k: "ChannelMapCache_key (JStr ''7'') (JStr ''guild'') = ''channelmap.guild.7''"
    by (simp add: ChannelMapCache_key_def ChannelMapCache__buildMapId_def BaseCache_buildId_def)
  from r have 1: "fst (RoleCache_getIndexMembers (JStr ''7'') (snd ?run)) = Inr []"
    and 2: "fst (MemberCache_getIndexMembers (JStr ''7'') (snd ?run)) = Inr []"
    and 3: "fst (RoleCache_get (JStr ''5'') (JStr ''7'') (snd ?run)) = Inr None"
    and 4: "fst (MemberCache_get (JStr ''42'') (JStr ''7'') (snd ?run)) = Inr None"
    and 5: "fst (ChannelCache_get (JStr ''9'') (snd ?run)) = Inr None"
    and 6: "store (snd ?run) ''channelmap.guild.7'' = None"
    and 7: "fst (GuildCache_isIndexed (JStr ''7'') (snd ?run)) = Inr False"
    and 8: "fst (GuildCache_get (JStr ''7'') (snd ?run)) = Inr None"
    unfolding k by simp_all
  from fin b d f 1 2 3 4 5 6 7 8 show ?thesis by (intro conjI)
qed

text \<open>
  \<open>remove\<close> of a role does nothing when the role has no record, also not to the index. So
  an indexed role id without a record survives the cascade: after \<open>roleCache.addToIndex\<close>
  has put the id \<open>6\<close> into the role index of guild \<open>7\<close>, which then holds two ids,
  \<open>GuildCache.remove\<close> of the guild completes and the role index still holds \<open>6\<close>.
\<close>

lemma guild_world_unrecorded_role_written:
  "snd (RoleCache_addToIndex (JStr ''6'') (JStr ''7'') guild_world) = guild_world_unrecorded_role"
  by (simp add: guild_world_unrecorded_role_def guild_world_def initial_world_def role_defs index_defs
      io_defs redis_defs engine_defs)

theorem unrecorded_role_stays_indexed_counterexample:
  "fst (GuildCache_get (JStr ''7'') guild_world_unrecorded_role) = Inr (Some [''id'' \<mapsto> JStr ''7''])
   \<and> fst (RoleCache_getIndexMembers (JStr ''7'') guild_world_unrecorded_role) = Inr [''5'', ''6'']
   \<and> fst (GuildCache_remove (JStr ''7'') guild_world_unrecorded_role) = Inr ()
   \<and> fst (RoleCache_getIndexMembers (JStr ''7'')
            (snd (GuildCache_remove (JStr ''7'') guild_world_unrecorded_role))) = Inr [''6'']"
  by (simp add: guild_world_unrecorded_role_def guild_world_def initial_world_def guild_remove_defs
      emoji_defs role_defs member_defs index_defs io_defs redis_defs engine_defs field_def Let_def
      split: prod.splits)

end
